theory Spec2Isabelle
  imports Main
begin

section \<open>Python strings\<close>

text \<open>
  Python \<open>str\<close> values are modelled as \<open>string\<close>. The operations below are the
  ones the pull code applies to references and paths; each keeps the library's
  behaviour on the corner cases (empty strings, a missing separator).
\<close>

definition startswith :: "string \<Rightarrow> string \<Rightarrow> bool" where
  "startswith s p = (take (length p) s = p)"

definition endswith :: "string \<Rightarrow> string \<Rightarrow> bool" where
  "endswith s p = (length p \<le> length s \<and> drop (length s - length p) s = p)"

text \<open>\<open>s.split(c)\<close> for a one-character separator: never empty, \<open>"".split(c) = [""]\<close>.\<close>

fun str_split :: "char \<Rightarrow> string \<Rightarrow> string list" where
  "str_split c [] = [[]]"
| "str_split c (x # xs) =
     (if x = c then [] # str_split c xs
      else (case str_split c xs of
              [] \<Rightarrow> [[x]]
            | p # ps \<Rightarrow> (x # p) # ps))"

text \<open>\<open>s.split(c, 1)\<close>: cut at the first occurrence of the separator, if any.\<close>

definition str_split1 :: "char \<Rightarrow> string \<Rightarrow> string list" where
  "str_split1 c s =
     (if c \<in> set s
      then [takeWhile (\<lambda>x. x \<noteq> c) s, tl (dropWhile (\<lambda>x. x \<noteq> c) s)]
      else [s])"

text \<open>\<open>s.rsplit(c, 1)\<close>: cut at the last occurrence of the separator, if any.\<close>

definition str_rsplit1 :: "char \<Rightarrow> string \<Rightarrow> string list" where
  "str_rsplit1 c s =
     (if c \<in> set s
      then [rev (tl (dropWhile (\<lambda>x. x \<noteq> c) (rev s))), rev (takeWhile (\<lambda>x. x \<noteq> c) (rev s))]
      else [s])"

text \<open>\<open>sep.join(parts)\<close>.\<close>

fun str_join :: "string \<Rightarrow> string list \<Rightarrow> string" where
  "str_join sep [] = []"
| "str_join sep [p] = p"
| "str_join sep (p # q # ps) = p @ sep @ str_join sep (q # ps)"

text \<open>
  \<open>re.sub(r'^prefix', '', s)\<close> with a literal prefix, and \<open>s.removeprefix(prefix)\<close>:
  the prefix is dropped once, at the start only.
\<close>

definition removeprefix :: "string \<Rightarrow> string \<Rightarrow> string" where
  "removeprefix p s = (if startswith s p then drop (length p) s else s)"

text \<open>\<open>s.replace(a, b)\<close> for single characters.\<close>

definition str_replace :: "char \<Rightarrow> char \<Rightarrow> string \<Rightarrow> string" where
  "str_replace a b s = map (\<lambda>x. if x = a then b else x) s"

text \<open>
  \<open>s.rstrip()\<close>: trailing whitespace is dropped. The ASCII whitespace of
  \<open>str.isspace\<close> is tab, line feed, vertical tab, form feed, carriage return, the
  separators 28 to 31 and the space.
\<close>

definition isspace :: "char \<Rightarrow> bool" where
  "isspace c = (of_char c \<in> set [9, 10, 11, 12, 13, 28, 29, 30, 31, 32 :: nat])"

definition rstrip :: "string \<Rightarrow> string" where
  "rstrip s = rev (dropWhile isspace (rev s))"

definition rstrip_chr :: "char \<Rightarrow> string \<Rightarrow> string" where
  "rstrip_chr c s = rev (dropWhile (\<lambda>x. x = c) (rev s))"

section \<open>Exceptions\<close>

text \<open>
  Every way the code leaves a function other than by \<open>return\<close>: \<open>sys.exit(n)\<close> is
  \<open>SystemExit n\<close>, a failed \<open>subprocess.run(..., check=True)\<close> is
  \<open>CalledProcessError rc\<close>, the others are the Python exceptions of the same name.
\<close>

datatype exn =
    SystemExit int
  | CalledProcessError int
  | ValueError string
  | FileNotFoundError string
  | FileExistsError string
  | NotADirectoryError string
  | IsADirectoryError string
  | SameFileError string
  | OSError string
  | KeyError string
  | TypeError
  | IndexError
  | JSONDecodeError

section \<open>posixpath\<close>

text \<open>A path of the file system, as the code passes it: a string.\<close>

type_synonym path = string

text \<open>\<open>os.path.join(a, b)\<close>.\<close>

definition os_path_join :: "string \<Rightarrow> string \<Rightarrow> string" where
  "os_path_join a b =
     (if startswith b ''/'' then b
      else if a = [] \<or> endswith a ''/'' then a @ b
      else a @ ''/'' @ b)"

text \<open>\<open>os.path.basename(p)\<close>: what follows the last slash.\<close>

definition os_path_basename :: "string \<Rightarrow> string" where
  "os_path_basename p = rev (takeWhile (\<lambda>x. x \<noteq> CHR ''/'') (rev p))"

text \<open>
  \<open>os.path.dirname(p)\<close>: what precedes the last slash, with trailing slashes
  removed unless it consists of slashes only.
\<close>

definition os_path_dirname :: "string \<Rightarrow> string" where
  "os_path_dirname p =
     (let hd_part = rev (dropWhile (\<lambda>x. x \<noteq> CHR ''/'') (rev p))
      in if hd_part \<noteq> [] \<and> \<not> list_all (\<lambda>x. x = CHR ''/'') hd_part
         then rstrip_chr CHR ''/'' hd_part else hd_part)"

text \<open>
  \<open>os.path.normpath\<close>: the loop over the components, with \<open>anchored\<close> standing for
  a path that starts with a slash.
\<close>

fun norm_comps :: "bool \<Rightarrow> string list \<Rightarrow> string list \<Rightarrow> string list" where
  "norm_comps anchored new_comps [] = new_comps"
| "norm_comps anchored new_comps (part # comps) =
     (if part = [] \<or> part = ''.'' then norm_comps anchored new_comps comps
      else if part \<noteq> ''..'' \<or> (\<not> anchored \<and> new_comps = [])
                \<or> (new_comps \<noteq> [] \<and> last new_comps = ''..'')
      then norm_comps anchored (new_comps @ [part]) comps
      else if new_comps \<noteq> [] then norm_comps anchored (butlast new_comps) comps
      else norm_comps anchored new_comps comps)"

definition os_path_normpath :: "string \<Rightarrow> string" where
  "os_path_normpath path =
     (if path = [] then ''.''
      else
        let initial_slashes =
              (if startswith path ''/''
               then (if startswith path ''//'' \<and> \<not> startswith path ''///'' then 2 else 1)
               else (0::nat));
            comps = norm_comps (initial_slashes \<noteq> 0) [] (str_split CHR ''/'' path);
            res = replicate initial_slashes CHR ''/'' @ str_join ''/'' comps
        in if res = [] then ''.'' else res)"

text \<open>\<open>os.path.abspath\<close>, with the working directory of the process as a parameter.\<close>

definition os_path_abspath :: "string \<Rightarrow> string \<Rightarrow> string" where
  "os_path_abspath cwd path =
     os_path_normpath (if startswith path ''/'' then path else os_path_join cwd path)"

text \<open>The non-empty components of an absolute path.\<close>

definition path_comps :: "string \<Rightarrow> string \<Rightarrow> string list" where
  "path_comps cwd path = filter (\<lambda>x. x \<noteq> []) (str_split CHR ''/'' (os_path_abspath cwd path))"

fun commonprefix_len :: "string list \<Rightarrow> string list \<Rightarrow> nat" where
  "commonprefix_len (x # xs) (y # ys) = (if x = y then Suc (commonprefix_len xs ys) else 0)"
| "commonprefix_len _ _ = 0"

text \<open>
  \<open>os.path.relpath(path, start)\<close>: \<open>ValueError\<close> on an empty path, otherwise as
  many \<open>..\<close> as \<open>start\<close> has components below the common prefix, then the rest of
  \<open>path\<close>.
\<close>

definition os_path_relpath :: "string \<Rightarrow> string \<Rightarrow> string \<Rightarrow> exn + string" where
  "os_path_relpath cwd path start =
     (if path = [] then Inl (ValueError ''no path specified'')
      else
        let start_list = path_comps cwd start;
            path_list = path_comps cwd path;
            i = commonprefix_len start_list path_list;
            rel_list = replicate (length start_list - i) ''..'' @ drop i path_list
        in if rel_list = [] then Inr ''.'' else Inr (str_join ''/'' rel_list))"

section \<open>The file system\<close>

text \<open>
  The store lives in a file system of regular files, symbolic links and
  directories. An entry is addressed by the components of its absolute, normalised
  path, so that \<open>/s//models/x\<close> and \<open>/s/models/./x\<close> name the same entry. The root
  directory always exists. Assumptions of the model: \<open>..\<close> is resolved lexically,
  symbolic links are followed at the last component only (at most 40 in a row, as
  the kernel does), and permissions are not modelled.
\<close>

datatype node = File string | Symlink string | Dir

type_synonym fs = "(string list \<times> node) list"

definition lstat :: "fs \<Rightarrow> string list \<Rightarrow> node option" where
  "lstat f k = (if k = [] then Some Dir else map_of f k)"

definition fs_put :: "fs \<Rightarrow> string list \<Rightarrow> node \<Rightarrow> fs" where
  "fs_put f k v = (k, v) # filter (\<lambda>kv. fst kv \<noteq> k) f"

text \<open>Where a link at \<open>k\<close> with target \<open>t\<close> points: \<open>t\<close> is read from the link's directory.\<close>

definition link_target :: "string list \<Rightarrow> string \<Rightarrow> string list" where
  "link_target k t = path_comps (''/'' @ str_join ''/'' (butlast k)) t"

fun realkey_n :: "nat \<Rightarrow> fs \<Rightarrow> string list \<Rightarrow> string list option" where
  "realkey_n 0 f k = None"
| "realkey_n (Suc n) f k =
     (case lstat f k of
        Some (Symlink t) \<Rightarrow> realkey_n n f (link_target k t)
      | _ \<Rightarrow> Some k)"

definition realkey :: "fs \<Rightarrow> string list \<Rightarrow> string list option" where
  "realkey f k = realkey_n 40 f k"

text \<open>\<open>stat\<close> follows links; a dangling link or a loop of links has no \<open>stat\<close>.\<close>

definition stat :: "fs \<Rightarrow> string list \<Rightarrow> node option" where
  "stat f k = (case realkey f k of None \<Rightarrow> None | Some k' \<Rightarrow> lstat f k')"

section \<open>The process and its environment\<close>

text \<open>
  The state a pull runs in: the file system, the working directory, the commands
  run so far (in order), and what was printed on the two output streams. A line of
  output is a text, or the text of a \<open>CalledProcessError\<close> (its command and status).
\<close>

datatype printed = Text string | ProcessErrorText "string list" int

record world =
  files :: fs
  cwd :: string
  cmds :: "string list list"
  stderr :: "printed list"
  stdout :: "printed list"

text \<open>A parsed JSON document, as \<open>json.load\<close> returns it.\<close>

datatype json =
    JNull
  | JBool bool
  | JNum int
  | JStr string
  | JArr "json list"
  | JObj "(string \<times> json) list"

text \<open>
  What the code calls and this repository does not define: the external programs
  (\<open>curl\<close>, \<open>ln\<close>, \<open>huggingface-cli\<close>, \<open>omlmd\<close>) run by \<open>subprocess.run\<close>, each
  giving a return code, its standard output and the file system it leaves;
  \<open>hashlib.sha256(...).hexdigest()\<close>; \<open>json.load\<close> (\<open>None\<close> when the text is not
  JSON); and \<open>glob.glob\<close>. They are parameters: every theorem below holds for all
  of them.
\<close>

record env =
  run_process :: "string list \<Rightarrow> world \<Rightarrow> int \<times> string \<times> fs"
  sha256_hexdigest :: "string \<Rightarrow> string"
  json_loads :: "string \<Rightarrow> json option"
  glob_glob :: "string \<Rightarrow> world \<Rightarrow> string list"

type_synonym 'a result = "(exn + 'a) \<times> world"

text \<open>Sequencing: an exception of the first step ends the computation.\<close>

definition and_then :: "'a result \<Rightarrow> ('a \<Rightarrow> world \<Rightarrow> 'b result) \<Rightarrow> 'b result" where
  "and_then m k = (case m of (Inl x, w) \<Rightarrow> (Inl x, w) | (Inr v, w) \<Rightarrow> k v w)"

subsection \<open>os and os.path on the world\<close>

definition os_path_exists :: "world \<Rightarrow> string \<Rightarrow> bool" where
  "os_path_exists w p = (p \<noteq> [] \<and> stat (files w) (path_comps (cwd w) p) \<noteq> None)"

definition os_readlink :: "world \<Rightarrow> string \<Rightarrow> exn + string" where
  "os_readlink w p =
     (case lstat (files w) (path_comps (cwd w) p) of
        Some (Symlink t) \<Rightarrow> Inr t
      | Some _ \<Rightarrow> Inl (OSError ''Invalid argument'')
      | None \<Rightarrow> Inl (FileNotFoundError p))"

text \<open>\<open>open(p).read()\<close>.\<close>

definition read_file :: "world \<Rightarrow> string \<Rightarrow> exn + string" where
  "read_file w p =
     (if p = [] then Inl (FileNotFoundError p)
      else case stat (files w) (path_comps (cwd w) p) of
        Some (File c) \<Rightarrow> Inr c
      | Some _ \<Rightarrow> Inl (IsADirectoryError p)
      | None \<Rightarrow> Inl (FileNotFoundError p))"

definition key_prefixes :: "string list \<Rightarrow> string list list" where
  "key_prefixes k = map (\<lambda>n. take n k) [1 ..< Suc (length k)]"

text \<open>
  \<open>os.makedirs(p, exist_ok=True)\<close>: every missing directory on the way is created;
  a directory that is there (also through a link) is left alone; anything else in
  the way is an error.
\<close>

fun mkdir_chain :: "fs \<Rightarrow> string \<Rightarrow> string list list \<Rightarrow> exn + fs" where
  "mkdir_chain f name [] = Inr f"
| "mkdir_chain f name (k # ks) =
     (case stat f k of
        Some Dir \<Rightarrow> mkdir_chain f name ks
      | Some _ \<Rightarrow> Inl (if ks = [] then FileExistsError name else NotADirectoryError name)
      | None \<Rightarrow>
          (case lstat f k of
             None \<Rightarrow> mkdir_chain (fs_put f k Dir) name ks
           | Some _ \<Rightarrow> Inl (if ks = [] then FileExistsError name else FileNotFoundError name)))"

definition os_makedirs :: "string \<Rightarrow> world \<Rightarrow> unit result" where
  "os_makedirs p w =
     (if p = [] then (Inl (FileNotFoundError p), w)
      else case mkdir_chain (files w) p (key_prefixes (path_comps (cwd w) p)) of
        Inl x \<Rightarrow> (Inl x, w)
      | Inr f \<Rightarrow> (Inr (), w\<lparr>files := f\<rparr>))"

text \<open>
  \<open>os.listdir(p)\<close>: the names of the entries of a directory (in the order the file
  system holds them; Python promises none).
\<close>

definition os_listdir :: "world \<Rightarrow> string \<Rightarrow> exn + string list" where
  "os_listdir w p =
     (case realkey (files w) (path_comps (cwd w) p) of
        None \<Rightarrow> Inl (FileNotFoundError p)
      | Some k \<Rightarrow>
          (case lstat (files w) k of
             Some Dir \<Rightarrow>
               Inr (remdups (map (\<lambda>kv. last (fst kv))
                      (filter (\<lambda>kv. fst kv \<noteq> [] \<and> butlast (fst kv) = k) (files w))))
           | Some _ \<Rightarrow> Inl (NotADirectoryError p)
           | None \<Rightarrow> Inl (FileNotFoundError p)))"

subsection \<open>Subscripts and iteration on parsed JSON\<close>

text \<open>\<open>v[key]\<close> for a string key: \<open>KeyError\<close> on a missing key, \<open>TypeError\<close> on a non-dict.\<close>

definition json_get :: "json \<Rightarrow> string \<Rightarrow> exn + json" where
  "json_get v key =
     (case v of
        JObj kvs \<Rightarrow> (case map_of kvs key of None \<Rightarrow> Inl (KeyError key) | Some x \<Rightarrow> Inr x)
      | _ \<Rightarrow> Inl TypeError)"

text \<open>
  \<open>for x in v\<close>: the elements of a list, the keys of a dict, the characters of a
  string; \<open>TypeError\<close> for a number, a boolean or \<open>null\<close>.
\<close>

definition json_iter :: "json \<Rightarrow> exn + json list" where
  "json_iter v =
     (case v of
        JArr xs \<Rightarrow> Inr xs
      | JObj kvs \<Rightarrow> Inr (map (\<lambda>kv. JStr (fst kv)) kvs)
      | JStr s \<Rightarrow> Inr (map (\<lambda>c. JStr [c]) s)
      | _ \<Rightarrow> Inl TypeError)"

section \<open>ramalama.py\<close>

text \<open>
  The functions of \<open>ramalama.py\<close> that take part in a pull, each under its own
  name, with the world passed through. The trace flag \<open>x\<close> of the module is
  \<open>False\<close> and never assigned, so the echo of a command is left out.
\<close>

definition print_error :: "printed \<Rightarrow> world \<Rightarrow> world" where
  "print_error msg w = w\<lparr>stderr := stderr w @ [msg]\<rparr>"

definition print_out :: "printed \<Rightarrow> world \<Rightarrow> world" where
  "print_out msg w = w\<lparr>stdout := stdout w @ [msg]\<rparr>"

text \<open>
  \<open>run_cmd\<close>: \<open>subprocess.run(args, check=True, stdout=PIPE)\<close>. The command is run
  (and logged); a return code other than 0 raises \<open>CalledProcessError\<close>.
\<close>

definition run_cmd :: "env \<Rightarrow> string list \<Rightarrow> world \<Rightarrow> string result" where
  "run_cmd e args w =
     (case run_process e args w of
        (rc, out, f) \<Rightarrow>
          (if rc \<noteq> 0 then Inl (CalledProcessError rc) else Inr out,
           w\<lparr>files := f, cmds := cmds w @ [args]\<rparr>))"

definition verify_checksum :: "env \<Rightarrow> string \<Rightarrow> world \<Rightarrow> exn + bool" where
  "verify_checksum e filename w =
     (if \<not> os_path_exists w filename then Inr False
      else
        let fn_base = os_path_basename filename
        in if \<not> startswith fn_base ''sha256:''
           then Inl (ValueError (''Filename does not start with 'sha256:': '' @ fn_base))
           else (case str_split CHR '':'' fn_base of
                   _ # expected_checksum # _ \<Rightarrow>
                     if length expected_checksum \<noteq> 64
                     then Inl (ValueError ''Invalid checksum length in filename'')
                     else (case read_file w filename of
                             Inl x \<Rightarrow> Inl x
                           | Inr content \<Rightarrow> Inr (sha256_hexdigest e content = expected_checksum))
                 | _ \<Rightarrow> Inl IndexError))"

definition run_curl_cmd :: "env \<Rightarrow> string list \<Rightarrow> string \<Rightarrow> world \<Rightarrow> unit result" where
  "run_curl_cmd e args filename w =
     (case verify_checksum e filename w of
        Inl x \<Rightarrow> (Inl x, w)
      | Inr True \<Rightarrow> (Inr (), w)
      | Inr False \<Rightarrow>
          (case run_cmd e args w of
             (Inl (CalledProcessError rc), w1) \<Rightarrow>
               (Inl (SystemExit rc),
                if rc = 22 then print_error (Text (filename @ '' not found'')) w1 else w1)
           | (Inl x, w1) \<Rightarrow> (Inl x, w1)
           | (Inr _, w1) \<Rightarrow> (Inr (), w1)))"

definition manifest_curl_cmd :: "path \<Rightarrow> string \<Rightarrow> string \<Rightarrow> string \<Rightarrow> string list" where
  "manifest_curl_cmd manifests accept registry_head model_tag =
     [''curl'', ''-f'', ''-s'', ''--header'', accept, ''-o'', manifests,
      registry_head @ ''/manifests/'' @ model_tag]"

definition pull_ollama_manifest ::
  "env \<Rightarrow> path \<Rightarrow> path \<Rightarrow> string \<Rightarrow> string \<Rightarrow> string \<Rightarrow> world \<Rightarrow> unit result" where
  "pull_ollama_manifest e repos_ollama manifests accept registry_head model_tag w =
     and_then (os_makedirs (os_path_dirname manifests) w) (\<lambda>_ w1.
     and_then (os_makedirs (os_path_join repos_ollama ''blobs'') w1) (\<lambda>_ w2.
     and_then (run_cmd e (manifest_curl_cmd manifests accept registry_head model_tag) w2) (\<lambda>_ w3.
       (Inr (), w3))))"

definition config_curl_cmd :: "path \<Rightarrow> string \<Rightarrow> string \<Rightarrow> string \<Rightarrow> string list" where
  "config_curl_cmd config_blob_path accept registry_head cfg_hash =
     [''curl'', ''-f'', ''-s'', ''-L'', ''-C'', ''-'', ''--header'', accept,
      ''-o'', config_blob_path, registry_head @ ''/blobs/'' @ cfg_hash]"

definition pull_ollama_config_blob ::
  "env \<Rightarrow> string \<Rightarrow> string \<Rightarrow> string \<Rightarrow> json \<Rightarrow> world \<Rightarrow> unit result" where
  "pull_ollama_config_blob e repos_ollama accept registry_head manifest_data w =
     (case json_get manifest_data ''config'' of
        Inl x \<Rightarrow> (Inl x, w)
      | Inr cfg \<Rightarrow>
          (case json_get cfg ''digest'' of
             Inl x \<Rightarrow> (Inl x, w)
           | Inr (JStr cfg_hash) \<Rightarrow>
               let config_blob_path = os_path_join (os_path_join repos_ollama ''blobs'') cfg_hash
               in run_curl_cmd e (config_curl_cmd config_blob_path accept registry_head cfg_hash)
                    config_blob_path w
           | Inr _ \<Rightarrow> (Inl TypeError, w)))"

text \<open>
  The \<open>try: run_cmd(["ln", "-sf", target, link])\<close> block that ends each of the
  three pull functions: a failure of \<open>ln\<close> is printed and becomes the exit status.
\<close>

definition ln_cmd :: "string \<Rightarrow> string \<Rightarrow> string list" where
  "ln_cmd relative_target_path symlink_path = [''ln'', ''-sf'', relative_target_path, symlink_path]"

definition ln_sf :: "env \<Rightarrow> string \<Rightarrow> string \<Rightarrow> world \<Rightarrow> unit result" where
  "ln_sf e relative_target_path symlink_path w =
     (case run_cmd e (ln_cmd relative_target_path symlink_path) w of
        (Inl (CalledProcessError rc), w1) \<Rightarrow>
          (Inl (SystemExit rc),
           print_error (ProcessErrorText (ln_cmd relative_target_path symlink_path) rc) w1)
      | (Inl x, w1) \<Rightarrow> (Inl x, w1)
      | (Inr _, w1) \<Rightarrow> (Inr (), w1))"

definition blob_curl_cmd :: "path \<Rightarrow> string \<Rightarrow> string \<Rightarrow> string \<Rightarrow> string list" where
  "blob_curl_cmd layer_blob_path accept registry_head layer_digest =
     [''curl'', ''-f'', ''-L'', ''-C'', ''-'', ''--progress-bar'', ''--header'', accept,
      ''-o'', layer_blob_path, registry_head @ ''/blobs/'' @ layer_digest]"

definition pull_ollama_blob ::
  "env \<Rightarrow> path \<Rightarrow> json \<Rightarrow> string \<Rightarrow> string \<Rightarrow> path \<Rightarrow> string \<Rightarrow> string \<Rightarrow> path
     \<Rightarrow> world \<Rightarrow> unit result" where
  "pull_ollama_blob e repos_ollama layer_digest accept registry_head ramalama_models
       model_name model_tag symlink_path w =
     (case layer_digest of
        JStr digest \<Rightarrow>
          let layer_blob_path = os_path_join (os_path_join repos_ollama ''blobs'') digest
          in and_then (run_curl_cmd e (blob_curl_cmd layer_blob_path accept registry_head digest)
                         layer_blob_path w) (\<lambda>_ w1.
             and_then (os_makedirs ramalama_models w1) (\<lambda>_ w2.
               (case os_path_relpath (cwd w2) layer_blob_path (os_path_dirname symlink_path) of
                  Inl x \<Rightarrow> (Inl x, w2)
                | Inr relative_target_path \<Rightarrow> ln_sf e relative_target_path symlink_path w2)))
      | _ \<Rightarrow> (Inl TypeError, w))"

text \<open>The \<open>for layer in manifest_data["layers"]\<close> loop of \<open>init_pull\<close>.\<close>

fun pull_layers ::
  "env \<Rightarrow> path \<Rightarrow> string \<Rightarrow> string \<Rightarrow> path \<Rightarrow> string \<Rightarrow> string \<Rightarrow> path
     \<Rightarrow> json list \<Rightarrow> world \<Rightarrow> unit result" where
  "pull_layers e repos_ollama accept registry_head ramalama_models model_name model_tag
       symlink_path [] w = (Inr (), w)"
| "pull_layers e repos_ollama accept registry_head ramalama_models model_name model_tag
       symlink_path (layer # rest) w =
     (case json_get layer ''digest'' of
        Inl x \<Rightarrow> (Inl x, w)
      | Inr layer_digest \<Rightarrow>
          (case json_get layer ''mediaType'' of
             Inl x \<Rightarrow> (Inl x, w)
           | Inr media_type \<Rightarrow>
               if media_type \<noteq> JStr ''application/vnd.ollama.image.model''
               then pull_layers e repos_ollama accept registry_head ramalama_models model_name
                      model_tag symlink_path rest w
               else (case pull_ollama_blob e repos_ollama layer_digest accept registry_head
                            ramalama_models model_name model_tag symlink_path w of
                       (Inl x, w1) \<Rightarrow> (Inl x, w1)
                     | (Inr _, w1) \<Rightarrow>
                         pull_layers e repos_ollama accept registry_head ramalama_models
                           model_name model_tag symlink_path rest w1)))"

text \<open>The \<open>try\<close> block of \<open>init_pull\<close>: fetch the manifest, open it, parse it.\<close>

definition fetch_manifest ::
  "env \<Rightarrow> path \<Rightarrow> path \<Rightarrow> string \<Rightarrow> string \<Rightarrow> string \<Rightarrow> world \<Rightarrow> json result" where
  "fetch_manifest e repos_ollama manifests accept registry_head model_tag w =
     and_then (pull_ollama_manifest e repos_ollama manifests accept registry_head model_tag w)
       (\<lambda>_ w1.
          (case read_file w1 manifests of
             Inl x \<Rightarrow> (Inl x, w1)
           | Inr txt \<Rightarrow>
               (case json_loads e txt of
                  None \<Rightarrow> (Inl JSONDecodeError, w1)
                | Some manifest_data \<Rightarrow> (Inr manifest_data, w1))))"

definition init_pull ::
  "env \<Rightarrow> path \<Rightarrow> path \<Rightarrow> string \<Rightarrow> string \<Rightarrow> string \<Rightarrow> string \<Rightarrow> path \<Rightarrow> path
     \<Rightarrow> string \<Rightarrow> world \<Rightarrow> path result" where
  "init_pull e repos_ollama manifests accept registry_head model_name model_tag
       ramalama_models symlink_path model w =
     (case fetch_manifest e repos_ollama manifests accept registry_head model_tag w of
        (Inl (CalledProcessError rc), w1) \<Rightarrow>
          (Inl (SystemExit rc),
           if rc = 22 then print_error (Text (model @ '':'' @ model_tag @ '' not found'')) w1
           else w1)
      | (Inl x, w1) \<Rightarrow> (Inl x, w1)
      | (Inr manifest_data, w1) \<Rightarrow>
          and_then (pull_ollama_config_blob e repos_ollama accept registry_head manifest_data w1)
            (\<lambda>_ w2.
               (case json_get manifest_data ''layers'' of
                  Inl x \<Rightarrow> (Inl x, w2)
                | Inr ls \<Rightarrow>
                    (case json_iter ls of
                       Inl x \<Rightarrow> (Inl x, w2)
                     | Inr layers \<Rightarrow>
                         and_then (pull_layers e repos_ollama accept registry_head
                                     ramalama_models model_name model_tag symlink_path layers w2)
                           (\<lambda>_ w3. (Inr symlink_path, w3))))))"

definition huggingface_cmd :: "string \<Rightarrow> string \<Rightarrow> string \<Rightarrow> string list" where
  "huggingface_cmd ramalama_store directory filename =
     [''huggingface-cli'', ''download'', directory, filename,
      ''--cache-dir'', ramalama_store @ ''/repos/huggingface/.cache'',
      ''--local-dir'', ramalama_store @ ''/repos/huggingface/'' @ directory]"

text \<open>\<open>try_huggingface_download\<close>: the standard output of the download command.\<close>

definition try_huggingface_download ::
  "env \<Rightarrow> string \<Rightarrow> string \<Rightarrow> string \<Rightarrow> string \<Rightarrow> world \<Rightarrow> string result" where
  "try_huggingface_download e ramalama_store model directory filename w =
     run_cmd e (huggingface_cmd ramalama_store directory filename) w"

text \<open>
  The test \<open>os.path.exists(symlink_path) and os.readlink(symlink_path) == target\<close>
  that \<open>pull_huggingface\<close> and \<open>pull_oci\<close> make before they write the link.
\<close>

definition symlink_is_current :: "world \<Rightarrow> string \<Rightarrow> string \<Rightarrow> exn + bool" where
  "symlink_is_current w symlink_path relative_target_path =
     (if os_path_exists w symlink_path
      then (case os_readlink w symlink_path of
              Inl x \<Rightarrow> Inl x
            | Inr t \<Rightarrow> Inr (t = relative_target_path))
      else Inr False)"

text \<open>
  The end of \<open>pull_huggingface\<close> and of \<open>pull_oci\<close>, the same in both: return
  when the link is current, else run \<open>ln -sf\<close> and return the path.
\<close>

definition publish_checked :: "env \<Rightarrow> string \<Rightarrow> string \<Rightarrow> world \<Rightarrow> string result" where
  "publish_checked e relative_target_path symlink_path w =
     (case symlink_is_current w symlink_path relative_target_path of
        Inl x \<Rightarrow> (Inl x, w)
      | Inr True \<Rightarrow> (Inr symlink_path, w)
      | Inr False \<Rightarrow>
          and_then (ln_sf e relative_target_path symlink_path w)
            (\<lambda>_ w1. (Inr symlink_path, w1)))"

definition pull_huggingface :: "env \<Rightarrow> string \<Rightarrow> string \<Rightarrow> world \<Rightarrow> string result" where
  "pull_huggingface e model0 ramalama_store w =
     (let model = removeprefix ''huggingface://'' model0
      in case str_rsplit1 CHR ''/'' model of
           [directory0, filename] \<Rightarrow>
             and_then (try_huggingface_download e ramalama_store model directory0 filename w)
               (\<lambda>gguf_path w1.
                  let directory = ramalama_store @ ''/models/huggingface/'' @ directory0
                  in and_then (os_makedirs directory w1) (\<lambda>_ w2.
                       let symlink_path = directory @ ''/'' @ filename
                       in (case os_path_relpath (cwd w2) (rstrip gguf_path)
                                  (os_path_dirname symlink_path) of
                             Inl x \<Rightarrow> (Inl x, w2)
                           | Inr relative_target_path \<Rightarrow>
                               publish_checked e relative_target_path symlink_path w2)))
         | _ \<Rightarrow> (Inl (ValueError ''not enough values to unpack (expected 2, got 1)''), w))"

definition oci_target_decompose ::
  "string \<Rightarrow> world \<Rightarrow> (string \<times> string \<times> string \<times> string) result" where
  "oci_target_decompose model w =
     (let target = removeprefix ''oci://'' model
      in case str_split1 CHR ''/'' target of
           [registry, reference] \<Rightarrow>
             if CHR ''.'' \<notin> set registry
             then (Inl (SystemExit 1),
                   print_error (Text (''You must specify a registry for the model in the form 'oci://registry.acme.org/ns/repo:tag', got instead: '' @ model)) w)
             else (Inr (target, registry, reference, str_replace CHR '':'' CHR ''/'' reference), w)
         | _ \<Rightarrow> (Inl (ValueError ''not enough values to unpack (expected 2, got 1)''), w))"

definition omlmd_cmd :: "string \<Rightarrow> string \<Rightarrow> string list" where
  "omlmd_cmd target outdir = [''omlmd'', ''pull'', target, ''--output'', outdir]"

definition pull_oci :: "env \<Rightarrow> string \<Rightarrow> string \<Rightarrow> world \<Rightarrow> string result" where
  "pull_oci e model ramalama_store w =
     and_then (oci_target_decompose model w) (\<lambda>(target, registry, reference, reference_dir) w0.
       let outdir = ramalama_store @ ''/repos/oci/'' @ registry @ ''/'' @ reference_dir;
           w1 = print_out (Text (''Downloading '' @ target @ ''...'')) w0
       in and_then (run_cmd e (omlmd_cmd target outdir) w1) (\<lambda>_ w2.
            (case os_listdir w2 outdir of
               Inl x \<Rightarrow> (Inl x, w2)
             | Inr names \<Rightarrow>
                 let ggufs = filter (\<lambda>file. endswith file ''.gguf'') names
                 in if length ggufs \<noteq> 1
                    then (Inl (SystemExit (- 1)),
                          print_out (Text (''Error: Unable to identify .gguf file in: '' @ outdir)) w2)
                    else
                      let directory = ramalama_store @ ''/models/oci/'' @ registry @ ''/'' @ reference_dir
                      in and_then (os_makedirs directory w2) (\<lambda>_ w3.
                           let symlink_path = directory @ ''/'' @ hd ggufs
                           in (case os_path_relpath (cwd w3) (outdir @ ''/'' @ hd ggufs)
                                      (os_path_dirname symlink_path) of
                                 Inl x \<Rightarrow> (Inl x, w3)
                               | Inr relative_target_path \<Rightarrow>
                                   publish_checked e relative_target_path symlink_path w3)))))"

text \<open>\<open>usage()\<close>: the help text on standard output, then \<open>sys.exit(1)\<close>.\<close>

definition usage :: "world \<Rightarrow> 'a result" where
  "usage w =
     (Inl (SystemExit 1),
      foldl (\<lambda>w' l. print_out (Text l) w') w
        [''Usage:'', ''  ramalama.py COMMAND'', [], ''Commands:'',
         ''  list              List models'',
         ''  pull MODEL        Pull a model'',
         ''  push MODEL TARGET Push a model to target'',
         ''  run MODEL         Run a model'',
         ''  serve MODEL       Serve a model''])"

text \<open>
  Lines 301 to 318 of \<open>pull_cli\<close>: what an Ollama reference resolves to, as
  \<open>(model, model_name, model_tag, model_base)\<close>.
\<close>

definition ollama_reference :: "string \<Rightarrow> string \<times> string \<times> string \<times> string" where
  "ollama_reference model0 =
     (let model = removeprefix ''ollama://'' model0;
          model_full = (if CHR ''/'' \<in> set model then model else ''library/'' @ model);
          (model_name, model_tag) =
             (if CHR '':'' \<in> set model_full
              then (case str_split1 CHR '':'' model_full of
                      [n, t] \<Rightarrow> (n, t)
                    | _ \<Rightarrow> (model_full, ''latest''))
              else (model_full, ''latest''))
      in (model, model_name, model_tag, os_path_basename model_name))"

definition pull_cli :: "env \<Rightarrow> string \<Rightarrow> string list \<Rightarrow> world \<Rightarrow> string result" where
  "pull_cli e ramalama_store args w =
     (case args of
        [] \<Rightarrow> usage w
      | model0 # _ \<Rightarrow>
          (case glob_glob e (ramalama_store @ ''/models/*/'' @ model0) w of
             m # _ \<Rightarrow> (Inr m, w)
           | [] \<Rightarrow>
               if startswith model0 ''huggingface://'' then pull_huggingface e model0 ramalama_store w
               else if startswith model0 ''oci://'' then pull_oci e model0 ramalama_store w
               else
                 (case ollama_reference model0 of
                    (model, model_name, model_tag, model_base) \<Rightarrow>
                      let repos_ollama = ramalama_store @ ''/repos/ollama'';
                          ramalama_models = ramalama_store @ ''/models/ollama'';
                          registry = ''https://registry.ollama.ai'';
                          accept = ''Accept: application/vnd.docker.distribution.manifest.v2+json'';
                          symlink_path = os_path_join ramalama_models (model_base @ '':'' @ model_tag)
                      in if os_path_exists w symlink_path then (Inr symlink_path, w)
                         else
                           let manifests =
                                 os_path_join (os_path_join (os_path_join (os_path_join
                                   repos_ollama ''manifests'') registry) model_name) model_tag;
                               registry_head = registry @ ''/v2/'' @ model_name
                           in init_pull e repos_ollama manifests accept registry_head model_name
                                model_tag ramalama_models symlink_path model w)))"

section \<open>ramalama/url.py\<close>

subsection \<open>What url.py imports\<close>

text \<open>
  \<open>url.py\<close> builds on classes and functions of the package that are defined in
  other modules. They are parameters here. A \<open>SnapshotFile\<close> is the record of its
  constructor's arguments, with the class it was built as.
\<close>

datatype file_class = SnapshotFile | LocalModelFile

record snapshot_file =
  file_class :: file_class
  url :: string
  header :: "(string \<times> string) list"
  hash :: string
  name :: string
  should_show_progress :: bool
  should_verify_checksum :: bool
  required :: bool

text \<open>The model store an \<open>URL\<close> object may hold: the three methods \<open>url.py\<close> calls.\<close>

record model_store =
  get_cached_files :: "string \<Rightarrow> world \<Rightarrow> string \<times> string list \<times> bool"
  get_snapshot_file_path :: "string \<Rightarrow> string \<Rightarrow> world \<Rightarrow> string result"
  new_snapshot :: "string \<Rightarrow> string \<Rightarrow> snapshot_file list \<Rightarrow> world \<Rightarrow> unit result"

text \<open>
  An \<open>URL\<close> object: \<open>self.model\<close>, \<open>self.filename\<close> and \<open>self.store\<close> are set by
  \<open>Model.__init__\<close>, \<open>self.type\<close> and \<open>self.directory\<close> by \<open>URL.__init__\<close>.
\<close>

record url_object =
  self_model :: string
  self_type :: string
  self_directory :: string
  self_filename :: string
  self_store :: "model_store option"

text \<open>The arguments of a pull that \<open>URL.pull\<close> reads: \<open>args.store\<close> and \<open>args.quiet\<close>.\<close>

record pull_args =
  args_store :: string
  args_quiet :: bool

text \<open>
  The rest of what \<open>url.py\<close> uses without defining it: the constant
  \<open>HuggingfaceRepository.REGISTRY_URL\<close>, \<open>Model.extract_model_identifiers\<close> (what
  \<open>super().extract_model_identifiers()\<close> returns for \<open>self.model\<close>, as name, tag
  and organization), \<open>Model.model_path\<close>, \<open>Model.check_valid_model_path\<close>,
  \<open>common.download_file\<close> and \<open>common.generate_sha256\<close>.
\<close>

record url_env =
  REGISTRY_URL :: string
  super_extract_model_identifiers :: "string \<Rightarrow> string \<times> string \<times> string"
  model_path :: "url_object \<Rightarrow> pull_args \<Rightarrow> string"
  check_valid_model_path :: "string \<Rightarrow> string \<Rightarrow> world \<Rightarrow> bool"
  download_file :: "string \<Rightarrow> string \<Rightarrow> bool \<Rightarrow> world \<Rightarrow> unit result"
  generate_sha256 :: "string \<Rightarrow> string"

subsection \<open>shutil and os\<close>

definition os_path_isdir :: "world \<Rightarrow> string \<Rightarrow> bool" where
  "os_path_isdir w p = (p \<noteq> [] \<and> stat (files w) (path_comps (cwd w) p) = Some Dir)"

text \<open>
  \<open>shutil.copy(src, dst)\<close>: into \<open>dst\<close> when that is a directory; \<open>SameFileError\<close>
  when both name one existing file; the content of \<open>src\<close> is read and written to
  \<open>dst\<close> (through a link at \<open>dst\<close>), whose directory must exist. \<open>src\<close> is only read.
\<close>

definition shutil_copy :: "string \<Rightarrow> string \<Rightarrow> world \<Rightarrow> string result" where
  "shutil_copy src dst0 w =
     (let dst = (if os_path_isdir w dst0 then os_path_join dst0 (os_path_basename src) else dst0);
          src_key = realkey (files w) (path_comps (cwd w) src);
          dst_key = realkey (files w) (path_comps (cwd w) dst)
      in if os_path_exists w src \<and> os_path_exists w dst \<and> src_key = dst_key
         then (Inl (SameFileError src), w)
         else (case read_file w src of
                 Inl x \<Rightarrow> (Inl x, w)
               | Inr content \<Rightarrow>
                   (case dst_key of
                      None \<Rightarrow> (Inl (OSError ''Too many levels of symbolic links''), w)
                    | Some k \<Rightarrow>
                        if dst = [] \<or> stat (files w) (butlast k) \<noteq> Some Dir
                        then (Inl (FileNotFoundError dst), w)
                        else if lstat (files w) k = Some Dir then (Inl (IsADirectoryError dst), w)
                        else (Inr dst, w\<lparr>files := fs_put (files w) k (File content)\<rparr>))))"

text \<open>\<open>os.symlink(src, dst)\<close>: a new link at \<open>dst\<close>; it replaces nothing.\<close>

definition os_symlink :: "string \<Rightarrow> string \<Rightarrow> world \<Rightarrow> unit result" where
  "os_symlink src dst w =
     (let k = path_comps (cwd w) dst
      in if dst = [] then (Inl (FileNotFoundError dst), w)
         else if lstat (files w) k \<noteq> None then (Inl (FileExistsError dst), w)
         else if stat (files w) (butlast k) \<noteq> Some Dir then (Inl (FileNotFoundError dst), w)
         else (Inr (), w\<lparr>files := fs_put (files w) k (Symlink src)\<rparr>))"

subsection \<open>LocalModelFile and URL\<close>

text \<open>\<open>LocalModelFile.download(self, blob_file_path, snapshot_dir)\<close>.\<close>

definition download :: "snapshot_file \<Rightarrow> string \<Rightarrow> string \<Rightarrow> world \<Rightarrow> string result" where
  "download self blob_file_path snapshot_dir w =
     (if \<not> os_path_exists w (url self)
      then (Inl (FileNotFoundError (''No such file: '' @ [CHR 0x27] @ url self @ [CHR 0x27])), w)
      else and_then (shutil_copy (url self) blob_file_path w) (\<lambda>_ w1.
             (case os_path_relpath (cwd w1) blob_file_path snapshot_dir of
                Inl x \<Rightarrow> (Inl x, w1)
              | Inr rel \<Rightarrow> (Inr rel, w1))))"

text \<open>\<open>URL.__init__\<close>, after \<open>Model.__init__\<close> has set the model, the file name and the store.\<close>

definition url_init :: "string \<Rightarrow> string \<Rightarrow> string \<Rightarrow> model_store option \<Rightarrow> url_object" where
  "url_init model_str filename_str scheme st =
     \<lparr> self_model = model_str,
       self_type = scheme,
       self_directory =
         (case str_rsplit1 CHR ''/'' model_str of
            [d, _] \<Rightarrow> removeprefix ''/'' d
          | _ \<Rightarrow> []),
       self_filename = filename_str,
       self_store = st \<rparr>"

text \<open>
  \<open>URL.extract_model_identifiers\<close>, from what the method of the base class returned
  (name, tag, organization).
\<close>

definition extract_model_identifiers ::
  "string \<Rightarrow> string \<times> string \<times> string \<Rightarrow> string \<times> string \<times> string" where
  "extract_model_identifiers registry_url base =
     (case base of
        (model_name, model_tag0, model_organization0) \<Rightarrow>
          let parts = str_split CHR ''/'' model_organization0;
              (model_organization1, model_tag1) =
                 (if length parts > 2 \<and> parts ! (length parts - 2) = ''blob''
                  then (str_join ''/'' (take (length parts - 2) parts), last parts)
                  else (model_organization0, model_tag0));
              (model_organization, model_tag) =
                 (if length parts > 2 \<and> endswith registry_url (hd parts)
                       \<and> parts ! (length parts - 2) = ''resolve''
                  then (str_join ''/'' (take (length parts - 2) parts), last parts)
                  else (model_organization1, model_tag1))
          in (model_name, model_tag, model_organization))"

definition pull_with_model_store ::
  "url_env \<Rightarrow> url_object \<Rightarrow> model_store \<Rightarrow> world \<Rightarrow> string result" where
  "pull_with_model_store ue self st w =
     (case extract_model_identifiers (REGISTRY_URL ue)
             (super_extract_model_identifiers ue (self_model self)) of
        (nm, tag, _) \<Rightarrow>
          (case get_cached_files st tag w of
             (cached_hash, _, all_cached) \<Rightarrow>
               if all_cached then get_snapshot_file_path st cached_hash nm w
               else
                 let snapshot_hash = generate_sha256 ue nm;
                     files_to_get =
                       [if self_type self = ''file''
                        then \<lparr> file_class = LocalModelFile, url = self_model self, header = [],
                               hash = snapshot_hash, name = nm, should_show_progress = False,
                               should_verify_checksum = False, required = True \<rparr>
                        else \<lparr> file_class = SnapshotFile,
                               url = self_type self @ ''://'' @ self_model self, header = [],
                               hash = snapshot_hash, name = nm, should_show_progress = True,
                               should_verify_checksum = False, required = True \<rparr>]
                 in and_then (new_snapshot st tag snapshot_hash files_to_get w) (\<lambda>_ w1.
                      get_snapshot_file_path st snapshot_hash nm w1)))"

definition url_pull :: "url_env \<Rightarrow> url_object \<Rightarrow> pull_args \<Rightarrow> world \<Rightarrow> string result" where
  "url_pull ue self args w =
     (case self_store self of
        Some st \<Rightarrow> pull_with_model_store ue self st w
      | None \<Rightarrow>
          let mpath = model_path ue self args;
              directory_path =
                os_path_join (os_path_join (os_path_join (os_path_join
                  (args_store args) ''repos'') (self_type self)) (self_directory self))
                  (self_filename self)
          in and_then (os_makedirs directory_path w) (\<lambda>_ w1.
               let symlink_dir = os_path_dirname mpath
               in and_then (os_makedirs symlink_dir w1) (\<lambda>_ w2.
                    let target_path = os_path_join directory_path (self_filename self)
                    in if self_type self = ''file''
                       then
                         if \<not> os_path_exists w2 (self_model self)
                         then (Inl (FileNotFoundError (self_model self @ '' no such file'')), w2)
                         else
                           and_then (os_symlink (self_model self)
                                       (os_path_join symlink_dir (self_filename self)) w2) (\<lambda>_ w3.
                           and_then (os_symlink (self_model self) target_path w3) (\<lambda>_ w4.
                             (Inr mpath, w4)))
                       else
                         let show_progress = \<not> args_quiet args;
                             u = self_type self @ ''://'' @ self_model self
                         in and_then (download_file ue u target_path show_progress w2) (\<lambda>_ w3.
                              (case os_path_relpath (cwd w3) target_path (os_path_dirname mpath) of
                                 Inl x \<Rightarrow> (Inl x, w3)
                               | Inr relative_target_path \<Rightarrow>
                                   if check_valid_model_path ue relative_target_path mpath w3
                                   then (Inr mpath, w3)
                                   else and_then (os_symlink relative_target_path mpath w3)
                                          (\<lambda>_ w4. (Inr mpath, w4)))))))"

section \<open>A sample environment\<close>

text \<open>
  One concrete environment, used to run the definitions on examples. The remote
  side is a table from URLs to contents. \<open>curl ... -o dest url\<close> writes the
  content of \<open>url\<close> to \<open>dest\<close>, or fails with status 22 when the table has no such
  URL; \<open>ln -sf target link\<close> replaces \<open>link\<close> by a symbolic link (inside \<open>link\<close>
  when that is a directory); \<open>omlmd pull\<close> and \<open>huggingface-cli download\<close> succeed
  and leave the files as they are (their artifacts are put into the initial file
  system of an example), the latter printing the path of the file in its local
  directory; any other command fails with status 127.
\<close>

fun arg_after :: "string \<Rightarrow> string list \<Rightarrow> string option" where
  "arg_after opt [] = None"
| "arg_after opt [a] = None"
| "arg_after opt (a # b # rest) = (if a = opt then Some b else arg_after opt (b # rest))"

definition sample_process ::
  "(string \<times> string) list \<Rightarrow> string list \<Rightarrow> world \<Rightarrow> int \<times> string \<times> fs" where
  "sample_process remote args w =
     (if args = [] then (127, [], files w)
      else if hd args = ''curl'' then
        (case (map_of remote (last args), arg_after ''-o'' args) of
           (Some content, Some dest) \<Rightarrow>
             (case realkey (files w) (path_comps (cwd w) dest) of
                Some k \<Rightarrow> (0, [], fs_put (files w) k (File content))
              | None \<Rightarrow> (23, [], files w))
         | _ \<Rightarrow> (22, [], files w))
      else if hd args = ''ln'' then
        (case args of
           [_, _, target, link] \<Rightarrow>
             (let k = path_comps (cwd w) link
              in if stat (files w) k = Some Dir
                 then (0, [], fs_put (files w) (k @ [os_path_basename target]) (Symlink target))
                 else (0, [], fs_put (files w) k (Symlink target)))
         | _ \<Rightarrow> (1, [], files w))
      else if hd args = ''omlmd'' then (0, [], files w)
      else if hd args = ''huggingface-cli'' then
        (case args of
           [_, _, _, filename, _, _, _, local_dir] \<Rightarrow>
             (0, local_dir @ ''/'' @ filename @ [CHR 0x0A], files w)
         | _ \<Rightarrow> (1, [], files w))
      else (127, [], files w))"

text \<open>A stand-in for SHA-256 on examples: the content, cut or padded with zeros to 64 characters.\<close>

definition sample_hexdigest :: "string \<Rightarrow> string" where
  "sample_hexdigest content = take 64 (content @ replicate 64 CHR ''0'')"

text \<open>
  \<open>glob.glob\<close> for a pattern \<open>D/*/R\<close> whose part \<open>R\<close> has no wildcard: the paths
  \<open>D/d/R\<close> that exist, for the entries \<open>d\<close> of \<open>D\<close> that are not hidden.
\<close>

fun cut_at_star :: "string \<Rightarrow> string \<Rightarrow> (string \<times> string) option" where
  "cut_at_star acc [] = None"
| "cut_at_star acc (c # cs) =
     (if take 3 (c # cs) = ''/*/'' then Some (rev acc, drop 3 (c # cs))
      else cut_at_star (c # acc) cs)"

definition sample_glob :: "string \<Rightarrow> world \<Rightarrow> string list" where
  "sample_glob pattern w =
     (case cut_at_star [] pattern of
        None \<Rightarrow> []
      | Some (d, r) \<Rightarrow>
          (case os_listdir w d of
             Inl _ \<Rightarrow> []
           | Inr names \<Rightarrow>
               filter (\<lambda>p. lstat (files w) (path_comps (cwd w) p) \<noteq> None)
                 (map (\<lambda>n. d @ ''/'' @ n @ ''/'' @ r)
                    (filter (\<lambda>n. \<not> startswith n ''.'') names))))"

definition sample_env :: "(string \<times> string) list \<Rightarrow> (string \<times> json) list \<Rightarrow> env" where
  "sample_env remote documents =
     \<lparr> run_process = sample_process remote,
       sha256_hexdigest = sample_hexdigest,
       json_loads = map_of documents,
       glob_glob = sample_glob \<rparr>"

text \<open>The store as \<open>mkdirs\<close> of \<open>main\<close> leaves it, under the root \<open>/s\<close>.\<close>

definition fresh_store :: fs where
  "fresh_store =
     [([''s''], Dir), ([''s'', ''models''], Dir), ([''s'', ''repos''], Dir),
      ([''s'', ''models'', ''huggingface''], Dir), ([''s'', ''repos'', ''huggingface''], Dir),
      ([''s'', ''models'', ''oci''], Dir), ([''s'', ''repos'', ''oci''], Dir),
      ([''s'', ''models'', ''ollama''], Dir), ([''s'', ''repos'', ''ollama''], Dir)]"

definition world0 :: "fs \<Rightarrow> world" where
  "world0 f = \<lparr> files = f, cwd = ''/'', cmds = [], stderr = [], stdout = [] \<rparr>"

text \<open>
  A sample registry. The digest of a blob is \<open>sha256:\<close> followed by the sample
  digest of its content. The manifest of \<open>library/llama3:latest\<close> names a
  configuration blob, a model layer and a licence layer; the manifest of
  \<open>library/tiny:latest\<close> names the configuration and a licence only. A parsed
  manifest is looked up by the text of the manifest file.
\<close>

definition blob_digest :: "string \<Rightarrow> string" where
  "blob_digest content = ''sha256:'' @ sample_hexdigest content"

definition ollama_url :: "string \<Rightarrow> string" where
  "ollama_url rest = ''https://registry.ollama.ai/v2/library/'' @ rest"

definition sample_registry :: "(string \<times> string) list" where
  "sample_registry =
     [(ollama_url ''llama3/manifests/latest'', ''manifest of llama3''),
      (ollama_url (''llama3/blobs/'' @ blob_digest ''cfg''), ''cfg''),
      (ollama_url (''llama3/blobs/'' @ blob_digest ''weights''), ''weights''),
      (ollama_url ''tiny/manifests/latest'', ''manifest of tiny''),
      (ollama_url (''tiny/blobs/'' @ blob_digest ''cfg''), ''cfg'')]"

text \<open>The same registry, serving other bytes than the digest of the model layer promises.\<close>

definition corrupt_registry :: "(string \<times> string) list" where
  "corrupt_registry =
     [(ollama_url ''llama3/manifests/latest'', ''manifest of llama3''),
      (ollama_url (''llama3/blobs/'' @ blob_digest ''cfg''), ''cfg''),
      (ollama_url (''llama3/blobs/'' @ blob_digest ''weights''), ''corrupt'')]"

definition sample_documents :: "(string \<times> json) list" where
  "sample_documents =
     [(''manifest of llama3'',
       JObj [(''config'', JObj [(''digest'', JStr (blob_digest ''cfg''))]),
             (''layers'',
              JArr [JObj [(''digest'', JStr (blob_digest ''weights'')),
                          (''mediaType'', JStr ''application/vnd.ollama.image.model'')],
                    JObj [(''digest'', JStr (blob_digest ''licence'')),
                          (''mediaType'', JStr ''application/vnd.ollama.image.license'')]])]),
      (''manifest of tiny'',
       JObj [(''config'', JObj [(''digest'', JStr (blob_digest ''cfg''))]),
             (''layers'',
              JArr [JObj [(''digest'', JStr (blob_digest ''licence'')),
                          (''mediaType'', JStr ''application/vnd.ollama.image.license'')]])])]"

text \<open>Where the sample store keeps the blob of a content, and a store that holds one file more.\<close>

definition blob_path :: "string \<Rightarrow> path" where
  "blob_path content = ''/s/repos/ollama/blobs/'' @ blob_digest content"

definition store_with_file :: "path \<Rightarrow> string \<Rightarrow> fs" where
  "store_with_file p content =
     fs_put (fs_put fresh_store [''s'', ''repos'', ''ollama'', ''blobs''] Dir)
       (path_comps ''/'' p) (File content)"

text \<open>The header every registry request carries, and the request for the model layer of the sample.\<close>

definition sample_accept :: string where
  "sample_accept = ''Accept: application/vnd.docker.distribution.manifest.v2+json''"

definition weights_cmd :: "string list" where
  "weights_cmd =
     blob_curl_cmd (blob_path ''weights'') sample_accept (ollama_url ''llama3'')
       (blob_digest ''weights'')"

text \<open>A registry that serves the manifest of \<open>library/llama3:latest\<close> and none of its blobs.\<close>

definition manifest_only_registry :: "(string \<times> string) list" where
  "manifest_only_registry = [(ollama_url ''llama3/manifests/latest'', ''manifest of llama3'')]"

text \<open>A registry that serves the manifest and the configuration of \<open>library/llama3:latest\<close>, and no layer.\<close>

definition registry_without_layer :: "(string \<times> string) list" where
  "registry_without_layer =
     [(ollama_url ''llama3/manifests/latest'', ''manifest of llama3''),
      (ollama_url (''llama3/blobs/'' @ blob_digest ''cfg''), ''cfg'')]"

text \<open>
  The store after \<open>omlmd pull\<close> has put the files \<open>names\<close> of the artifact
  \<open>reg.io/ns/repo:tag\<close> into its output directory.
\<close>

definition oci_store :: "string list \<Rightarrow> fs" where
  "oci_store names =
     foldl (\<lambda>f n. fs_put f [''s'', ''repos'', ''oci'', ''reg.io'', ''ns'', ''repo'', ''tag'', n]
                      (File n))
       (fs_put (fs_put (fs_put (fs_put fresh_store
          [''s'', ''repos'', ''oci'', ''reg.io''] Dir)
          [''s'', ''repos'', ''oci'', ''reg.io'', ''ns''] Dir)
          [''s'', ''repos'', ''oci'', ''reg.io'', ''ns'', ''repo''] Dir)
          [''s'', ''repos'', ''oci'', ''reg.io'', ''ns'', ''repo'', ''tag''] Dir)
       names"

text \<open>
  The store after a pull of \<open>huggingface://org/repo/model.gguf\<close>: the file in the
  local directory of the repository, and the link to it under \<open>models\<close>.
\<close>

definition huggingface_store :: fs where
  "huggingface_store =
     fs_put (fs_put (fs_put (fs_put (fs_put (fs_put fresh_store
       [''s'', ''repos'', ''huggingface'', ''org''] Dir)
       [''s'', ''repos'', ''huggingface'', ''org'', ''repo''] Dir)
       [''s'', ''repos'', ''huggingface'', ''org'', ''repo'', ''model.gguf''] (File ''gguf''))
       [''s'', ''models'', ''huggingface'', ''org''] Dir)
       [''s'', ''models'', ''huggingface'', ''org'', ''repo''] Dir)
       [''s'', ''models'', ''huggingface'', ''org'', ''repo'', ''model.gguf'']
       (Symlink ''../../../../repos/huggingface/org/repo/model.gguf'')"

text \<open>
  A store whose link for \<open>llama3:latest\<close> is in place while the blob it points to
  is gone.
\<close>

definition dangling_store :: fs where
  "dangling_store =
     fs_put fresh_store [''s'', ''models'', ''ollama'', ''llama3:latest'']
       (Symlink (''../../repos/ollama/blobs/'' @ blob_digest ''weights''))"

text \<open>
  A sample of what \<open>url.py\<close> imports, for examples with the \<open>file\<close> scheme: the
  model path is \<open>models/file/<filename>\<close> under the store, identifiers are the model with
  the tag \<open>latest\<close>, nothing is downloaded.
\<close>

definition sample_url_env :: url_env where
  "sample_url_env =
     \<lparr> REGISTRY_URL = ''https://huggingface.co'',
       super_extract_model_identifiers = (\<lambda>m. (m, ''latest'', [])),
       model_path = (\<lambda>self args. args_store args @ ''/models/file/'' @ self_filename self),
       check_valid_model_path = (\<lambda>_ _ _. False),
       download_file = (\<lambda>_ _ _ w. (Inr (), w)),
       generate_sha256 = sample_hexdigest \<rparr>"

text \<open>A store with a blob and a snapshot directory, and a model file outside of it.\<close>

definition local_store :: fs where
  "local_store =
     [([''home''], Dir), ([''home'', ''m.gguf''], File ''gguf''),
      ([''s''], Dir), ([''s'', ''store''], Dir), ([''s'', ''store'', ''blobs''], Dir),
      ([''s'', ''store'', ''snapshots''], Dir), ([''s'', ''store'', ''snapshots'', ''abc''], Dir)]"

definition local_file :: "string \<Rightarrow> snapshot_file" where
  "local_file p =
     \<lparr> file_class = LocalModelFile, url = p, header = [], hash = ''abc'', name = ''m.gguf'',
       should_show_progress = False, should_verify_checksum = False, required = True \<rparr>"

section \<open>Resolving references\<close>

lemma str_split1_first:
  "c \<in> set s \<Longrightarrow> str_split1 c s = [n, t] \<Longrightarrow> s = n @ [c] @ t \<and> c \<notin> set n"
  unfolding str_split1_def
  apply (simp split: if_splits)
  by (metis (mono_tags, lifting) dropWhile_eq_Nil_conv hd_dropWhile list.collapse
      set_takeWhileD takeWhile_dropWhile_id)

text \<open>
  C5, as the code has it. An Ollama reference \<open>r\<close> resolves to
  \<open>(model, model_name, model_tag, model_base)\<close>: the scheme prefix is dropped;
  \<open>library/\<close> is put in front when the rest has no slash; when the result has a
  colon it is cut at its FIRST colon (the name has no colon, the tag is all that
  follows), and without a colon the tag is \<open>latest\<close>; the base is the last segment
  of the name. So \<open>llama3\<close> gives namespace and name \<open>library/llama3\<close>, tag
  \<open>latest\<close>, and \<open>myorg/llama3:8b\<close> gives \<open>myorg/llama3\<close>, tag \<open>8b\<close>.
\<close>

theorem ollama_reference_first_colon:
  "(ollama_reference r = (m, n, t, b) \<longrightarrow>
      m = removeprefix ''ollama://'' r \<and>
      b = os_path_basename n \<and>
      (let model_full = (if CHR ''/'' \<in> set m then m else ''library/'' @ m)
       in (CHR '':'' \<in> set model_full \<longrightarrow> model_full = n @ '':'' @ t \<and> CHR '':'' \<notin> set n) \<and>
          (CHR '':'' \<notin> set model_full \<longrightarrow> n = model_full \<and> t = ''latest''))) \<and>
   ollama_reference ''llama3'' = (''llama3'', ''library/llama3'', ''latest'', ''llama3'') \<and>
   ollama_reference ''myorg/llama3:8b'' =
     (''myorg/llama3:8b'', ''myorg/llama3'', ''8b'', ''llama3'')"
proof -
  have general: "ollama_reference r = (m, n, t, b) \<longrightarrow>
      m = removeprefix ''ollama://'' r \<and>
      b = os_path_basename n \<and>
      (let model_full = (if CHR ''/'' \<in> set m then m else ''library/'' @ m)
       in (CHR '':'' \<in> set model_full \<longrightarrow> model_full = n @ '':'' @ t \<and> CHR '':'' \<notin> set n) \<and>
          (CHR '':'' \<notin> set model_full \<longrightarrow> n = model_full \<and> t = ''latest''))"
    unfolding ollama_reference_def Let_def
    using str_split1_first[of "CHR '':''"]
    by (auto split: if_splits prod.splits list.splits simp: str_split1_def)
  have ex1: "ollama_reference ''llama3'' = (''llama3'', ''library/llama3'', ''latest'', ''llama3'')"
    by code_simp
  have ex2: "ollama_reference ''myorg/llama3:8b'' =
     (''myorg/llama3:8b'', ''myorg/llama3'', ''8b'', ''llama3'')"
    by code_simp
  from general ex1 ex2 show ?thesis by blast
qed

theorem ollama_reference_first_colon_witness:
  "ollama_reference ''ollama://llama3:8b:q4'' =
     (''llama3:8b:q4'', ''library/llama3'', ''8b:q4'', ''llama3'') \<and>
   ''llama3:8b:q4'' = removeprefix ''ollama://'' ''ollama://llama3:8b:q4'' \<and>
   ''llama3'' = os_path_basename ''library/llama3'' \<and>
   CHR '':'' \<in> set ''library/llama3:8b:q4'' \<and>
   ''library/llama3:8b:q4'' = ''library/llama3'' @ '':'' @ ''8b:q4'' \<and>
   CHR '':'' \<notin> set ''library/llama3''"
proof -
  have run: "ollama_reference ''ollama://llama3:8b:q4'' =
     (''llama3:8b:q4'', ''library/llama3'', ''8b:q4'', ''llama3'')"
    by code_simp
  have pre: "removeprefix ''ollama://'' ''ollama://llama3:8b:q4'' = ''llama3:8b:q4''"
    by code_simp
  from ollama_reference_first_colon[of "''ollama://llama3:8b:q4''" "''llama3:8b:q4''"
      "''library/llama3''" "''8b:q4''" "''llama3''"] run pre
  show ?thesis by (simp add: Let_def)
qed

text \<open>
  C5 as the specification states it (the tag is what follows the LAST colon) fails:
  for \<open>llama3:8b:q4\<close> the code gives the name \<open>library/llama3\<close> and the tag
  \<open>8b:q4\<close>, not the cut at the last colon.
\<close>

theorem ollama_reference_last_colon_counterexample:
  "(case ollama_reference ''llama3:8b:q4'' of
      (m, n, t, b) \<Rightarrow>
        n = ''library/llama3'' \<and> t = ''8b:q4'' \<and>
        [n, t] \<noteq> str_rsplit1 CHR '':'' ''library/llama3:8b:q4'')"
  by code_simp

text \<open>
  C6 at the reference \<open>oci://repo:tag\<close> of the specification: it has no slash, so
  unpacking \<open>target.split('/', 1)\<close> into two names raises \<open>ValueError\<close> before the
  registry is looked at; the message about the registry is not printed and
  \<open>sys.exit(1)\<close> is not reached.
\<close>

theorem oci_target_decompose_without_slash:
  "oci_target_decompose ''oci://repo:tag'' w =
     (Inl (ValueError ''not enough values to unpack (expected 2, got 1)''), w)"
  unfolding oci_target_decompose_def
  by (simp add: removeprefix_def startswith_def str_split1_def)

text \<open>
  C8, as the code has it. With \<open>parts\<close> the organization split at slashes: when
  there are more than two parts and the second-to-last is \<open>blob\<close>, or is
  \<open>resolve\<close> while \<open>REGISTRY_URL\<close> ENDS WITH the first part, the tag becomes the
  last part and the organization the parts before the last two, joined by
  slashes; the name is kept. In every other case name, tag and organization are
  returned as the base class gave them.
\<close>

theorem extract_model_identifiers_cases:
  "extract_model_identifiers registry_url (n, t, org) =
     (let parts = str_split CHR ''/'' org
      in if length parts > 2 \<and>
            (parts ! (length parts - 2) = ''blob'' \<or>
             (parts ! (length parts - 2) = ''resolve'' \<and> endswith registry_url (hd parts)))
         then (n, last parts, str_join ''/'' (take (length parts - 2) parts))
         else (n, t, org))"
  unfolding extract_model_identifiers_def Let_def
  by (auto split: prod.splits)

text \<open>
  C8 as stated fails: \<open>co\<close> is not the registry host \<open>huggingface.co\<close>, yet an
  organization \<open>co/x/resolve/main\<close> is rewritten, because the registry URL ends
  with \<open>co\<close>. The claim has it returned unchanged.
\<close>

theorem extract_model_identifiers_host_counterexample:
  "extract_model_identifiers ''https://huggingface.co'' (''m.gguf'', ''latest'', ''co/x/resolve/main'')
     = (''m.gguf'', ''main'', ''co/x'') \<and>
   hd (str_split CHR ''/'' ''co/x/resolve/main'') \<noteq> ''huggingface.co''"
  by code_simp

section \<open>The download step\<close>

lemma str_split_nonempty: "str_split c s \<noteq> []"
  by (induction s) (auto split: list.splits)

lemma str_split_length: "c \<in> set s \<Longrightarrow> 2 \<le> length (str_split c s)"
  using str_split_nonempty[of c] by (induction s) (auto split: list.splits)

lemma startswith_mem: "startswith s (p @ [c]) \<Longrightarrow> c \<in> set s"
  unfolding startswith_def
  by (metis in_set_takeD in_set_conv_decomp)

lemma sha_prefix_colon: "startswith s ''sha256:'' \<Longrightarrow> CHR '':'' \<in> set s"
  using startswith_mem[of s "''sha256''" "CHR '':''"] by simp

lemma verify_checksum_eq:
  "verify_checksum e filename w =
     (if \<not> os_path_exists w filename then Inr False
      else if \<not> startswith (os_path_basename filename) ''sha256:''
      then Inl (ValueError (''Filename does not start with 'sha256:': '' @ os_path_basename filename))
      else if length (str_split CHR '':'' (os_path_basename filename) ! 1) \<noteq> 64
      then Inl (ValueError ''Invalid checksum length in filename'')
      else (case read_file w filename of
              Inl x \<Rightarrow> Inl x
            | Inr content \<Rightarrow>
                Inr (sha256_hexdigest e content = str_split CHR '':'' (os_path_basename filename) ! 1)))"
proof (cases "startswith (os_path_basename filename) ''sha256:''")
  case True
  then have "2 \<le> length (str_split CHR '':'' (os_path_basename filename))"
    by (intro str_split_length sha_prefix_colon)
  then obtain a d rest where "str_split CHR '':'' (os_path_basename filename) = a # d # rest"
    by (cases "str_split CHR '':'' (os_path_basename filename)"; simp)
       (metis Suc_le_length_iff Suc_1 list.size(3) not_less_eq_eq le0 neq_Nil_conv)
  then show ?thesis
    unfolding verify_checksum_def Let_def by (simp split: sum.splits)
next
  case False
  then show ?thesis unfolding verify_checksum_def Let_def by simp
qed

lemma run_curl_cmd_eq:
  "run_curl_cmd e args filename w =
     (case verify_checksum e filename w of
        Inl x \<Rightarrow> (Inl x, w)
      | Inr True \<Rightarrow> (Inr (), w)
      | Inr False \<Rightarrow>
          (case run_process e args w of
             (rc, out, f) \<Rightarrow>
               (if rc = 0 then Inr () else Inl (SystemExit rc),
                (if rc = 22 then print_error (Text (filename @ '' not found'')) else id)
                  (w\<lparr>files := f, cmds := cmds w @ [args]\<rparr>))))"
  unfolding run_curl_cmd_def run_cmd_def
  by (auto split: sum.splits bool.splits prod.splits exn.splits)

lemma world_cmds_neq: "w\<lparr>files := f, cmds := cmds w @ [args]\<rparr> \<noteq> w"
proof
  assume "w\<lparr>files := f, cmds := cmds w @ [args]\<rparr> = w"
  then have "cmds (w\<lparr>files := f, cmds := cmds w @ [args]\<rparr>) = cmds w" by simp
  then show False by simp
qed




lemma pull_ollama_blob_publish:
  assumes "run_curl_cmd e (blob_curl_cmd (os_path_join (os_path_join repos_ollama ''blobs'') digest)
              accept registry_head digest)
              (os_path_join (os_path_join repos_ollama ''blobs'') digest) w = (Inr (), w1)"
    and "os_makedirs ramalama_models w1 = (Inr (), w2)"
    and "os_path_relpath (cwd w2) (os_path_join (os_path_join repos_ollama ''blobs'') digest)
              (os_path_dirname symlink_path) = Inr rel"
  shows "pull_ollama_blob e repos_ollama (JStr digest) accept registry_head ramalama_models
              model_name model_tag symlink_path w = ln_sf e rel symlink_path w2"
  using assms unfolding pull_ollama_blob_def and_then_def Let_def by simp

lemma ln_sf_eq:
  "ln_sf e rel symlink_path w =
     (case run_process e (ln_cmd rel symlink_path) w of
        (rc, out, f) \<Rightarrow>
          (if rc = 0 then Inr () else Inl (SystemExit rc),
           (if rc = 0 then id else print_error (ProcessErrorText (ln_cmd rel symlink_path) rc))
             (w\<lparr>files := f, cmds := cmds w @ [ln_cmd rel symlink_path]\<rparr>)))"
  unfolding ln_sf_def run_cmd_def by (auto split: prod.splits)

text \<open>
  C3, as the code has it. The digest is checked before a download only. A
  destination that exists under a well-formed name with another digest is
  detected there (the check is false) and fetched again. Once the download
  command has returned 0, \<open>run_curl_cmd\<close> returns with the files the command
  left, whatever they hold: nothing is verified after the download. And
  \<open>pull_ollama_blob\<close> then links the blob: when the fetch returned, the models
  directory is there and \<open>ln -sf\<close> returns 0, the result is success with the
  link command run.
\<close>

theorem checksum_only_before_download:
  "(os_path_exists w filename \<and>
    startswith (os_path_basename filename) ''sha256:'' \<and>
    length (str_split CHR '':'' (os_path_basename filename) ! 1) = 64 \<and>
    read_file w filename = Inr content \<and>
    sha256_hexdigest e content \<noteq> str_split CHR '':'' (os_path_basename filename) ! 1 \<longrightarrow>
      verify_checksum e filename w = Inr False \<and>
      cmds (snd (run_curl_cmd e args filename w)) = cmds w @ [args]) \<and>
   (verify_checksum e filename w = Inr False \<and> run_process e args w = (0, out, f) \<longrightarrow>
      run_curl_cmd e args filename w = (Inr (), w\<lparr>files := f, cmds := cmds w @ [args]\<rparr>)) \<and>
   (run_curl_cmd e (blob_curl_cmd (os_path_join (os_path_join repos_ollama ''blobs'') digest)
        accept registry_head digest)
        (os_path_join (os_path_join repos_ollama ''blobs'') digest) w = (Inr (), w1) \<and>
    os_makedirs ramalama_models w1 = (Inr (), w2) \<and>
    os_path_relpath (cwd w2) (os_path_join (os_path_join repos_ollama ''blobs'') digest)
        (os_path_dirname symlink_path) = Inr rel \<and>
    run_process e (ln_cmd rel symlink_path) w2 = (0, out', f') \<longrightarrow>
      pull_ollama_blob e repos_ollama (JStr digest) accept registry_head ramalama_models
          model_name model_tag symlink_path w
        = (Inr (), w2\<lparr>files := f', cmds := cmds w2 @ [ln_cmd rel symlink_path]\<rparr>))"
proof -
  have detect: "os_path_exists w filename \<and>
    startswith (os_path_basename filename) ''sha256:'' \<and>
    length (str_split CHR '':'' (os_path_basename filename) ! 1) = 64 \<and>
    read_file w filename = Inr content \<and>
    sha256_hexdigest e content \<noteq> str_split CHR '':'' (os_path_basename filename) ! 1 \<longrightarrow>
      verify_checksum e filename w = Inr False \<and>
      cmds (snd (run_curl_cmd e args filename w)) = cmds w @ [args]"
    unfolding run_curl_cmd_eq verify_checksum_eq
    by (auto split: prod.splits simp: print_error_def)
  have no_recheck: "verify_checksum e filename w = Inr False \<and> run_process e args w = (0, out, f) \<longrightarrow>
      run_curl_cmd e args filename w = (Inr (), w\<lparr>files := f, cmds := cmds w @ [args]\<rparr>)"
    unfolding run_curl_cmd_eq by simp
  have published: "run_curl_cmd e (blob_curl_cmd (os_path_join (os_path_join repos_ollama ''blobs'') digest)
        accept registry_head digest)
        (os_path_join (os_path_join repos_ollama ''blobs'') digest) w = (Inr (), w1) \<and>
    os_makedirs ramalama_models w1 = (Inr (), w2) \<and>
    os_path_relpath (cwd w2) (os_path_join (os_path_join repos_ollama ''blobs'') digest)
        (os_path_dirname symlink_path) = Inr rel \<and>
    run_process e (ln_cmd rel symlink_path) w2 = (0, out', f') \<longrightarrow>
      pull_ollama_blob e repos_ollama (JStr digest) accept registry_head ramalama_models
          model_name model_tag symlink_path w
        = (Inr (), w2\<lparr>files := f', cmds := cmds w2 @ [ln_cmd rel symlink_path]\<rparr>)"
    using pull_ollama_blob_publish[of e repos_ollama digest accept registry_head w w1
        ramalama_models w2 symlink_path rel model_name model_tag]
    by (auto simp: ln_sf_eq)
  from detect no_recheck published show ?thesis by blast
qed

theorem checksum_only_before_download_witness:
  "\<exists>w1 w2 rel f f'.
     os_path_exists (world0 (store_with_file (blob_path ''weights'') ''corrupt''))
        (blob_path ''weights'') \<and>
     read_file (world0 (store_with_file (blob_path ''weights'') ''corrupt''))
        (blob_path ''weights'') = Inr ''corrupt'' \<and>
     verify_checksum (sample_env sample_registry sample_documents) (blob_path ''weights'')
        (world0 (store_with_file (blob_path ''weights'') ''corrupt'')) = Inr False \<and>
     cmds (snd (run_curl_cmd (sample_env sample_registry sample_documents) weights_cmd
        (blob_path ''weights'') (world0 (store_with_file (blob_path ''weights'') ''corrupt''))))
       = [weights_cmd] \<and>
     run_process (sample_env corrupt_registry sample_documents) weights_cmd (world0 fresh_store)
       = (0, [], f) \<and>
     run_curl_cmd (sample_env corrupt_registry sample_documents) weights_cmd
        (blob_path ''weights'') (world0 fresh_store)
       = (Inr (), (world0 fresh_store)\<lparr>files := f, cmds := [weights_cmd]\<rparr>) \<and>
     w1 = (world0 fresh_store)\<lparr>files := f, cmds := [weights_cmd]\<rparr> \<and>
     read_file w1 (blob_path ''weights'') = Inr ''corrupt'' \<and>
     os_makedirs ''/s/models/ollama'' w1 = (Inr (), w2) \<and>
     os_path_relpath (cwd w2) (blob_path ''weights'')
        (os_path_dirname ''/s/models/ollama/llama3:latest'') = Inr rel \<and>
     run_process (sample_env corrupt_registry sample_documents)
        (ln_cmd rel ''/s/models/ollama/llama3:latest'') w2 = (0, [], f') \<and>
     pull_ollama_blob (sample_env corrupt_registry sample_documents) ''/s/repos/ollama''
        (JStr (blob_digest ''weights'')) sample_accept (ollama_url ''llama3'')
        ''/s/models/ollama'' ''library/llama3'' ''latest'' ''/s/models/ollama/llama3:latest''
        (world0 fresh_store)
       = (Inr (), w2\<lparr>files := f', cmds := cmds w2 @ [ln_cmd rel ''/s/models/ollama/llama3:latest'']\<rparr>)"
proof -
  let ?e = "sample_env sample_registry sample_documents"
  let ?ec = "sample_env corrupt_registry sample_documents"
  let ?p = "blob_path ''weights''"
  let ?bad = "world0 (store_with_file (blob_path ''weights'') ''corrupt'')"
  let ?w0 = "world0 fresh_store"
  let ?sp = "''/s/models/ollama/llama3:latest''"
  let ?lbp = "os_path_join (os_path_join ''/s/repos/ollama'' ''blobs'') (blob_digest ''weights'')"
  have b1: "os_path_exists ?bad ?p" by code_simp
  have b2: "startswith (os_path_basename ?p) ''sha256:''" by code_simp
  have b3: "length (str_split CHR '':'' (os_path_basename ?p) ! 1) = 64" by code_simp
  have b4: "read_file ?bad ?p = Inr ''corrupt''" by code_simp
  have b5: "sha256_hexdigest ?e ''corrupt'' \<noteq> str_split CHR '':'' (os_path_basename ?p) ! 1"
    by code_simp
  have b6: "cmds ?bad = []" by code_simp
  from checksum_only_before_download[where w = ?bad and filename = ?p
      and content = "''corrupt''" and e = ?e and args = weights_cmd] b1 b2 b3 b4 b5
  have part1: "verify_checksum ?e ?p ?bad = Inr False \<and>
      cmds (snd (run_curl_cmd ?e weights_cmd ?p ?bad)) = cmds ?bad @ [weights_cmd]"
    by blast
  define f where "f = snd (snd (run_process ?ec weights_cmd ?w0))"
  have c1: "run_process ?ec weights_cmd ?w0 = (0, [], f)" unfolding f_def by code_simp
  have c2: "verify_checksum ?ec ?p ?w0 = Inr False" by code_simp
  have c3: "cmds ?w0 = []" by code_simp
  from checksum_only_before_download[where w = ?w0 and filename = ?p and e = ?ec
      and args = weights_cmd and out = "[]" and f = f] c1 c2
  have part2: "run_curl_cmd ?ec weights_cmd ?p ?w0
      = (Inr (), ?w0\<lparr>files := f, cmds := cmds ?w0 @ [weights_cmd]\<rparr>)"
    by blast
  define w1 where "w1 = ?w0\<lparr>files := f, cmds := [weights_cmd]\<rparr>"
  have part2': "run_curl_cmd ?ec weights_cmd ?p ?w0 = (Inr (), w1)"
    using part2 c3 unfolding w1_def by simp
  have same_path: "?lbp = ?p" by code_simp
  have same_cmd: "blob_curl_cmd ?lbp sample_accept (ollama_url ''llama3'') (blob_digest ''weights'')
      = weights_cmd" by code_simp
  have d0: "read_file w1 ?p = Inr ''corrupt''" unfolding w1_def f_def by code_simp
  define w2 where "w2 = snd (os_makedirs ''/s/models/ollama'' w1)"
  have d1: "os_makedirs ''/s/models/ollama'' w1 = (Inr (), w2)"
    unfolding w2_def w1_def f_def by code_simp
  define rel where "rel = ''../../repos/ollama/blobs/'' @ blob_digest ''weights''"
  have d2: "os_path_relpath (cwd w2) ?p (os_path_dirname ?sp) = Inr rel"
    unfolding rel_def w2_def w1_def f_def by code_simp
  define f' where "f' = snd (snd (run_process ?ec (ln_cmd rel ?sp) w2))"
  have d3: "run_process ?ec (ln_cmd rel ?sp) w2 = (0, [], f')"
    unfolding f'_def rel_def w2_def w1_def f_def by code_simp
  from checksum_only_before_download[where e = ?ec and w = ?w0
      and repos_ollama = "''/s/repos/ollama''" and digest = "blob_digest ''weights''"
      and accept = sample_accept and registry_head = "ollama_url ''llama3''" and ?w1.0 = w1
      and ramalama_models = "''/s/models/ollama''" and ?w2.0 = w2 and symlink_path = ?sp
      and rel = rel and out' = "[]" and f' = f' and model_name = "''library/llama3''"
      and model_tag = "''latest''"]
    part2' d1 d2 d3 same_path same_cmd
  have part3: "pull_ollama_blob ?ec ''/s/repos/ollama'' (JStr (blob_digest ''weights''))
        sample_accept (ollama_url ''llama3'') ''/s/models/ollama'' ''library/llama3'' ''latest''
        ?sp ?w0 = (Inr (), w2\<lparr>files := f', cmds := cmds w2 @ [ln_cmd rel ?sp]\<rparr>)"
    by simp
  from part1 b6 have part1': "verify_checksum ?e ?p ?bad = Inr False \<and>
      cmds (snd (run_curl_cmd ?e weights_cmd ?p ?bad)) = [weights_cmd]" by simp
  from part2 c3 have part2'': "run_curl_cmd ?ec weights_cmd ?p ?w0
      = (Inr (), ?w0\<lparr>files := f, cmds := [weights_cmd]\<rparr>)" by simp
  show ?thesis
    apply (rule exI[of _ w1], rule exI[of _ w2], rule exI[of _ rel], rule exI[of _ f],
        rule exI[of _ f'])
    using b1 b4 part1' c1 part2'' d0 d1 d2 d3 part3 w1_def by blast
qed

text \<open>
  C3 as stated fails: the registry serves \<open>corrupt\<close> under the digest of
  \<open>weights\<close>. The pull succeeds, prints no error, and the published link leads
  to the corrupt bytes, whose digest is not the one of the blob's name.
\<close>

theorem corrupt_blob_published_counterexample:
  "(case pull_cli (sample_env corrupt_registry sample_documents) ''/s'' [''llama3'']
            (world0 fresh_store) of
      (r, w) \<Rightarrow>
        r = Inr ''/s/models/ollama/llama3:latest'' \<and> stderr w = [] \<and>
        os_readlink w ''/s/models/ollama/llama3:latest''
          = Inr (''../../repos/ollama/blobs/'' @ blob_digest ''weights'') \<and>
        read_file w ''/s/models/ollama/llama3:latest'' = Inr ''corrupt'' \<and>
        ''sha256:'' @ sample_hexdigest ''corrupt'' \<noteq> blob_digest ''weights'')"
  by code_simp

section \<open>Pulling from the Ollama registry\<close>

lemma os_makedirs_only_files:
  "os_makedirs p w = (Inr u, w') \<Longrightarrow> \<exists>f. w' = w\<lparr>files := f\<rparr>"
  unfolding os_makedirs_def by (auto split: if_splits sum.splits)

lemma fetch_manifest_called_process_error:
  assumes "os_makedirs (os_path_dirname manifests) w = (Inr (), w1)"
    and "os_makedirs (os_path_join repos_ollama ''blobs'') w1 = (Inr (), w2)"
    and "run_process e (manifest_curl_cmd manifests accept registry_head model_tag) w2 = (rc, out, f)"
    and "rc \<noteq> 0"
  shows "fetch_manifest e repos_ollama manifests accept registry_head model_tag w =
     (Inl (CalledProcessError rc),
      w2\<lparr>files := f, cmds := cmds w2 @ [manifest_curl_cmd manifests accept registry_head model_tag]\<rparr>)"
  using assms unfolding fetch_manifest_def pull_ollama_manifest_def and_then_def run_cmd_def
  by simp

lemma pull_layers_skips:
  assumes "\<forall>l \<in> set layers. \<exists>d mt. json_get l ''digest'' = Inr d \<and> json_get l ''mediaType'' = Inr mt
              \<and> mt \<noteq> JStr ''application/vnd.ollama.image.model''"
  shows "pull_layers e repos_ollama accept registry_head ramalama_models model_name model_tag
           symlink_path layers w = (Inr (), w)"
  using assms by (induction layers) auto

lemma init_pull_success_path:
  "init_pull e repos_ollama manifests accept registry_head model_name model_tag ramalama_models
     symlink_path model w = (Inr p, w') \<Longrightarrow> p = symlink_path"
  unfolding init_pull_def and_then_def
  by (auto split: sum.splits prod.splits exn.splits if_splits)

lemma os_makedirs_stderr: "os_makedirs p w = (Inr (), w') \<Longrightarrow> stderr w' = stderr w"
  using os_makedirs_only_files[of p w "()" w'] by auto

lemma os_makedirs_cmds: "os_makedirs p w = (Inr (), w') \<Longrightarrow> cmds w' = cmds w"
  using os_makedirs_only_files[of p w "()" w'] by auto

lemma run_curl_cmd_ok_stderr:
  "run_curl_cmd e args filename w = (Inr (), w') \<Longrightarrow> stderr w' = stderr w"
  unfolding run_curl_cmd_eq
  by (auto split: sum.splits bool.splits prod.splits if_splits simp: print_error_def)

lemma ln_sf_ok_stderr: "ln_sf e rel sp w = (Inr (), w') \<Longrightarrow> stderr w' = stderr w"
  unfolding ln_sf_eq by (auto split: prod.splits if_splits simp: print_error_def)

lemma fetch_manifest_ok_stderr:
  assumes "fetch_manifest e repos_ollama manifests accept registry_head model_tag w = (Inr md, w1)"
  shows "stderr w1 = stderr w"
proof -
  from assms obtain wa wb where
    a: "os_makedirs (os_path_dirname manifests) w = (Inr (), wa)" and
    b: "os_makedirs (os_path_join repos_ollama ''blobs'') wa = (Inr (), wb)" and
    c: "stderr w1 = stderr wb"
    unfolding fetch_manifest_def pull_ollama_manifest_def and_then_def run_cmd_def
    by (auto split: sum.splits prod.splits option.splits if_splits)
  from os_makedirs_stderr[OF a] os_makedirs_stderr[OF b] c show ?thesis by simp
qed

lemma config_blob_ok_stderr:
  "pull_ollama_config_blob e repos_ollama accept registry_head md w1 = (Inr (), w2) \<Longrightarrow>
     stderr w2 = stderr w1"
  unfolding pull_ollama_config_blob_def Let_def
  by (auto split: sum.splits json.splits dest: run_curl_cmd_ok_stderr)

lemma pull_ollama_blob_ok_stderr:
  assumes "pull_ollama_blob e repos_ollama layer_digest accept registry_head ramalama_models
     model_name model_tag symlink_path w = (Inr (), w')"
  shows "stderr w' = stderr w"
proof -
  from assms obtain d wa wb rel where
    a: "run_curl_cmd e (blob_curl_cmd (os_path_join (os_path_join repos_ollama ''blobs'') d)
           accept registry_head d) (os_path_join (os_path_join repos_ollama ''blobs'') d) w
         = (Inr (), wa)" and
    b: "os_makedirs ramalama_models wa = (Inr (), wb)" and
    c: "ln_sf e rel symlink_path wb = (Inr (), w')"
    unfolding pull_ollama_blob_def and_then_def Let_def
    by (auto split: json.splits sum.splits prod.splits)
  from run_curl_cmd_ok_stderr[OF a] os_makedirs_stderr[OF b] ln_sf_ok_stderr[OF c]
  show ?thesis by simp
qed

lemma pull_layers_ok_stderr:
  "pull_layers e repos_ollama accept registry_head ramalama_models model_name model_tag
     symlink_path layers w = (Inr (), w') \<Longrightarrow> stderr w' = stderr w"
proof (induction layers arbitrary: w)
  case Nil
  then show ?case by simp
next
  case (Cons layer rest)
  from Cons.prems consider
      (skip) "pull_layers e repos_ollama accept registry_head ramalama_models model_name model_tag
          symlink_path rest w = (Inr (), w')"
    | (fetch) d wa where
        "pull_ollama_blob e repos_ollama d accept registry_head ramalama_models model_name
           model_tag symlink_path w = (Inr (), wa)"
        "pull_layers e repos_ollama accept registry_head ramalama_models model_name model_tag
           symlink_path rest wa = (Inr (), w')"
    by (auto split: sum.splits if_splits prod.splits)
  then show ?case
  proof cases
    case skip
    then show ?thesis by (rule Cons.IH)
  next
    case fetch
    from Cons.IH[OF fetch(2)] pull_ollama_blob_ok_stderr[OF fetch(1)] show ?thesis by simp
  qed
qed

lemma pull_layers_append:
  "pull_layers e repos_ollama accept registry_head ramalama_models model_name model_tag
     symlink_path (pre @ post) w =
   (case pull_layers e repos_ollama accept registry_head ramalama_models model_name model_tag
           symlink_path pre w of
      (Inl x, w') \<Rightarrow> (Inl x, w')
    | (Inr _, w') \<Rightarrow>
        pull_layers e repos_ollama accept registry_head ramalama_models model_name model_tag
          symlink_path post w')"
  by (induction pre arbitrary: w) (auto split: sum.splits prod.splits)

lemma pull_ollama_blob_fetch_failure:
  assumes "verify_checksum e (os_path_join (os_path_join repos_ollama ''blobs'') d) w = Inr False"
    and "run_process e (blob_curl_cmd (os_path_join (os_path_join repos_ollama ''blobs'') d)
           accept registry_head d) w = (rc, out, f)"
    and "rc \<noteq> 0"
  shows "pull_ollama_blob e repos_ollama (JStr d) accept registry_head ramalama_models
           model_name model_tag symlink_path w =
     (Inl (SystemExit rc),
      (if rc = 22
       then print_error (Text (os_path_join (os_path_join repos_ollama ''blobs'') d @ '' not found''))
       else id)
        (w\<lparr>files := f,
           cmds := cmds w @ [blob_curl_cmd (os_path_join (os_path_join repos_ollama ''blobs'') d)
                               accept registry_head d]\<rparr>))"
  using assms unfolding pull_ollama_blob_def and_then_def Let_def run_curl_cmd_eq by simp

text \<open>
  C4. An Ollama pull that reaches the registry (no match of the glob, no link in
  place) is \<open>init_pull\<close> on the resolved reference. When the manifest request
  fails with return code \<open>rc\<close> (other than 0, the two directories made), the
  pull ends with \<open>sys.exit(rc)\<close>, and standard error holds what it held before,
  followed by the line \<open>model:tag not found\<close> exactly when \<open>rc\<close> is 22: the
  reference as given (scheme removed) and the resolved tag. The other requests
  of the pull go through \<open>run_curl_cmd\<close>, which turns a failure with return
  code \<open>rc\<close> into \<open>sys.exit(rc)\<close> and prints \<open>file not found\<close> for the
  blob's file when \<open>rc\<close> is 22. So a failed request for the configuration blob,
  and a failed request for a model layer once the layers before it have been
  handled, each end \<open>init_pull\<close> with \<open>sys.exit(rc)\<close>, in the world the failed
  request left, with that one line on standard error when \<open>rc\<close> is 22 and
  nothing printed otherwise.
\<close>

theorem manifest_not_found_aborts:
  "(glob_glob e (ramalama_store @ ''/models/*/'' @ r) w = [] \<and>
    \<not> startswith r ''huggingface://'' \<and> \<not> startswith r ''oci://'' \<and>
    ollama_reference r = (model, model_name, model_tag, model_base) \<and>
    \<not> os_path_exists w
        (os_path_join (ramalama_store @ ''/models/ollama'') (model_base @ '':'' @ model_tag)) \<and>
    manifests = os_path_join (os_path_join (os_path_join (os_path_join
        (ramalama_store @ ''/repos/ollama'') ''manifests'') ''https://registry.ollama.ai'')
        model_name) model_tag \<and>
    fetch_cmd = manifest_curl_cmd manifests
        ''Accept: application/vnd.docker.distribution.manifest.v2+json''
        (''https://registry.ollama.ai/v2/'' @ model_name) model_tag \<and>
    os_makedirs (os_path_dirname manifests) w = (Inr (), w1) \<and>
    os_makedirs (os_path_join (ramalama_store @ ''/repos/ollama'') ''blobs'') w1 = (Inr (), w2) \<and>
    run_process e fetch_cmd w2 = (rc, out, f) \<and> rc \<noteq> 0 \<longrightarrow>
      pull_cli e ramalama_store (r # rest) w =
        (Inl (SystemExit rc),
         (if rc = 22 then print_error (Text (model @ '':'' @ model_tag @ '' not found'')) else id)
           (w2\<lparr>files := f, cmds := cmds w2 @ [fetch_cmd]\<rparr>)) \<and>
      stderr (snd (pull_cli e ramalama_store (r # rest) w)) =
        stderr w @ (if rc = 22 then [Text (model @ '':'' @ model_tag @ '' not found'')] else [])) \<and>
   (verify_checksum e filename w = Inr False \<and> run_process e args w = (rc, out, f) \<and> rc \<noteq> 0 \<longrightarrow>
      run_curl_cmd e args filename w =
        (Inl (SystemExit rc),
         (if rc = 22 then print_error (Text (filename @ '' not found'')) else id)
           (w\<lparr>files := f, cmds := cmds w @ [args]\<rparr>)) \<and>
      stderr (snd (run_curl_cmd e args filename w)) =
        stderr w @ (if rc = 22 then [Text (filename @ '' not found'')] else [])) \<and>
   (fetch_manifest e repos_ollama manifests' accept registry_head model_tag w = (Inr md, w1) \<and>
    pull_ollama_config_blob e repos_ollama accept registry_head md w1 = (Inl x, w2) \<longrightarrow>
      init_pull e repos_ollama manifests' accept registry_head model_name model_tag
        ramalama_models symlink_path model w = (Inl x, w2)) \<and>
   (glob_glob e (ramalama_store @ ''/models/*/'' @ r) w = [] \<and>
    \<not> startswith r ''huggingface://'' \<and> \<not> startswith r ''oci://'' \<and>
    ollama_reference r = (model, model_name, model_tag, model_base) \<and>
    \<not> os_path_exists w
        (os_path_join (ramalama_store @ ''/models/ollama'') (model_base @ '':'' @ model_tag)) \<longrightarrow>
      pull_cli e ramalama_store (r # rest) w =
        init_pull e (ramalama_store @ ''/repos/ollama'')
          (os_path_join (os_path_join (os_path_join (os_path_join
             (ramalama_store @ ''/repos/ollama'') ''manifests'') ''https://registry.ollama.ai'')
             model_name) model_tag)
          ''Accept: application/vnd.docker.distribution.manifest.v2+json''
          (''https://registry.ollama.ai/v2/'' @ model_name) model_name model_tag
          (ramalama_store @ ''/models/ollama'')
          (os_path_join (ramalama_store @ ''/models/ollama'') (model_base @ '':'' @ model_tag))
          model w) \<and>
   (fetch_manifest e repos_ollama manifests' accept registry_head model_tag w = (Inr md, w1) \<and>
    json_get md ''config'' = Inr cfg \<and> json_get cfg ''digest'' = Inr (JStr cfg_hash) \<and>
    config_blob_path = os_path_join (os_path_join repos_ollama ''blobs'') cfg_hash \<and>
    verify_checksum e config_blob_path w1 = Inr False \<and>
    run_process e (config_curl_cmd config_blob_path accept registry_head cfg_hash) w1
      = (rc, out, f) \<and> rc \<noteq> 0 \<longrightarrow>
      init_pull e repos_ollama manifests' accept registry_head model_name model_tag
          ramalama_models symlink_path model w =
        (Inl (SystemExit rc),
         (if rc = 22 then print_error (Text (config_blob_path @ '' not found'')) else id)
           (w1\<lparr>files := f,
               cmds := cmds w1 @
                 [config_curl_cmd config_blob_path accept registry_head cfg_hash]\<rparr>)) \<and>
      stderr (snd (init_pull e repos_ollama manifests' accept registry_head model_name model_tag
          ramalama_models symlink_path model w)) =
        stderr w @ (if rc = 22 then [Text (config_blob_path @ '' not found'')] else [])) \<and>
   (fetch_manifest e repos_ollama manifests' accept registry_head model_tag w = (Inr md, w1) \<and>
    pull_ollama_config_blob e repos_ollama accept registry_head md w1 = (Inr (), w2) \<and>
    json_get md ''layers'' = Inr ls \<and> json_iter ls = Inr (before @ layer # later) \<and>
    pull_layers e repos_ollama accept registry_head ramalama_models model_name model_tag
        symlink_path before w2 = (Inr (), w3) \<and>
    json_get layer ''digest'' = Inr (JStr layer_digest) \<and>
    json_get layer ''mediaType'' = Inr (JStr ''application/vnd.ollama.image.model'') \<and>
    layer_blob_path = os_path_join (os_path_join repos_ollama ''blobs'') layer_digest \<and>
    verify_checksum e layer_blob_path w3 = Inr False \<and>
    run_process e (blob_curl_cmd layer_blob_path accept registry_head layer_digest) w3
      = (rc, out, f) \<and> rc \<noteq> 0 \<longrightarrow>
      init_pull e repos_ollama manifests' accept registry_head model_name model_tag
          ramalama_models symlink_path model w =
        (Inl (SystemExit rc),
         (if rc = 22 then print_error (Text (layer_blob_path @ '' not found'')) else id)
           (w3\<lparr>files := f,
               cmds := cmds w3 @
                 [blob_curl_cmd layer_blob_path accept registry_head layer_digest]\<rparr>)) \<and>
      stderr (snd (init_pull e repos_ollama manifests' accept registry_head model_name model_tag
          ramalama_models symlink_path model w)) =
        stderr w @ (if rc = 22 then [Text (layer_blob_path @ '' not found'')] else []))"
proof -
  have manifest: "glob_glob e (ramalama_store @ ''/models/*/'' @ r) w = [] \<and>
    \<not> startswith r ''huggingface://'' \<and> \<not> startswith r ''oci://'' \<and>
    ollama_reference r = (model, model_name, model_tag, model_base) \<and>
    \<not> os_path_exists w
        (os_path_join (ramalama_store @ ''/models/ollama'') (model_base @ '':'' @ model_tag)) \<and>
    manifests = os_path_join (os_path_join (os_path_join (os_path_join
        (ramalama_store @ ''/repos/ollama'') ''manifests'') ''https://registry.ollama.ai'')
        model_name) model_tag \<and>
    fetch_cmd = manifest_curl_cmd manifests
        ''Accept: application/vnd.docker.distribution.manifest.v2+json''
        (''https://registry.ollama.ai/v2/'' @ model_name) model_tag \<and>
    os_makedirs (os_path_dirname manifests) w = (Inr (), w1) \<and>
    os_makedirs (os_path_join (ramalama_store @ ''/repos/ollama'') ''blobs'') w1 = (Inr (), w2) \<and>
    run_process e fetch_cmd w2 = (rc, out, f) \<and> rc \<noteq> 0 \<longrightarrow>
      pull_cli e ramalama_store (r # rest) w =
        (Inl (SystemExit rc),
         (if rc = 22 then print_error (Text (model @ '':'' @ model_tag @ '' not found'')) else id)
           (w2\<lparr>files := f, cmds := cmds w2 @ [fetch_cmd]\<rparr>)) \<and>
      stderr (snd (pull_cli e ramalama_store (r # rest) w)) =
        stderr w @ (if rc = 22 then [Text (model @ '':'' @ model_tag @ '' not found'')] else [])"
  proof (intro impI, elim conjE)
    assume a: "glob_glob e (ramalama_store @ ''/models/*/'' @ r) w = []"
      "\<not> startswith r ''huggingface://''" "\<not> startswith r ''oci://''"
      "ollama_reference r = (model, model_name, model_tag, model_base)"
      "\<not> os_path_exists w
        (os_path_join (ramalama_store @ ''/models/ollama'') (model_base @ '':'' @ model_tag))"
      and m: "manifests = os_path_join (os_path_join (os_path_join (os_path_join
        (ramalama_store @ ''/repos/ollama'') ''manifests'') ''https://registry.ollama.ai'')
        model_name) model_tag"
      and c: "fetch_cmd = manifest_curl_cmd manifests
        ''Accept: application/vnd.docker.distribution.manifest.v2+json''
        (''https://registry.ollama.ai/v2/'' @ model_name) model_tag"
      and d: "os_makedirs (os_path_dirname manifests) w = (Inr (), w1)"
        "os_makedirs (os_path_join (ramalama_store @ ''/repos/ollama'') ''blobs'') w1 = (Inr (), w2)"
        "run_process e fetch_cmd w2 = (rc, out, f)" "rc \<noteq> 0"
    have fm: "fetch_manifest e (ramalama_store @ ''/repos/ollama'') manifests
        ''Accept: application/vnd.docker.distribution.manifest.v2+json''
        (''https://registry.ollama.ai/v2/'' @ model_name) model_tag w =
      (Inl (CalledProcessError rc), w2\<lparr>files := f, cmds := cmds w2 @ [fetch_cmd]\<rparr>)"
      using fetch_manifest_called_process_error[OF d(1) d(2) d(3)[unfolded c] d(4)] c by simp
    have ip: "init_pull e (ramalama_store @ ''/repos/ollama'') manifests
        ''Accept: application/vnd.docker.distribution.manifest.v2+json''
        (''https://registry.ollama.ai/v2/'' @ model_name) model_name model_tag
        (ramalama_store @ ''/models/ollama'')
        (os_path_join (ramalama_store @ ''/models/ollama'') (model_base @ '':'' @ model_tag))
        model w =
      (Inl (SystemExit rc),
         (if rc = 22 then print_error (Text (model @ '':'' @ model_tag @ '' not found'')) else id)
           (w2\<lparr>files := f, cmds := cmds w2 @ [fetch_cmd]\<rparr>))"
      unfolding init_pull_def fm by simp
    have res: "pull_cli e ramalama_store (r # rest) w =
        (Inl (SystemExit rc),
         (if rc = 22 then print_error (Text (model @ '':'' @ model_tag @ '' not found'')) else id)
           (w2\<lparr>files := f, cmds := cmds w2 @ [fetch_cmd]\<rparr>))"
      unfolding pull_cli_def using a ip m by (simp add: Let_def)
    have err: "stderr (snd (pull_cli e ramalama_store (r # rest) w)) =
        stderr w @ (if rc = 22 then [Text (model @ '':'' @ model_tag @ '' not found'')] else [])"
      unfolding res using os_makedirs_stderr[OF d(1)] os_makedirs_stderr[OF d(2)]
      by (simp add: print_error_def)
    from res err show "pull_cli e ramalama_store (r # rest) w =
        (Inl (SystemExit rc),
         (if rc = 22 then print_error (Text (model @ '':'' @ model_tag @ '' not found'')) else id)
           (w2\<lparr>files := f, cmds := cmds w2 @ [fetch_cmd]\<rparr>)) \<and>
      stderr (snd (pull_cli e ramalama_store (r # rest) w)) =
        stderr w @ (if rc = 22 then [Text (model @ '':'' @ model_tag @ '' not found'')] else [])"
      by (rule conjI)
  qed
  have blob: "verify_checksum e filename w = Inr False \<and> run_process e args w = (rc, out, f) \<and> rc \<noteq> 0 \<longrightarrow>
      run_curl_cmd e args filename w =
        (Inl (SystemExit rc),
         (if rc = 22 then print_error (Text (filename @ '' not found'')) else id)
           (w\<lparr>files := f, cmds := cmds w @ [args]\<rparr>)) \<and>
      stderr (snd (run_curl_cmd e args filename w)) =
        stderr w @ (if rc = 22 then [Text (filename @ '' not found'')] else [])"
    unfolding run_curl_cmd_eq by (simp add: print_error_def)
  have config: "fetch_manifest e repos_ollama manifests' accept registry_head model_tag w = (Inr md, w1) \<and>
    pull_ollama_config_blob e repos_ollama accept registry_head md w1 = (Inl x, w2) \<longrightarrow>
      init_pull e repos_ollama manifests' accept registry_head model_name model_tag
        ramalama_models symlink_path model w = (Inl x, w2)"
    unfolding init_pull_def and_then_def by simp
  have lift: "glob_glob e (ramalama_store @ ''/models/*/'' @ r) w = [] \<and>
    \<not> startswith r ''huggingface://'' \<and> \<not> startswith r ''oci://'' \<and>
    ollama_reference r = (model, model_name, model_tag, model_base) \<and>
    \<not> os_path_exists w
        (os_path_join (ramalama_store @ ''/models/ollama'') (model_base @ '':'' @ model_tag)) \<longrightarrow>
      pull_cli e ramalama_store (r # rest) w =
        init_pull e (ramalama_store @ ''/repos/ollama'')
          (os_path_join (os_path_join (os_path_join (os_path_join
             (ramalama_store @ ''/repos/ollama'') ''manifests'') ''https://registry.ollama.ai'')
             model_name) model_tag)
          ''Accept: application/vnd.docker.distribution.manifest.v2+json''
          (''https://registry.ollama.ai/v2/'' @ model_name) model_name model_tag
          (ramalama_store @ ''/models/ollama'')
          (os_path_join (ramalama_store @ ''/models/ollama'') (model_base @ '':'' @ model_tag))
          model w"
    unfolding pull_cli_def by (simp add: Let_def)
  have config_request: "fetch_manifest e repos_ollama manifests' accept registry_head model_tag w = (Inr md, w1) \<and>
    json_get md ''config'' = Inr cfg \<and> json_get cfg ''digest'' = Inr (JStr cfg_hash) \<and>
    config_blob_path = os_path_join (os_path_join repos_ollama ''blobs'') cfg_hash \<and>
    verify_checksum e config_blob_path w1 = Inr False \<and>
    run_process e (config_curl_cmd config_blob_path accept registry_head cfg_hash) w1
      = (rc, out, f) \<and> rc \<noteq> 0 \<longrightarrow>
      init_pull e repos_ollama manifests' accept registry_head model_name model_tag
          ramalama_models symlink_path model w =
        (Inl (SystemExit rc),
         (if rc = 22 then print_error (Text (config_blob_path @ '' not found'')) else id)
           (w1\<lparr>files := f,
               cmds := cmds w1 @
                 [config_curl_cmd config_blob_path accept registry_head cfg_hash]\<rparr>)) \<and>
      stderr (snd (init_pull e repos_ollama manifests' accept registry_head model_name model_tag
          ramalama_models symlink_path model w)) =
        stderr w @ (if rc = 22 then [Text (config_blob_path @ '' not found'')] else [])"
  proof (intro impI, elim conjE)
    assume fm: "fetch_manifest e repos_ollama manifests' accept registry_head model_tag w = (Inr md, w1)"
      and cfg: "json_get md ''config'' = Inr cfg" "json_get cfg ''digest'' = Inr (JStr cfg_hash)"
      and p: "config_blob_path = os_path_join (os_path_join repos_ollama ''blobs'') cfg_hash"
      and v: "verify_checksum e config_blob_path w1 = Inr False"
      and run: "run_process e (config_curl_cmd config_blob_path accept registry_head cfg_hash) w1
        = (rc, out, f)" "rc \<noteq> 0"
    have cb: "pull_ollama_config_blob e repos_ollama accept registry_head md w1 =
        (Inl (SystemExit rc),
         (if rc = 22 then print_error (Text (config_blob_path @ '' not found'')) else id)
           (w1\<lparr>files := f,
               cmds := cmds w1 @
                 [config_curl_cmd config_blob_path accept registry_head cfg_hash]\<rparr>))"
      unfolding pull_ollama_config_blob_def Let_def run_curl_cmd_eq
      using cfg v run unfolding p by simp
    have res: "init_pull e repos_ollama manifests' accept registry_head model_name model_tag
          ramalama_models symlink_path model w =
        (Inl (SystemExit rc),
         (if rc = 22 then print_error (Text (config_blob_path @ '' not found'')) else id)
           (w1\<lparr>files := f,
               cmds := cmds w1 @
                 [config_curl_cmd config_blob_path accept registry_head cfg_hash]\<rparr>))"
      using fm cb unfolding init_pull_def and_then_def by simp
    have err: "stderr (snd (init_pull e repos_ollama manifests' accept registry_head model_name
          model_tag ramalama_models symlink_path model w)) =
        stderr w @ (if rc = 22 then [Text (config_blob_path @ '' not found'')] else [])"
      unfolding res using fetch_manifest_ok_stderr[OF fm] by (simp add: print_error_def)
    from res err show "init_pull e repos_ollama manifests' accept registry_head model_name model_tag
          ramalama_models symlink_path model w =
        (Inl (SystemExit rc),
         (if rc = 22 then print_error (Text (config_blob_path @ '' not found'')) else id)
           (w1\<lparr>files := f,
               cmds := cmds w1 @
                 [config_curl_cmd config_blob_path accept registry_head cfg_hash]\<rparr>)) \<and>
      stderr (snd (init_pull e repos_ollama manifests' accept registry_head model_name model_tag
          ramalama_models symlink_path model w)) =
        stderr w @ (if rc = 22 then [Text (config_blob_path @ '' not found'')] else [])"
      by (rule conjI)
  qed
  have layer_request: "fetch_manifest e repos_ollama manifests' accept registry_head model_tag w = (Inr md, w1) \<and>
    pull_ollama_config_blob e repos_ollama accept registry_head md w1 = (Inr (), w2) \<and>
    json_get md ''layers'' = Inr ls \<and> json_iter ls = Inr (before @ layer # later) \<and>
    pull_layers e repos_ollama accept registry_head ramalama_models model_name model_tag
        symlink_path before w2 = (Inr (), w3) \<and>
    json_get layer ''digest'' = Inr (JStr layer_digest) \<and>
    json_get layer ''mediaType'' = Inr (JStr ''application/vnd.ollama.image.model'') \<and>
    layer_blob_path = os_path_join (os_path_join repos_ollama ''blobs'') layer_digest \<and>
    verify_checksum e layer_blob_path w3 = Inr False \<and>
    run_process e (blob_curl_cmd layer_blob_path accept registry_head layer_digest) w3
      = (rc, out, f) \<and> rc \<noteq> 0 \<longrightarrow>
      init_pull e repos_ollama manifests' accept registry_head model_name model_tag
          ramalama_models symlink_path model w =
        (Inl (SystemExit rc),
         (if rc = 22 then print_error (Text (layer_blob_path @ '' not found'')) else id)
           (w3\<lparr>files := f,
               cmds := cmds w3 @
                 [blob_curl_cmd layer_blob_path accept registry_head layer_digest]\<rparr>)) \<and>
      stderr (snd (init_pull e repos_ollama manifests' accept registry_head model_name model_tag
          ramalama_models symlink_path model w)) =
        stderr w @ (if rc = 22 then [Text (layer_blob_path @ '' not found'')] else [])"
  proof (intro impI, elim conjE)
    assume fm: "fetch_manifest e repos_ollama manifests' accept registry_head model_tag w = (Inr md, w1)"
      and cb: "pull_ollama_config_blob e repos_ollama accept registry_head md w1 = (Inr (), w2)"
      and ls: "json_get md ''layers'' = Inr ls" "json_iter ls = Inr (before @ layer # later)"
      and pre: "pull_layers e repos_ollama accept registry_head ramalama_models model_name
        model_tag symlink_path before w2 = (Inr (), w3)"
      and l: "json_get layer ''digest'' = Inr (JStr layer_digest)"
        "json_get layer ''mediaType'' = Inr (JStr ''application/vnd.ollama.image.model'')"
      and p: "layer_blob_path = os_path_join (os_path_join repos_ollama ''blobs'') layer_digest"
      and v: "verify_checksum e layer_blob_path w3 = Inr False"
      and run: "run_process e (blob_curl_cmd layer_blob_path accept registry_head layer_digest) w3
        = (rc, out, f)" "rc \<noteq> 0"
    have one: "pull_ollama_blob e repos_ollama (JStr layer_digest) accept registry_head
        ramalama_models model_name model_tag symlink_path w3 =
        (Inl (SystemExit rc),
         (if rc = 22 then print_error (Text (layer_blob_path @ '' not found'')) else id)
           (w3\<lparr>files := f,
               cmds := cmds w3 @
                 [blob_curl_cmd layer_blob_path accept registry_head layer_digest]\<rparr>))"
      using pull_ollama_blob_fetch_failure[OF v[unfolded p] run(1)[unfolded p] run(2)]
      unfolding p .
    have loop: "pull_layers e repos_ollama accept registry_head ramalama_models model_name
        model_tag symlink_path (before @ layer # later) w2 =
        (Inl (SystemExit rc),
         (if rc = 22 then print_error (Text (layer_blob_path @ '' not found'')) else id)
           (w3\<lparr>files := f,
               cmds := cmds w3 @
                 [blob_curl_cmd layer_blob_path accept registry_head layer_digest]\<rparr>))"
      unfolding pull_layers_append pre using l one by simp
    have res: "init_pull e repos_ollama manifests' accept registry_head model_name model_tag
          ramalama_models symlink_path model w =
        (Inl (SystemExit rc),
         (if rc = 22 then print_error (Text (layer_blob_path @ '' not found'')) else id)
           (w3\<lparr>files := f,
               cmds := cmds w3 @
                 [blob_curl_cmd layer_blob_path accept registry_head layer_digest]\<rparr>))"
      using fm cb ls loop unfolding init_pull_def and_then_def by simp
    have err: "stderr (snd (init_pull e repos_ollama manifests' accept registry_head model_name
          model_tag ramalama_models symlink_path model w)) =
        stderr w @ (if rc = 22 then [Text (layer_blob_path @ '' not found'')] else [])"
      unfolding res
      using fetch_manifest_ok_stderr[OF fm] config_blob_ok_stderr[OF cb]
        pull_layers_ok_stderr[OF pre]
      by (simp add: print_error_def)
    from res err show "init_pull e repos_ollama manifests' accept registry_head model_name model_tag
          ramalama_models symlink_path model w =
        (Inl (SystemExit rc),
         (if rc = 22 then print_error (Text (layer_blob_path @ '' not found'')) else id)
           (w3\<lparr>files := f,
               cmds := cmds w3 @
                 [blob_curl_cmd layer_blob_path accept registry_head layer_digest]\<rparr>)) \<and>
      stderr (snd (init_pull e repos_ollama manifests' accept registry_head model_name model_tag
          ramalama_models symlink_path model w)) =
        stderr w @ (if rc = 22 then [Text (layer_blob_path @ '' not found'')] else [])"
      by (rule conjI)
  qed
  show ?thesis
    apply (intro conjI)
         apply (rule manifest)
        apply (rule blob)
       apply (rule config)
      apply (rule lift)
     apply (rule config_request)
    apply (rule layer_request)
    done
qed

text \<open>
  The example of the specification: \<open>ollama://doesnotexist\<close> against a registry
  that does not know it ends with status 22 and the line
  \<open>doesnotexist:latest not found\<close> on standard error. Against a registry that
  serves the manifest of \<open>llama3\<close> only, the pull ends with status 22 at the
  configuration request; against one that serves the manifest and the
  configuration, at the request for the model layer, after two requests that
  succeeded.
\<close>

theorem manifest_not_found_aborts_witness:
  "\<exists>w2 f f' w3 w4 md x f5 w6 w7 f7.
     ollama_reference ''ollama://doesnotexist''
       = (''doesnotexist'', ''library/doesnotexist'', ''latest'', ''doesnotexist'') \<and>
     run_process (sample_env sample_registry sample_documents)
       (manifest_curl_cmd
          ''/s/repos/ollama/manifests/https://registry.ollama.ai/library/doesnotexist/latest''
          sample_accept ''https://registry.ollama.ai/v2/library/doesnotexist'' ''latest'') w2
       = (22, [], f) \<and>
     pull_cli (sample_env sample_registry sample_documents) ''/s'' [''ollama://doesnotexist'']
         (world0 fresh_store)
       = (Inl (SystemExit 22),
          print_error (Text ''doesnotexist:latest not found'')
            (w2\<lparr>files := f,
                cmds := cmds w2 @
                  [manifest_curl_cmd
                     ''/s/repos/ollama/manifests/https://registry.ollama.ai/library/doesnotexist/latest''
                     sample_accept ''https://registry.ollama.ai/v2/library/doesnotexist''
                     ''latest'']\<rparr>)) \<and>
     stderr (snd (pull_cli (sample_env sample_registry sample_documents) ''/s''
         [''ollama://doesnotexist''] (world0 fresh_store)))
       = [Text ''doesnotexist:latest not found''] \<and>
     run_curl_cmd (sample_env manifest_only_registry sample_documents) weights_cmd
         (blob_path ''weights'') (world0 fresh_store)
       = (Inl (SystemExit 22),
          print_error (Text (blob_path ''weights'' @ '' not found''))
            ((world0 fresh_store)\<lparr>files := f', cmds := [weights_cmd]\<rparr>)) \<and>
     stderr (snd (run_curl_cmd (sample_env manifest_only_registry sample_documents) weights_cmd
         (blob_path ''weights'') (world0 fresh_store)))
       = [Text (blob_path ''weights'' @ '' not found'')] \<and>
     fetch_manifest (sample_env manifest_only_registry sample_documents) ''/s/repos/ollama''
         ''/s/repos/ollama/manifests/https://registry.ollama.ai/library/llama3/latest''
         sample_accept (ollama_url ''llama3'') ''latest'' (world0 fresh_store) = (Inr md, w3) \<and>
     pull_ollama_config_blob (sample_env manifest_only_registry sample_documents)
         ''/s/repos/ollama'' sample_accept (ollama_url ''llama3'') md w3 = (Inl x, w4) \<and>
     x = SystemExit 22 \<and>
     init_pull (sample_env manifest_only_registry sample_documents) ''/s/repos/ollama''
         ''/s/repos/ollama/manifests/https://registry.ollama.ai/library/llama3/latest''
         sample_accept (ollama_url ''llama3'') ''library/llama3'' ''latest'' ''/s/models/ollama''
         ''/s/models/ollama/llama3:latest'' ''llama3'' (world0 fresh_store) = (Inl x, w4) \<and>
     run_process (sample_env manifest_only_registry sample_documents)
         (config_curl_cmd (blob_path ''cfg'') sample_accept (ollama_url ''llama3'')
            (blob_digest ''cfg'')) w3 = (22, [], f5) \<and>
     pull_cli (sample_env manifest_only_registry sample_documents) ''/s'' [''llama3'']
         (world0 fresh_store)
       = (Inl (SystemExit 22),
          print_error (Text (blob_path ''cfg'' @ '' not found''))
            (w3\<lparr>files := f5,
                cmds := cmds w3 @
                  [config_curl_cmd (blob_path ''cfg'') sample_accept (ollama_url ''llama3'')
                     (blob_digest ''cfg'')]\<rparr>)) \<and>
     stderr (snd (pull_cli (sample_env manifest_only_registry sample_documents) ''/s''
         [''llama3''] (world0 fresh_store)))
       = [Text (blob_path ''cfg'' @ '' not found'')] \<and>
     fetch_manifest (sample_env registry_without_layer sample_documents) ''/s/repos/ollama''
         ''/s/repos/ollama/manifests/https://registry.ollama.ai/library/llama3/latest''
         sample_accept (ollama_url ''llama3'') ''latest'' (world0 fresh_store) = (Inr md, w6) \<and>
     pull_ollama_config_blob (sample_env registry_without_layer sample_documents)
         ''/s/repos/ollama'' sample_accept (ollama_url ''llama3'') md w6 = (Inr (), w7) \<and>
     cmds w7 =
       [manifest_curl_cmd
          ''/s/repos/ollama/manifests/https://registry.ollama.ai/library/llama3/latest''
          sample_accept (ollama_url ''llama3'') ''latest'',
        config_curl_cmd (blob_path ''cfg'') sample_accept (ollama_url ''llama3'')
          (blob_digest ''cfg'')] \<and>
     run_process (sample_env registry_without_layer sample_documents) weights_cmd w7
       = (22, [], f7) \<and>
     pull_cli (sample_env registry_without_layer sample_documents) ''/s'' [''llama3'']
         (world0 fresh_store)
       = (Inl (SystemExit 22),
          print_error (Text (blob_path ''weights'' @ '' not found''))
            (w7\<lparr>files := f7, cmds := cmds w7 @ [weights_cmd]\<rparr>)) \<and>
     stderr (snd (pull_cli (sample_env registry_without_layer sample_documents) ''/s''
         [''llama3''] (world0 fresh_store)))
       = [Text (blob_path ''weights'' @ '' not found'')]"
proof -
  let ?e = "sample_env sample_registry sample_documents"
  let ?em = "sample_env manifest_only_registry sample_documents"
  let ?ew = "sample_env registry_without_layer sample_documents"
  let ?w0 = "world0 fresh_store"
  let ?r = "''ollama://doesnotexist''"
  let ?mf = "''/s/repos/ollama/manifests/https://registry.ollama.ai/library/doesnotexist/latest''"
  let ?cmd = "manifest_curl_cmd ?mf sample_accept
      ''https://registry.ollama.ai/v2/library/doesnotexist'' ''latest''"
  have err0: "stderr ?w0 = []" by (simp add: world0_def)
  have h1: "glob_glob ?e (''/s'' @ ''/models/*/'' @ ?r) ?w0 = []" by code_simp
  have h2: "\<not> startswith ?r ''huggingface://''" by code_simp
  have h3: "\<not> startswith ?r ''oci://''" by code_simp
  have h4: "ollama_reference ?r
      = (''doesnotexist'', ''library/doesnotexist'', ''latest'', ''doesnotexist'')" by code_simp
  have h5: "\<not> os_path_exists ?w0
      (os_path_join (''/s'' @ ''/models/ollama'') (''doesnotexist'' @ '':'' @ ''latest''))"
    by code_simp
  have h6: "?mf = os_path_join (os_path_join (os_path_join (os_path_join
        (''/s'' @ ''/repos/ollama'') ''manifests'') ''https://registry.ollama.ai'')
        ''library/doesnotexist'') ''latest''" by code_simp
  have h7: "?cmd = manifest_curl_cmd ?mf
        ''Accept: application/vnd.docker.distribution.manifest.v2+json''
        (''https://registry.ollama.ai/v2/'' @ ''library/doesnotexist'') ''latest''"
    by code_simp
  define w1 where "w1 = snd (os_makedirs (os_path_dirname ?mf) ?w0)"
  have h8: "os_makedirs (os_path_dirname ?mf) ?w0 = (Inr (), w1)" unfolding w1_def by code_simp
  define w2 where "w2 = snd (os_makedirs (os_path_join (''/s'' @ ''/repos/ollama'') ''blobs'') w1)"
  have h9: "os_makedirs (os_path_join (''/s'' @ ''/repos/ollama'') ''blobs'') w1 = (Inr (), w2)"
    unfolding w2_def w1_def by code_simp
  define f where "f = snd (snd (run_process ?e ?cmd w2))"
  have h10: "run_process ?e ?cmd w2 = (22, [], f)" unfolding f_def w2_def w1_def by code_simp
  have h11: "(22::int) \<noteq> 0" by simp
  from manifest_not_found_aborts[where e = ?e and ramalama_store = "''/s''" and r = ?r
      and w = ?w0 and model = "''doesnotexist''" and model_name = "''library/doesnotexist''"
      and model_tag = "''latest''" and model_base = "''doesnotexist''" and manifests = ?mf
      and fetch_cmd = ?cmd and ?w1.0 = w1 and ?w2.0 = w2 and rc = 22 and out = "[]" and f = f
      and rest = "[]", THEN conjunct1]
    h1 h2 h3 h4 h5 h6 h7 h8 h9 h10 h11
  have inst1: "pull_cli ?e ''/s'' [?r] ?w0 =
      (Inl (SystemExit 22),
       (if (22::int) = 22
        then print_error (Text (''doesnotexist'' @ '':'' @ ''latest'' @ '' not found''))
        else id)
         (w2\<lparr>files := f, cmds := cmds w2 @ [?cmd]\<rparr>)) \<and>
     stderr (snd (pull_cli ?e ''/s'' [?r] ?w0)) =
       stderr ?w0 @
       (if (22::int) = 22 then [Text (''doesnotexist'' @ '':'' @ ''latest'' @ '' not found'')]
        else [])"
    by blast
  from inst1[THEN conjunct1]
  have part1: "pull_cli ?e ''/s'' [?r] ?w0 =
      (Inl (SystemExit 22),
       print_error (Text ''doesnotexist:latest not found'')
         (w2\<lparr>files := f, cmds := cmds w2 @ [?cmd]\<rparr>))"
    by simp
  from inst1[THEN conjunct2] err0
  have part1e: "stderr (snd (pull_cli ?e ''/s'' [?r] ?w0))
      = [Text ''doesnotexist:latest not found'']"
    by simp
  define f' where "f' = snd (snd (run_process ?em weights_cmd ?w0))"
  have b1: "verify_checksum ?em (blob_path ''weights'') ?w0 = Inr False" by code_simp
  have b2: "run_process ?em weights_cmd ?w0 = (22, [], f')" unfolding f'_def by code_simp
  have b3: "cmds ?w0 = []" by code_simp
  from manifest_not_found_aborts[where e = ?em and filename = "blob_path ''weights''"
      and w = ?w0 and args = weights_cmd and rc = 22 and out = "[]" and f = f',
      THEN conjunct2, THEN conjunct1] b1 b2 h11
  have inst2: "run_curl_cmd ?em weights_cmd (blob_path ''weights'') ?w0
      = (Inl (SystemExit 22),
         (if (22::int) = 22 then print_error (Text (blob_path ''weights'' @ '' not found''))
          else id)
           (?w0\<lparr>files := f', cmds := cmds ?w0 @ [weights_cmd]\<rparr>)) \<and>
     stderr (snd (run_curl_cmd ?em weights_cmd (blob_path ''weights'') ?w0))
      = stderr ?w0 @
        (if (22::int) = 22 then [Text (blob_path ''weights'' @ '' not found'')] else [])"
    by blast
  from inst2[THEN conjunct1] b3
  have part2: "run_curl_cmd ?em weights_cmd (blob_path ''weights'') ?w0
      = (Inl (SystemExit 22),
         print_error (Text (blob_path ''weights'' @ '' not found''))
           (?w0\<lparr>files := f', cmds := [weights_cmd]\<rparr>))"
    by simp
  from inst2[THEN conjunct2] err0
  have part2e: "stderr (snd (run_curl_cmd ?em weights_cmd (blob_path ''weights'') ?w0))
      = [Text (blob_path ''weights'' @ '' not found'')]"
    by simp
  let ?mf3 = "''/s/repos/ollama/manifests/https://registry.ollama.ai/library/llama3/latest''"
  define md where "md = the (map_of sample_documents ''manifest of llama3'')"
  define w3 where "w3 = snd (fetch_manifest ?em ''/s/repos/ollama'' ?mf3 sample_accept
      (ollama_url ''llama3'') ''latest'' ?w0)"
  have c1: "fetch_manifest ?em ''/s/repos/ollama'' ?mf3 sample_accept
      (ollama_url ''llama3'') ''latest'' ?w0 = (Inr md, w3)"
    unfolding md_def w3_def by code_simp
  define w4 where "w4 = snd (pull_ollama_config_blob ?em ''/s/repos/ollama'' sample_accept
      (ollama_url ''llama3'') md w3)"
  have c2: "pull_ollama_config_blob ?em ''/s/repos/ollama'' sample_accept
      (ollama_url ''llama3'') md w3 = (Inl (SystemExit 22), w4)"
    unfolding w4_def md_def w3_def by code_simp
  from manifest_not_found_aborts[where e = ?em and repos_ollama = "''/s/repos/ollama''"
      and manifests' = ?mf3 and accept = sample_accept and registry_head = "ollama_url ''llama3''"
      and model_tag = "''latest''" and w = ?w0 and md = md and ?w1.0 = w3 and x = "SystemExit 22"
      and ?w2.0 = w4 and model_name = "''library/llama3''"
      and ramalama_models = "''/s/models/ollama''"
      and symlink_path = "''/s/models/ollama/llama3:latest''" and model = "''llama3''",
      THEN conjunct2, THEN conjunct2, THEN conjunct1] c1 c2
  have part3: "init_pull ?em ''/s/repos/ollama'' ?mf3 sample_accept (ollama_url ''llama3'')
      ''library/llama3'' ''latest'' ''/s/models/ollama'' ''/s/models/ollama/llama3:latest''
      ''llama3'' ?w0 = (Inl (SystemExit 22), w4)"
    by simp
  have a1: "''/s'' @ ''/repos/ollama'' = ''/s/repos/ollama''" by simp
  have a2: "''/s'' @ ''/models/ollama'' = ''/s/models/ollama''" by simp
  have a3: "os_path_join (os_path_join (os_path_join (os_path_join
        ''/s/repos/ollama'' ''manifests'') ''https://registry.ollama.ai'')
        ''library/llama3'') ''latest'' = ?mf3" by code_simp
  have a4: "''Accept: application/vnd.docker.distribution.manifest.v2+json'' = sample_accept"
    by code_simp
  have a5: "''https://registry.ollama.ai/v2/'' @ ''library/llama3'' = ollama_url ''llama3''"
    by code_simp
  have a6: "os_path_join ''/s/models/ollama'' (''llama3'' @ '':'' @ ''latest'')
      = ''/s/models/ollama/llama3:latest''" by code_simp
  have l2: "\<not> startswith ''llama3'' ''huggingface://''" by code_simp
  have l3: "\<not> startswith ''llama3'' ''oci://''" by code_simp
  have l4: "ollama_reference ''llama3'' = (''llama3'', ''library/llama3'', ''latest'', ''llama3'')"
    by code_simp
  have l5: "\<not> os_path_exists ?w0
      (os_path_join (''/s'' @ ''/models/ollama'') (''llama3'' @ '':'' @ ''latest''))"
    by code_simp
  have l1m: "glob_glob ?em (''/s'' @ ''/models/*/'' @ ''llama3'') ?w0 = []" by code_simp
  have l1w: "glob_glob ?ew (''/s'' @ ''/models/*/'' @ ''llama3'') ?w0 = []" by code_simp
  from manifest_not_found_aborts[where e = ?em and ramalama_store = "''/s''"
      and r = "''llama3''" and w = ?w0 and model = "''llama3''"
      and model_name = "''library/llama3''" and model_tag = "''latest''"
      and model_base = "''llama3''" and rest = "[]",
      THEN conjunct2, THEN conjunct2, THEN conjunct2, THEN conjunct1] l1m l2 l3 l4 l5
  have liftm: "pull_cli ?em ''/s'' [''llama3''] ?w0 =
      init_pull ?em ''/s/repos/ollama'' ?mf3 sample_accept (ollama_url ''llama3'')
        ''library/llama3'' ''latest'' ''/s/models/ollama'' ''/s/models/ollama/llama3:latest''
        ''llama3'' ?w0"
    unfolding a1 a2 a3 a4 a5 a6 by blast
  from manifest_not_found_aborts[where e = ?ew and ramalama_store = "''/s''"
      and r = "''llama3''" and w = ?w0 and model = "''llama3''"
      and model_name = "''library/llama3''" and model_tag = "''latest''"
      and model_base = "''llama3''" and rest = "[]",
      THEN conjunct2, THEN conjunct2, THEN conjunct2, THEN conjunct1] l1w l2 l3 l4 l5
  have liftw: "pull_cli ?ew ''/s'' [''llama3''] ?w0 =
      init_pull ?ew ''/s/repos/ollama'' ?mf3 sample_accept (ollama_url ''llama3'')
        ''library/llama3'' ''latest'' ''/s/models/ollama'' ''/s/models/ollama/llama3:latest''
        ''llama3'' ?w0"
    unfolding a1 a2 a3 a4 a5 a6 by blast
  let ?ccmd = "config_curl_cmd (blob_path ''cfg'') sample_accept (ollama_url ''llama3'')
      (blob_digest ''cfg'')"
  define cfg where "cfg = JObj [(''digest'', JStr (blob_digest ''cfg''))]"
  have g1: "json_get md ''config'' = Inr cfg" unfolding md_def cfg_def by code_simp
  have g2: "json_get cfg ''digest'' = Inr (JStr (blob_digest ''cfg''))"
    unfolding cfg_def by (simp add: json_get_def)
  have g3: "blob_path ''cfg'' = os_path_join (os_path_join ''/s/repos/ollama'' ''blobs'')
      (blob_digest ''cfg'')" by code_simp
  have g4: "verify_checksum ?em (blob_path ''cfg'') w3 = Inr False"
    unfolding w3_def by code_simp
  define f5 where "f5 = snd (snd (run_process ?em ?ccmd w3))"
  have g5: "run_process ?em ?ccmd w3 = (22, [], f5)" unfolding f5_def w3_def by code_simp
  have err3: "stderr w3 = []" unfolding w3_def by code_simp
  from manifest_not_found_aborts[where e = ?em and repos_ollama = "''/s/repos/ollama''"
      and manifests' = ?mf3 and accept = sample_accept and registry_head = "ollama_url ''llama3''"
      and model_tag = "''latest''" and w = ?w0 and md = md and ?w1.0 = w3 and cfg = cfg
      and cfg_hash = "blob_digest ''cfg''" and config_blob_path = "blob_path ''cfg''"
      and rc = 22 and out = "[]" and f = f5 and model_name = "''library/llama3''"
      and ramalama_models = "''/s/models/ollama''"
      and symlink_path = "''/s/models/ollama/llama3:latest''" and model = "''llama3''",
      THEN conjunct2, THEN conjunct2, THEN conjunct2, THEN conjunct2, THEN conjunct1]
    c1 g1 g2 g3 g4 g5 h11
  have inst5: "init_pull ?em ''/s/repos/ollama'' ?mf3 sample_accept (ollama_url ''llama3'')
        ''library/llama3'' ''latest'' ''/s/models/ollama'' ''/s/models/ollama/llama3:latest''
        ''llama3'' ?w0 =
      (Inl (SystemExit 22),
       (if (22::int) = 22 then print_error (Text (blob_path ''cfg'' @ '' not found'')) else id)
         (w3\<lparr>files := f5, cmds := cmds w3 @ [?ccmd]\<rparr>)) \<and>
     stderr (snd (init_pull ?em ''/s/repos/ollama'' ?mf3 sample_accept (ollama_url ''llama3'')
        ''library/llama3'' ''latest'' ''/s/models/ollama'' ''/s/models/ollama/llama3:latest''
        ''llama3'' ?w0)) =
       stderr ?w0 @
       (if (22::int) = 22 then [Text (blob_path ''cfg'' @ '' not found'')] else [])"
    by blast
  from inst5[THEN conjunct1]
  have part5: "pull_cli ?em ''/s'' [''llama3''] ?w0 =
      (Inl (SystemExit 22),
       print_error (Text (blob_path ''cfg'' @ '' not found''))
         (w3\<lparr>files := f5, cmds := cmds w3 @ [?ccmd]\<rparr>))"
    unfolding liftm by simp
  from inst5[THEN conjunct2] err0
  have part5e: "stderr (snd (pull_cli ?em ''/s'' [''llama3''] ?w0))
       = [Text (blob_path ''cfg'' @ '' not found'')]"
    unfolding liftm by simp
  define w6 where "w6 = snd (fetch_manifest ?ew ''/s/repos/ollama'' ?mf3 sample_accept
      (ollama_url ''llama3'') ''latest'' ?w0)"
  have k1: "fetch_manifest ?ew ''/s/repos/ollama'' ?mf3 sample_accept
      (ollama_url ''llama3'') ''latest'' ?w0 = (Inr md, w6)"
    unfolding md_def w6_def by code_simp
  define w7 where "w7 = snd (pull_ollama_config_blob ?ew ''/s/repos/ollama'' sample_accept
      (ollama_url ''llama3'') md w6)"
  have k2: "pull_ollama_config_blob ?ew ''/s/repos/ollama'' sample_accept
      (ollama_url ''llama3'') md w6 = (Inr (), w7)"
    unfolding w7_def md_def w6_def by code_simp
  have k2c: "cmds w7 = [manifest_curl_cmd ?mf3 sample_accept (ollama_url ''llama3'') ''latest'',
      ?ccmd]"
    unfolding w7_def md_def w6_def by code_simp
  define weights where "weights = JObj [(''digest'', JStr (blob_digest ''weights'')),
      (''mediaType'', JStr ''application/vnd.ollama.image.model'')]"
  define licence where "licence = JObj [(''digest'', JStr (blob_digest ''licence'')),
      (''mediaType'', JStr ''application/vnd.ollama.image.license'')]"
  have k3: "json_get md ''layers'' = Inr (JArr [weights, licence])"
    unfolding md_def weights_def licence_def by code_simp
  have k4: "json_iter (JArr [weights, licence]) = Inr ([] @ weights # [licence])"
    by (simp add: json_iter_def)
  have k5: "pull_layers ?ew ''/s/repos/ollama'' sample_accept (ollama_url ''llama3'')
      ''/s/models/ollama'' ''library/llama3'' ''latest'' ''/s/models/ollama/llama3:latest''
      [] w7 = (Inr (), w7)" by simp
  have k6: "json_get weights ''digest'' = Inr (JStr (blob_digest ''weights''))"
    unfolding weights_def by (simp add: json_get_def)
  have k7: "json_get weights ''mediaType'' = Inr (JStr ''application/vnd.ollama.image.model'')"
    unfolding weights_def by (simp add: json_get_def)
  have k8: "blob_path ''weights'' = os_path_join (os_path_join ''/s/repos/ollama'' ''blobs'')
      (blob_digest ''weights'')" by code_simp
  have k9: "verify_checksum ?ew (blob_path ''weights'') w7 = Inr False"
    unfolding w7_def md_def w6_def by code_simp
  define f7 where "f7 = snd (snd (run_process ?ew weights_cmd w7))"
  have k10: "run_process ?ew weights_cmd w7 = (22, [], f7)"
    unfolding f7_def w7_def md_def w6_def by code_simp
  have k10': "run_process ?ew (blob_curl_cmd (blob_path ''weights'') sample_accept
      (ollama_url ''llama3'') (blob_digest ''weights'')) w7 = (22, [], f7)"
    using k10 unfolding weights_cmd_def .
  from manifest_not_found_aborts[where e = ?ew and repos_ollama = "''/s/repos/ollama''"
      and manifests' = ?mf3 and accept = sample_accept and registry_head = "ollama_url ''llama3''"
      and model_tag = "''latest''" and w = ?w0 and md = md and ?w1.0 = w6 and ?w2.0 = w7
      and ls = "JArr [weights, licence]" and before = "[]" and layer = weights
      and later = "[licence]" and ?w3.0 = w7 and layer_digest = "blob_digest ''weights''"
      and layer_blob_path = "blob_path ''weights''"
      and rc = 22 and out = "[]" and f = f7 and model_name = "''library/llama3''"
      and ramalama_models = "''/s/models/ollama''"
      and symlink_path = "''/s/models/ollama/llama3:latest''" and model = "''llama3''",
      THEN conjunct2, THEN conjunct2, THEN conjunct2, THEN conjunct2, THEN conjunct2]
    k1 k2 k3 k4 k5 k6 k7 k8 k9 k10' h11
  have inst6: "init_pull ?ew ''/s/repos/ollama'' ?mf3 sample_accept (ollama_url ''llama3'')
        ''library/llama3'' ''latest'' ''/s/models/ollama'' ''/s/models/ollama/llama3:latest''
        ''llama3'' ?w0 =
      (Inl (SystemExit 22),
       (if (22::int) = 22 then print_error (Text (blob_path ''weights'' @ '' not found''))
        else id)
         (w7\<lparr>files := f7,
             cmds := cmds w7 @ [blob_curl_cmd (blob_path ''weights'') sample_accept
               (ollama_url ''llama3'') (blob_digest ''weights'')]\<rparr>)) \<and>
     stderr (snd (init_pull ?ew ''/s/repos/ollama'' ?mf3 sample_accept (ollama_url ''llama3'')
        ''library/llama3'' ''latest'' ''/s/models/ollama'' ''/s/models/ollama/llama3:latest''
        ''llama3'' ?w0)) =
       stderr ?w0 @
       (if (22::int) = 22 then [Text (blob_path ''weights'' @ '' not found'')] else [])"
    by blast
  from inst6[THEN conjunct1]
  have part6: "pull_cli ?ew ''/s'' [''llama3''] ?w0 =
      (Inl (SystemExit 22),
       print_error (Text (blob_path ''weights'' @ '' not found''))
         (w7\<lparr>files := f7, cmds := cmds w7 @ [weights_cmd]\<rparr>))"
    unfolding liftw weights_cmd_def by simp
  from inst6[THEN conjunct2] err0
  have part6e: "stderr (snd (pull_cli ?ew ''/s'' [''llama3''] ?w0))
       = [Text (blob_path ''weights'' @ '' not found'')]"
    unfolding liftw by simp
  show ?thesis
    apply (rule exI[of _ w2], rule exI[of _ f], rule exI[of _ f'],
        rule exI[of _ w3], rule exI[of _ w4], rule exI[of _ md],
        rule exI[of _ "SystemExit 22"], rule exI[of _ f5], rule exI[of _ w6],
        rule exI[of _ w7], rule exI[of _ f7])
    using h4 h10 part1 part1e part2 part2e c1 c2 part3 g5 part5 part5e k1 k2 k2c k10 part6 part6e
    by blast
qed

text \<open>
  C10, as the code has it. Take a pull whose manifest request succeeds and whose
  manifest parses, names a configuration digest, and has no layer of media type
  \<open>application/vnd.ollama.image.model\<close> (each layer having a digest and a media
  type). When the configuration blob is in place with a matching checksum,
  \<open>init_pull\<close> returns the symlink path in the world the manifest request
  left: the manifest request is the only command run. When the blob is not in
  place and the configuration request succeeds, \<open>init_pull\<close> returns the
  symlink path in the world that request left: the commands run are the manifest
  request and the configuration request. In both cases \<open>ln\<close> is never run, so
  the path returned may not exist: pulling \<open>tiny\<close>, whose manifest has a
  licence layer only, into a fresh store runs the two requests, stores the
  configuration blob, returns \<open>/s/models/ollama/tiny:latest\<close> with nothing
  printed, and no entry of that name is in the store afterwards.
\<close>

theorem init_pull_without_model_layer:
  "(os_makedirs (os_path_dirname manifests) w = (Inr (), wa) \<and>
    os_makedirs (os_path_join repos_ollama ''blobs'') wa = (Inr (), wb) \<and>
    fetch_cmd = manifest_curl_cmd manifests accept registry_head model_tag \<and>
    run_process e fetch_cmd wb = (0, out, f) \<and>
    w1 = wb\<lparr>files := f, cmds := cmds wb @ [fetch_cmd]\<rparr> \<and>
    read_file w1 manifests = Inr manifest_text \<and> json_loads e manifest_text = Some md \<and>
    json_get md ''config'' = Inr cfg \<and> json_get cfg ''digest'' = Inr (JStr cfg_hash) \<and>
    config_blob_path = os_path_join (os_path_join repos_ollama ''blobs'') cfg_hash \<and>
    config_cmd = config_curl_cmd config_blob_path accept registry_head cfg_hash \<and>
    json_get md ''layers'' = Inr ls \<and> json_iter ls = Inr layers \<and>
    (\<forall>l \<in> set layers. \<exists>d mt. json_get l ''digest'' = Inr d \<and> json_get l ''mediaType'' = Inr mt
        \<and> mt \<noteq> JStr ''application/vnd.ollama.image.model'') \<longrightarrow>
      (verify_checksum e config_blob_path w1 = Inr True \<longrightarrow>
         init_pull e repos_ollama manifests accept registry_head model_name model_tag
             ramalama_models symlink_path model w = (Inr symlink_path, w1) \<and>
         cmds (snd (init_pull e repos_ollama manifests accept registry_head model_name model_tag
             ramalama_models symlink_path model w)) = cmds w @ [fetch_cmd]) \<and>
      (verify_checksum e config_blob_path w1 = Inr False \<and>
       run_process e config_cmd w1 = (0, out', f') \<longrightarrow>
         init_pull e repos_ollama manifests accept registry_head model_name model_tag
             ramalama_models symlink_path model w =
           (Inr symlink_path, w1\<lparr>files := f', cmds := cmds w1 @ [config_cmd]\<rparr>) \<and>
         cmds (snd (init_pull e repos_ollama manifests accept registry_head model_name model_tag
             ramalama_models symlink_path model w)) = cmds w @ [fetch_cmd, config_cmd])) \<and>
   (case pull_cli (sample_env sample_registry sample_documents) ''/s'' [''tiny'']
           (world0 fresh_store) of
      (r, w') \<Rightarrow>
        r = Inr ''/s/models/ollama/tiny:latest'' \<and> stderr w' = [] \<and>
        cmds w' =
          [manifest_curl_cmd
             ''/s/repos/ollama/manifests/https://registry.ollama.ai/library/tiny/latest''
             sample_accept (ollama_url ''tiny'') ''latest'',
           config_curl_cmd (blob_path ''cfg'') sample_accept (ollama_url ''tiny'')
             (blob_digest ''cfg'')] \<and>
        read_file w' (blob_path ''cfg'') = Inr ''cfg'' \<and>
        \<not> os_path_exists w' ''/s/models/ollama/tiny:latest'' \<and>
        lstat (files w') (path_comps (cwd w') ''/s/models/ollama/tiny:latest'') = None)"
proof -
  have general: "os_makedirs (os_path_dirname manifests) w = (Inr (), wa) \<and>
    os_makedirs (os_path_join repos_ollama ''blobs'') wa = (Inr (), wb) \<and>
    fetch_cmd = manifest_curl_cmd manifests accept registry_head model_tag \<and>
    run_process e fetch_cmd wb = (0, out, f) \<and>
    w1 = wb\<lparr>files := f, cmds := cmds wb @ [fetch_cmd]\<rparr> \<and>
    read_file w1 manifests = Inr manifest_text \<and> json_loads e manifest_text = Some md \<and>
    json_get md ''config'' = Inr cfg \<and> json_get cfg ''digest'' = Inr (JStr cfg_hash) \<and>
    config_blob_path = os_path_join (os_path_join repos_ollama ''blobs'') cfg_hash \<and>
    config_cmd = config_curl_cmd config_blob_path accept registry_head cfg_hash \<and>
    json_get md ''layers'' = Inr ls \<and> json_iter ls = Inr layers \<and>
    (\<forall>l \<in> set layers. \<exists>d mt. json_get l ''digest'' = Inr d \<and> json_get l ''mediaType'' = Inr mt
        \<and> mt \<noteq> JStr ''application/vnd.ollama.image.model'') \<longrightarrow>
      (verify_checksum e config_blob_path w1 = Inr True \<longrightarrow>
         init_pull e repos_ollama manifests accept registry_head model_name model_tag
             ramalama_models symlink_path model w = (Inr symlink_path, w1) \<and>
         cmds (snd (init_pull e repos_ollama manifests accept registry_head model_name model_tag
             ramalama_models symlink_path model w)) = cmds w @ [fetch_cmd]) \<and>
      (verify_checksum e config_blob_path w1 = Inr False \<and>
       run_process e config_cmd w1 = (0, out', f') \<longrightarrow>
         init_pull e repos_ollama manifests accept registry_head model_name model_tag
             ramalama_models symlink_path model w =
           (Inr symlink_path, w1\<lparr>files := f', cmds := cmds w1 @ [config_cmd]\<rparr>) \<and>
         cmds (snd (init_pull e repos_ollama manifests accept registry_head model_name model_tag
             ramalama_models symlink_path model w)) = cmds w @ [fetch_cmd, config_cmd])"
  proof (intro impI, elim conjE)
    assume mk: "os_makedirs (os_path_dirname manifests) w = (Inr (), wa)"
        "os_makedirs (os_path_join repos_ollama ''blobs'') wa = (Inr (), wb)"
      and fc: "fetch_cmd = manifest_curl_cmd manifests accept registry_head model_tag"
      and run: "run_process e fetch_cmd wb = (0, out, f)"
      and w1: "w1 = wb\<lparr>files := f, cmds := cmds wb @ [fetch_cmd]\<rparr>"
      and rd: "read_file w1 manifests = Inr manifest_text" "json_loads e manifest_text = Some md"
      and cfg: "json_get md ''config'' = Inr cfg" "json_get cfg ''digest'' = Inr (JStr cfg_hash)"
      and p: "config_blob_path = os_path_join (os_path_join repos_ollama ''blobs'') cfg_hash"
      and cc: "config_cmd = config_curl_cmd config_blob_path accept registry_head cfg_hash"
      and ls: "json_get md ''layers'' = Inr ls" "json_iter ls = Inr layers"
      and none: "\<forall>l \<in> set layers. \<exists>d mt. json_get l ''digest'' = Inr d \<and>
          json_get l ''mediaType'' = Inr mt \<and> mt \<noteq> JStr ''application/vnd.ollama.image.model''"
    have fm: "fetch_manifest e repos_ollama manifests accept registry_head model_tag w = (Inr md, w1)"
      unfolding fetch_manifest_def pull_ollama_manifest_def and_then_def run_cmd_def
      using mk run[unfolded fc] rd[unfolded w1 fc] unfolding w1 fc by simp
    have log: "cmds w1 = cmds w @ [fetch_cmd]"
      unfolding w1 using os_makedirs_cmds[OF mk(1)] os_makedirs_cmds[OF mk(2)] by simp
    have loop: "\<And>w2. pull_layers e repos_ollama accept registry_head ramalama_models model_name
        model_tag symlink_path layers w2 = (Inr (), w2)"
      using pull_layers_skips[OF none] .
    have in_place: "verify_checksum e config_blob_path w1 = Inr True \<longrightarrow>
         init_pull e repos_ollama manifests accept registry_head model_name model_tag
             ramalama_models symlink_path model w = (Inr symlink_path, w1) \<and>
         cmds (snd (init_pull e repos_ollama manifests accept registry_head model_name model_tag
             ramalama_models symlink_path model w)) = cmds w @ [fetch_cmd]"
    proof
      assume v: "verify_checksum e config_blob_path w1 = Inr True"
      have cb: "pull_ollama_config_blob e repos_ollama accept registry_head md w1 = (Inr (), w1)"
        unfolding pull_ollama_config_blob_def Let_def run_curl_cmd_eq
        using cfg v unfolding p by simp
      have res: "init_pull e repos_ollama manifests accept registry_head model_name model_tag
             ramalama_models symlink_path model w = (Inr symlink_path, w1)"
        using fm cb ls loop unfolding init_pull_def and_then_def by simp
      from res log show "init_pull e repos_ollama manifests accept registry_head model_name
             model_tag ramalama_models symlink_path model w = (Inr symlink_path, w1) \<and>
         cmds (snd (init_pull e repos_ollama manifests accept registry_head model_name model_tag
             ramalama_models symlink_path model w)) = cmds w @ [fetch_cmd]"
        by simp
    qed
    have fetched: "verify_checksum e config_blob_path w1 = Inr False \<and>
       run_process e config_cmd w1 = (0, out', f') \<longrightarrow>
         init_pull e repos_ollama manifests accept registry_head model_name model_tag
             ramalama_models symlink_path model w =
           (Inr symlink_path, w1\<lparr>files := f', cmds := cmds w1 @ [config_cmd]\<rparr>) \<and>
         cmds (snd (init_pull e repos_ollama manifests accept registry_head model_name model_tag
             ramalama_models symlink_path model w)) = cmds w @ [fetch_cmd, config_cmd]"
    proof (intro impI, elim conjE)
      assume v: "verify_checksum e config_blob_path w1 = Inr False"
        and r: "run_process e config_cmd w1 = (0, out', f')"
      have cb: "pull_ollama_config_blob e repos_ollama accept registry_head md w1 =
          (Inr (), w1\<lparr>files := f', cmds := cmds w1 @ [config_cmd]\<rparr>)"
        unfolding pull_ollama_config_blob_def Let_def run_curl_cmd_eq
        using cfg v r unfolding p cc by simp
      have res: "init_pull e repos_ollama manifests accept registry_head model_name model_tag
             ramalama_models symlink_path model w =
           (Inr symlink_path, w1\<lparr>files := f', cmds := cmds w1 @ [config_cmd]\<rparr>)"
        using fm cb ls loop unfolding init_pull_def and_then_def by simp
      from res log show "init_pull e repos_ollama manifests accept registry_head model_name
             model_tag ramalama_models symlink_path model w =
           (Inr symlink_path, w1\<lparr>files := f', cmds := cmds w1 @ [config_cmd]\<rparr>) \<and>
         cmds (snd (init_pull e repos_ollama manifests accept registry_head model_name model_tag
             ramalama_models symlink_path model w)) = cmds w @ [fetch_cmd, config_cmd]"
        by simp
    qed
    from in_place fetched show "(verify_checksum e config_blob_path w1 = Inr True \<longrightarrow>
         init_pull e repos_ollama manifests accept registry_head model_name model_tag
             ramalama_models symlink_path model w = (Inr symlink_path, w1) \<and>
         cmds (snd (init_pull e repos_ollama manifests accept registry_head model_name model_tag
             ramalama_models symlink_path model w)) = cmds w @ [fetch_cmd]) \<and>
      (verify_checksum e config_blob_path w1 = Inr False \<and>
       run_process e config_cmd w1 = (0, out', f') \<longrightarrow>
         init_pull e repos_ollama manifests accept registry_head model_name model_tag
             ramalama_models symlink_path model w =
           (Inr symlink_path, w1\<lparr>files := f', cmds := cmds w1 @ [config_cmd]\<rparr>) \<and>
         cmds (snd (init_pull e repos_ollama manifests accept registry_head model_name model_tag
             ramalama_models symlink_path model w)) = cmds w @ [fetch_cmd, config_cmd])"
      by (rule conjI)
  qed
  have sample: "(case pull_cli (sample_env sample_registry sample_documents) ''/s'' [''tiny'']
           (world0 fresh_store) of
      (r, w') \<Rightarrow>
        r = Inr ''/s/models/ollama/tiny:latest'' \<and> stderr w' = [] \<and>
        cmds w' =
          [manifest_curl_cmd
             ''/s/repos/ollama/manifests/https://registry.ollama.ai/library/tiny/latest''
             sample_accept (ollama_url ''tiny'') ''latest'',
           config_curl_cmd (blob_path ''cfg'') sample_accept (ollama_url ''tiny'')
             (blob_digest ''cfg'')] \<and>
        read_file w' (blob_path ''cfg'') = Inr ''cfg'' \<and>
        \<not> os_path_exists w' ''/s/models/ollama/tiny:latest'' \<and>
        lstat (files w') (path_comps (cwd w') ''/s/models/ollama/tiny:latest'') = None)"
    by code_simp
  from general sample show ?thesis by (rule conjI)
qed

theorem init_pull_without_model_layer_witness:
  "\<exists>wa wb f w1 md ls layers f' pa pb pf p1.
     os_makedirs (os_path_dirname
         ''/s/repos/ollama/manifests/https://registry.ollama.ai/library/tiny/latest'')
         (world0 fresh_store) = (Inr (), wa) \<and>
     os_makedirs (os_path_join ''/s/repos/ollama'' ''blobs'') wa = (Inr (), wb) \<and>
     run_process (sample_env sample_registry sample_documents)
         (manifest_curl_cmd
            ''/s/repos/ollama/manifests/https://registry.ollama.ai/library/tiny/latest''
            sample_accept (ollama_url ''tiny'') ''latest'') wb = (0, [], f) \<and>
     w1 = wb\<lparr>files := f, cmds := cmds wb @
            [manifest_curl_cmd
               ''/s/repos/ollama/manifests/https://registry.ollama.ai/library/tiny/latest''
               sample_accept (ollama_url ''tiny'') ''latest'']\<rparr> \<and>
     read_file w1 ''/s/repos/ollama/manifests/https://registry.ollama.ai/library/tiny/latest''
       = Inr ''manifest of tiny'' \<and>
     json_loads (sample_env sample_registry sample_documents) ''manifest of tiny'' = Some md \<and>
     json_get md ''layers'' = Inr ls \<and> json_iter ls = Inr layers \<and>
     layers = [JObj [(''digest'', JStr (blob_digest ''licence'')),
                     (''mediaType'', JStr ''application/vnd.ollama.image.license'')]] \<and>
     verify_checksum (sample_env sample_registry sample_documents) (blob_path ''cfg'') w1
       = Inr False \<and>
     run_process (sample_env sample_registry sample_documents)
         (config_curl_cmd (blob_path ''cfg'') sample_accept (ollama_url ''tiny'')
            (blob_digest ''cfg'')) w1 = (0, [], f') \<and>
     init_pull (sample_env sample_registry sample_documents) ''/s/repos/ollama''
         ''/s/repos/ollama/manifests/https://registry.ollama.ai/library/tiny/latest''
         sample_accept (ollama_url ''tiny'') ''library/tiny'' ''latest'' ''/s/models/ollama''
         ''/s/models/ollama/tiny:latest'' ''tiny'' (world0 fresh_store)
       = (Inr ''/s/models/ollama/tiny:latest'',
          w1\<lparr>files := f', cmds := cmds w1 @
            [config_curl_cmd (blob_path ''cfg'') sample_accept (ollama_url ''tiny'')
               (blob_digest ''cfg'')]\<rparr>) \<and>
     cmds (snd (init_pull (sample_env sample_registry sample_documents) ''/s/repos/ollama''
         ''/s/repos/ollama/manifests/https://registry.ollama.ai/library/tiny/latest''
         sample_accept (ollama_url ''tiny'') ''library/tiny'' ''latest'' ''/s/models/ollama''
         ''/s/models/ollama/tiny:latest'' ''tiny'' (world0 fresh_store)))
       = [manifest_curl_cmd
            ''/s/repos/ollama/manifests/https://registry.ollama.ai/library/tiny/latest''
            sample_accept (ollama_url ''tiny'') ''latest'',
          config_curl_cmd (blob_path ''cfg'') sample_accept (ollama_url ''tiny'')
            (blob_digest ''cfg'')] \<and>
     \<not> os_path_exists
         (w1\<lparr>files := f', cmds := cmds w1 @
            [config_curl_cmd (blob_path ''cfg'') sample_accept (ollama_url ''tiny'')
               (blob_digest ''cfg'')]\<rparr>)
         ''/s/models/ollama/tiny:latest'' \<and>
     os_makedirs (os_path_dirname
         ''/s/repos/ollama/manifests/https://registry.ollama.ai/library/tiny/latest'')
         (world0 (store_with_file (blob_path ''cfg'') ''cfg'')) = (Inr (), pa) \<and>
     os_makedirs (os_path_join ''/s/repos/ollama'' ''blobs'') pa = (Inr (), pb) \<and>
     run_process (sample_env sample_registry sample_documents)
         (manifest_curl_cmd
            ''/s/repos/ollama/manifests/https://registry.ollama.ai/library/tiny/latest''
            sample_accept (ollama_url ''tiny'') ''latest'') pb = (0, [], pf) \<and>
     p1 = pb\<lparr>files := pf, cmds := cmds pb @
            [manifest_curl_cmd
               ''/s/repos/ollama/manifests/https://registry.ollama.ai/library/tiny/latest''
               sample_accept (ollama_url ''tiny'') ''latest'']\<rparr> \<and>
     verify_checksum (sample_env sample_registry sample_documents) (blob_path ''cfg'') p1
       = Inr True \<and>
     init_pull (sample_env sample_registry sample_documents) ''/s/repos/ollama''
         ''/s/repos/ollama/manifests/https://registry.ollama.ai/library/tiny/latest''
         sample_accept (ollama_url ''tiny'') ''library/tiny'' ''latest'' ''/s/models/ollama''
         ''/s/models/ollama/tiny:latest'' ''tiny''
         (world0 (store_with_file (blob_path ''cfg'') ''cfg''))
       = (Inr ''/s/models/ollama/tiny:latest'', p1) \<and>
     cmds (snd (init_pull (sample_env sample_registry sample_documents) ''/s/repos/ollama''
         ''/s/repos/ollama/manifests/https://registry.ollama.ai/library/tiny/latest''
         sample_accept (ollama_url ''tiny'') ''library/tiny'' ''latest'' ''/s/models/ollama''
         ''/s/models/ollama/tiny:latest'' ''tiny''
         (world0 (store_with_file (blob_path ''cfg'') ''cfg''))))
       = [manifest_curl_cmd
            ''/s/repos/ollama/manifests/https://registry.ollama.ai/library/tiny/latest''
            sample_accept (ollama_url ''tiny'') ''latest''] \<and>
     \<not> os_path_exists p1 ''/s/models/ollama/tiny:latest''"
proof -
  let ?e = "sample_env sample_registry sample_documents"
  let ?w0 = "world0 fresh_store"
  let ?wp = "world0 (store_with_file (blob_path ''cfg'') ''cfg'')"
  let ?mf = "''/s/repos/ollama/manifests/https://registry.ollama.ai/library/tiny/latest''"
  let ?mcmd = "manifest_curl_cmd ?mf sample_accept (ollama_url ''tiny'') ''latest''"
  let ?ccmd = "config_curl_cmd (blob_path ''cfg'') sample_accept (ollama_url ''tiny'')
      (blob_digest ''cfg'')"
  have log0: "cmds ?w0 = []" by (simp add: world0_def)
  have logp: "cmds ?wp = []" by (simp add: world0_def)
  define md where "md = the (map_of sample_documents ''manifest of tiny'')"
  define cfg where "cfg = JObj [(''digest'', JStr (blob_digest ''cfg''))]"
  define layers where "layers = [JObj [(''digest'', JStr (blob_digest ''licence'')),
                     (''mediaType'', JStr ''application/vnd.ollama.image.license'')]]"
  have fc: "?mcmd = manifest_curl_cmd ?mf sample_accept (ollama_url ''tiny'') ''latest''" ..
  have cc: "?ccmd = config_curl_cmd (blob_path ''cfg'') sample_accept (ollama_url ''tiny'')
      (blob_digest ''cfg'')" ..
  have jl: "json_loads ?e ''manifest of tiny'' = Some md" unfolding md_def by code_simp
  have g1: "json_get md ''config'' = Inr cfg" unfolding md_def cfg_def by code_simp
  have g2: "json_get cfg ''digest'' = Inr (JStr (blob_digest ''cfg''))"
    unfolding cfg_def by (simp add: json_get_def)
  have g3: "blob_path ''cfg'' = os_path_join (os_path_join ''/s/repos/ollama'' ''blobs'')
      (blob_digest ''cfg'')" by code_simp
  have l1: "json_get md ''layers'' = Inr (JArr layers)" unfolding md_def layers_def by code_simp
  have l2: "json_iter (JArr layers) = Inr layers" by (simp add: json_iter_def)
  have l3: "\<forall>l \<in> set layers. \<exists>d mt. json_get l ''digest'' = Inr d \<and>
      json_get l ''mediaType'' = Inr mt \<and> mt \<noteq> JStr ''application/vnd.ollama.image.model''"
    unfolding layers_def by (simp add: json_get_def)
  define wa where "wa = snd (os_makedirs (os_path_dirname ?mf) ?w0)"
  have m1: "os_makedirs (os_path_dirname ?mf) ?w0 = (Inr (), wa)" unfolding wa_def by code_simp
  define wb where "wb = snd (os_makedirs (os_path_join ''/s/repos/ollama'' ''blobs'') wa)"
  have m2: "os_makedirs (os_path_join ''/s/repos/ollama'' ''blobs'') wa = (Inr (), wb)"
    unfolding wb_def wa_def by code_simp
  define f where "f = snd (snd (run_process ?e ?mcmd wb))"
  have r1: "run_process ?e ?mcmd wb = (0, [], f)" unfolding f_def wb_def wa_def by code_simp
  define w1 where "w1 = wb\<lparr>files := f, cmds := cmds wb @ [?mcmd]\<rparr>"
  have rd: "read_file w1 ?mf = Inr ''manifest of tiny''"
    unfolding w1_def f_def wb_def wa_def by code_simp
  have v: "verify_checksum ?e (blob_path ''cfg'') w1 = Inr False"
    unfolding w1_def f_def wb_def wa_def by code_simp
  define f' where "f' = snd (snd (run_process ?e ?ccmd w1))"
  have r2: "run_process ?e ?ccmd w1 = (0, [], f')"
    unfolding f'_def w1_def f_def wb_def wa_def by code_simp
  from init_pull_without_model_layer[where e = ?e and repos_ollama = "''/s/repos/ollama''"
      and manifests = ?mf and accept = sample_accept and registry_head = "ollama_url ''tiny''"
      and model_tag = "''latest''" and w = ?w0 and wa = wa and wb = wb and fetch_cmd = ?mcmd
      and out = "[]" and f = f and ?w1.0 = w1 and manifest_text = "''manifest of tiny''" and md = md
      and cfg = cfg and cfg_hash = "blob_digest ''cfg''" and config_blob_path = "blob_path ''cfg''"
      and config_cmd = ?ccmd and ls = "JArr layers" and layers = layers and out' = "[]"
      and f' = f' and model_name = "''library/tiny''" and ramalama_models = "''/s/models/ollama''"
      and symlink_path = "''/s/models/ollama/tiny:latest''" and model = "''tiny''",
      THEN conjunct1]
    m1 m2 fc r1 w1_def rd jl g1 g2 g3 cc l1 l2 l3 v r2
  have fetched: "init_pull ?e ''/s/repos/ollama'' ?mf sample_accept (ollama_url ''tiny'')
      ''library/tiny'' ''latest'' ''/s/models/ollama'' ''/s/models/ollama/tiny:latest''
      ''tiny'' ?w0
        = (Inr ''/s/models/ollama/tiny:latest'', w1\<lparr>files := f', cmds := cmds w1 @ [?ccmd]\<rparr>) \<and>
     cmds (snd (init_pull ?e ''/s/repos/ollama'' ?mf sample_accept (ollama_url ''tiny'')
      ''library/tiny'' ''latest'' ''/s/models/ollama'' ''/s/models/ollama/tiny:latest''
      ''tiny'' ?w0)) = cmds ?w0 @ [?mcmd, ?ccmd]"
    by blast
  from fetched[THEN conjunct2] log0
  have fetched_log: "cmds (snd (init_pull ?e ''/s/repos/ollama'' ?mf sample_accept
      (ollama_url ''tiny'') ''library/tiny'' ''latest'' ''/s/models/ollama''
      ''/s/models/ollama/tiny:latest'' ''tiny'' ?w0)) = [?mcmd, ?ccmd]"
    by simp
  have absent: "\<not> os_path_exists (w1\<lparr>files := f', cmds := cmds w1 @ [?ccmd]\<rparr>)
      ''/s/models/ollama/tiny:latest''"
    unfolding f'_def w1_def f_def wb_def wa_def by code_simp
  define pa where "pa = snd (os_makedirs (os_path_dirname ?mf) ?wp)"
  have n1: "os_makedirs (os_path_dirname ?mf) ?wp = (Inr (), pa)" unfolding pa_def by code_simp
  define pb where "pb = snd (os_makedirs (os_path_join ''/s/repos/ollama'' ''blobs'') pa)"
  have n2: "os_makedirs (os_path_join ''/s/repos/ollama'' ''blobs'') pa = (Inr (), pb)"
    unfolding pb_def pa_def by code_simp
  define pf where "pf = snd (snd (run_process ?e ?mcmd pb))"
  have s1: "run_process ?e ?mcmd pb = (0, [], pf)" unfolding pf_def pb_def pa_def by code_simp
  define p1 where "p1 = pb\<lparr>files := pf, cmds := cmds pb @ [?mcmd]\<rparr>"
  have rdp: "read_file p1 ?mf = Inr ''manifest of tiny''"
    unfolding p1_def pf_def pb_def pa_def by code_simp
  have vp: "verify_checksum ?e (blob_path ''cfg'') p1 = Inr True"
    unfolding p1_def pf_def pb_def pa_def by code_simp
  from init_pull_without_model_layer[where e = ?e and repos_ollama = "''/s/repos/ollama''"
      and manifests = ?mf and accept = sample_accept and registry_head = "ollama_url ''tiny''"
      and model_tag = "''latest''" and w = ?wp and wa = pa and wb = pb and fetch_cmd = ?mcmd
      and out = "[]" and f = pf and ?w1.0 = p1 and manifest_text = "''manifest of tiny''" and md = md
      and cfg = cfg and cfg_hash = "blob_digest ''cfg''" and config_blob_path = "blob_path ''cfg''"
      and config_cmd = ?ccmd and ls = "JArr layers" and layers = layers
      and model_name = "''library/tiny''" and ramalama_models = "''/s/models/ollama''"
      and symlink_path = "''/s/models/ollama/tiny:latest''" and model = "''tiny''",
      THEN conjunct1]
    n1 n2 fc s1 p1_def rdp jl g1 g2 g3 cc l1 l2 l3 vp
  have in_place: "init_pull ?e ''/s/repos/ollama'' ?mf sample_accept (ollama_url ''tiny'')
      ''library/tiny'' ''latest'' ''/s/models/ollama'' ''/s/models/ollama/tiny:latest''
      ''tiny'' ?wp = (Inr ''/s/models/ollama/tiny:latest'', p1) \<and>
     cmds (snd (init_pull ?e ''/s/repos/ollama'' ?mf sample_accept (ollama_url ''tiny'')
      ''library/tiny'' ''latest'' ''/s/models/ollama'' ''/s/models/ollama/tiny:latest''
      ''tiny'' ?wp)) = cmds ?wp @ [?mcmd]"
    by blast
  from in_place[THEN conjunct2] logp
  have in_place_log: "cmds (snd (init_pull ?e ''/s/repos/ollama'' ?mf sample_accept
      (ollama_url ''tiny'') ''library/tiny'' ''latest'' ''/s/models/ollama''
      ''/s/models/ollama/tiny:latest'' ''tiny'' ?wp)) = [?mcmd]"
    by simp
  have absentp: "\<not> os_path_exists p1 ''/s/models/ollama/tiny:latest''"
    unfolding p1_def pf_def pb_def pa_def by code_simp
  show ?thesis
    apply (rule exI[of _ wa], rule exI[of _ wb], rule exI[of _ f], rule exI[of _ w1],
        rule exI[of _ md], rule exI[of _ "JArr layers"], rule exI[of _ layers],
        rule exI[of _ f'], rule exI[of _ pa], rule exI[of _ pb], rule exI[of _ pf],
        rule exI[of _ p1])
    using m1 m2 r1 w1_def rd jl l1 l2 layers_def v r2 fetched[THEN conjunct1] fetched_log absent
      n1 n2 s1 p1_def vp in_place[THEN conjunct1] in_place_log absentp
    by blast
qed

text \<open>
  C10 as stated fails in its second step. With the configuration blob of \<open>tiny\<close>
  already in the store under its digest, the pull of \<open>tiny\<close> runs the manifest
  request and nothing else: \<open>run_curl_cmd\<close> finds the checksum right and skips
  the configuration request. The path is returned all the same, and no entry of
  that name exists.
\<close>

theorem config_blob_in_place_counterexample:
  "(case pull_cli (sample_env sample_registry sample_documents) ''/s'' [''tiny'']
           (world0 (store_with_file (blob_path ''cfg'') ''cfg'')) of
      (r, w') \<Rightarrow>
        r = Inr ''/s/models/ollama/tiny:latest'' \<and> stderr w' = [] \<and>
        cmds w' =
          [manifest_curl_cmd
             ''/s/repos/ollama/manifests/https://registry.ollama.ai/library/tiny/latest''
             sample_accept (ollama_url ''tiny'') ''latest''] \<and>
        config_curl_cmd (blob_path ''cfg'') sample_accept (ollama_url ''tiny'')
          (blob_digest ''cfg'') \<notin> set (cmds w') \<and>
        \<not> os_path_exists w' ''/s/models/ollama/tiny:latest'')"
  by code_simp

section \<open>Publishing the link\<close>

lemma pull_cli_glob_match:
  "glob_glob e (ramalama_store @ ''/models/*/'' @ r) w = m # ms \<Longrightarrow>
     pull_cli e ramalama_store (r # rest) w = (Inr m, w)"
  unfolding pull_cli_def by simp

lemma pull_cli_ollama:
  assumes "glob_glob e (ramalama_store @ ''/models/*/'' @ r) w = []"
    and "\<not> startswith r ''huggingface://''" and "\<not> startswith r ''oci://''"
    and "ollama_reference r = (model, model_name, model_tag, model_base)"
  shows "pull_cli e ramalama_store (r # rest) w =
     (if os_path_exists w (os_path_join (ramalama_store @ ''/models/ollama'') (model_base @ '':'' @ model_tag))
      then (Inr (os_path_join (ramalama_store @ ''/models/ollama'') (model_base @ '':'' @ model_tag)), w)
      else init_pull e (ramalama_store @ ''/repos/ollama'')
             (os_path_join (os_path_join (os_path_join (os_path_join
                (ramalama_store @ ''/repos/ollama'') ''manifests'') ''https://registry.ollama.ai'')
                model_name) model_tag)
             ''Accept: application/vnd.docker.distribution.manifest.v2+json''
             (''https://registry.ollama.ai/v2/'' @ model_name) model_name model_tag
             (ramalama_store @ ''/models/ollama'')
             (os_path_join (ramalama_store @ ''/models/ollama'') (model_base @ '':'' @ model_tag))
             model w)"
  unfolding pull_cli_def using assms by (simp add: Let_def)

lemma pull_cli_second_call:
  assumes nh: "\<not> startswith r ''huggingface://''" and no: "\<not> startswith r ''oci://''"
    and first: "pull_cli e ramalama_store (r # rest) w = (Inr p, w')"
    and ex: "os_path_exists w' p"
    and gl: "(case glob_glob e (ramalama_store @ ''/models/*/'' @ r) w' of
                [] \<Rightarrow> True | m # _ \<Rightarrow> m = p)"
  shows "pull_cli e ramalama_store (r # rest) w' = (Inr p, w')"
proof (cases "glob_glob e (ramalama_store @ ''/models/*/'' @ r) w'")
  case (Cons m ms)
  with gl have "m = p" by simp
  with pull_cli_glob_match[OF Cons] show ?thesis by simp
next
  case Nil
  obtain model model_name model_tag model_base
    where ref: "ollama_reference r = (model, model_name, model_tag, model_base)"
    by (cases "ollama_reference r") auto
  let ?sp = "os_path_join (ramalama_store @ ''/models/ollama'') (model_base @ '':'' @ model_tag)"
  note second = Nil
  have p_eq: "p = ?sp"
  proof (cases "glob_glob e (ramalama_store @ ''/models/*/'' @ r) w")
    case (Cons m ms)
    from pull_cli_glob_match[OF Cons] first have "w' = w" by simp
    with Cons second show ?thesis by simp
  next
    case Nil
    from first show ?thesis
      unfolding pull_cli_ollama[OF Nil nh no ref]
      by (auto split: if_splits dest: init_pull_success_path)
  qed
  show ?thesis
    unfolding pull_cli_ollama[OF second nh no ref] using ex p_eq by simp
qed

lemma publish_checked_current:
  "symlink_is_current w symlink_path rel = Inr True \<Longrightarrow>
     publish_checked e rel symlink_path w = (Inr symlink_path, w)"
  unfolding publish_checked_def by simp

lemma pull_huggingface_steps:
  assumes "str_rsplit1 CHR ''/'' (removeprefix ''huggingface://'' r) = [d, fn]"
    and "run_process e (huggingface_cmd ramalama_store d fn) w = (0, out, f)"
    and "os_makedirs (ramalama_store @ ''/models/huggingface/'' @ d)
           (w\<lparr>files := f, cmds := cmds w @ [huggingface_cmd ramalama_store d fn]\<rparr>) = (Inr (), w2)"
    and "os_path_relpath (cwd w2) (rstrip out)
           (os_path_dirname (ramalama_store @ ''/models/huggingface/'' @ d @ ''/'' @ fn)) = Inr rel"
  shows "pull_huggingface e r ramalama_store w =
           publish_checked e rel (ramalama_store @ ''/models/huggingface/'' @ d @ ''/'' @ fn) w2"
  using assms
  unfolding pull_huggingface_def try_huggingface_download_def run_cmd_def and_then_def Let_def
  by simp

lemma pull_oci_steps:
  assumes "oci_target_decompose r w = (Inr (target, registry, reference, reference_dir), w0)"
    and "run_process e (omlmd_cmd target (ramalama_store @ ''/repos/oci/'' @ registry @ ''/'' @ reference_dir))
           (print_out (Text (''Downloading '' @ target @ ''...'')) w0) = (0, out, f)"
    and "w2 = (print_out (Text (''Downloading '' @ target @ ''...'')) w0)
           \<lparr>files := f,
             cmds := cmds w0 @ [omlmd_cmd target (ramalama_store @ ''/repos/oci/'' @ registry @ ''/'' @ reference_dir)]\<rparr>"
    and "os_listdir w2 (ramalama_store @ ''/repos/oci/'' @ registry @ ''/'' @ reference_dir) = Inr names"
  shows "pull_oci e r ramalama_store w =
     (let outdir = ramalama_store @ ''/repos/oci/'' @ registry @ ''/'' @ reference_dir;
          ggufs = filter (\<lambda>file. endswith file ''.gguf'') names
      in if length ggufs \<noteq> 1
         then (Inl (SystemExit (- 1)),
               print_out (Text (''Error: Unable to identify .gguf file in: '' @ outdir)) w2)
         else
           let directory = ramalama_store @ ''/models/oci/'' @ registry @ ''/'' @ reference_dir
           in and_then (os_makedirs directory w2) (\<lambda>_ w3.
                let symlink_path = directory @ ''/'' @ hd ggufs
                in (case os_path_relpath (cwd w3) (outdir @ ''/'' @ hd ggufs)
                           (os_path_dirname symlink_path) of
                      Inl x \<Rightarrow> (Inl x, w3)
                    | Inr relative_target_path \<Rightarrow>
                        publish_checked e relative_target_path symlink_path w3)))"
  using assms
  unfolding pull_oci_def run_cmd_def and_then_def Let_def print_out_def
  by simp

text \<open>
  C7. After \<open>omlmd pull\<close> has returned 0 and the output directory was listed:
  when the names ending in \<open>.gguf\<close> are none or more than one, \<open>pull_oci\<close> prints
  that it cannot identify the file and ends with \<open>sys.exit(-1)\<close>, in the world
  the pull command left: no directory is made under \<open>models\<close> and \<open>ln\<close> is not
  run. When there is exactly one, the directory under \<open>models\<close> is made and the
  link to that file is published: it is left alone when it is current, else
  \<open>ln -sf\<close> is run with the relative target, and the symlink path is returned.
\<close>

theorem pull_oci_exactly_one_gguf:
  "oci_target_decompose r w = (Inr (target, registry, reference, reference_dir), w0) \<and>
   outdir = ramalama_store @ ''/repos/oci/'' @ registry @ ''/'' @ reference_dir \<and>
   run_process e (omlmd_cmd target outdir)
       (print_out (Text (''Downloading '' @ target @ ''...'')) w0) = (0, out, f) \<and>
   w2 = (print_out (Text (''Downloading '' @ target @ ''...'')) w0)
           \<lparr>files := f, cmds := cmds w0 @ [omlmd_cmd target outdir]\<rparr> \<and>
   os_listdir w2 outdir = Inr names \<and>
   ggufs = filter (\<lambda>file. endswith file ''.gguf'') names \<longrightarrow>
     (length ggufs \<noteq> 1 \<longrightarrow>
        pull_oci e r ramalama_store w =
          (Inl (SystemExit (- 1)),
           print_out (Text (''Error: Unable to identify .gguf file in: '' @ outdir)) w2)) \<and>
     (length ggufs = 1 \<and>
      directory = ramalama_store @ ''/models/oci/'' @ registry @ ''/'' @ reference_dir \<and>
      symlink_path = directory @ ''/'' @ hd ggufs \<and>
      os_makedirs directory w2 = (Inr (), w3) \<and>
      os_path_relpath (cwd w3) (outdir @ ''/'' @ hd ggufs) (os_path_dirname symlink_path)
        = Inr rel \<longrightarrow>
        (symlink_is_current w3 symlink_path rel = Inr True \<longrightarrow>
           pull_oci e r ramalama_store w = (Inr symlink_path, w3)) \<and>
        (symlink_is_current w3 symlink_path rel = Inr False \<and>
         run_process e (ln_cmd rel symlink_path) w3 = (0, out', f') \<longrightarrow>
           pull_oci e r ramalama_store w =
             (Inr symlink_path,
              w3\<lparr>files := f', cmds := cmds w3 @ [ln_cmd rel symlink_path]\<rparr>)))"
proof (intro impI, elim conjE)
  assume a: "oci_target_decompose r w = (Inr (target, registry, reference, reference_dir), w0)"
    and od: "outdir = ramalama_store @ ''/repos/oci/'' @ registry @ ''/'' @ reference_dir"
    and rp: "run_process e (omlmd_cmd target outdir)
       (print_out (Text (''Downloading '' @ target @ ''...'')) w0) = (0, out, f)"
    and w2: "w2 = (print_out (Text (''Downloading '' @ target @ ''...'')) w0)
           \<lparr>files := f, cmds := cmds w0 @ [omlmd_cmd target outdir]\<rparr>"
    and ld: "os_listdir w2 outdir = Inr names"
    and gg: "ggufs = filter (\<lambda>file. endswith file ''.gguf'') names"
  note steps = pull_oci_steps[OF a rp[unfolded od] w2[unfolded od] ld[unfolded od]]
  have amb: "length ggufs \<noteq> 1 \<longrightarrow>
        pull_oci e r ramalama_store w =
          (Inl (SystemExit (- 1)),
           print_out (Text (''Error: Unable to identify .gguf file in: '' @ outdir)) w2)"
    unfolding steps using gg od by (simp add: Let_def)
  have one: "length ggufs = 1 \<and>
      directory = ramalama_store @ ''/models/oci/'' @ registry @ ''/'' @ reference_dir \<and>
      symlink_path = directory @ ''/'' @ hd ggufs \<and>
      os_makedirs directory w2 = (Inr (), w3) \<and>
      os_path_relpath (cwd w3) (outdir @ ''/'' @ hd ggufs) (os_path_dirname symlink_path)
        = Inr rel \<longrightarrow>
        (symlink_is_current w3 symlink_path rel = Inr True \<longrightarrow>
           pull_oci e r ramalama_store w = (Inr symlink_path, w3)) \<and>
        (symlink_is_current w3 symlink_path rel = Inr False \<and>
         run_process e (ln_cmd rel symlink_path) w3 = (0, out', f') \<longrightarrow>
           pull_oci e r ramalama_store w =
             (Inr symlink_path,
              w3\<lparr>files := f', cmds := cmds w3 @ [ln_cmd rel symlink_path]\<rparr>))"
  proof (intro impI, elim conjE)
    assume l1: "length ggufs = 1"
      and dir: "directory = ramalama_store @ ''/models/oci/'' @ registry @ ''/'' @ reference_dir"
      and sp: "symlink_path = directory @ ''/'' @ hd ggufs"
      and mk: "os_makedirs directory w2 = (Inr (), w3)"
      and rl: "os_path_relpath (cwd w3) (outdir @ ''/'' @ hd ggufs) (os_path_dirname symlink_path)
        = Inr rel"
    have pc: "pull_oci e r ramalama_store w = publish_checked e rel symlink_path w3"
      unfolding steps using gg od l1 dir sp mk rl by (simp add: Let_def and_then_def)
    show "(symlink_is_current w3 symlink_path rel = Inr True \<longrightarrow>
           pull_oci e r ramalama_store w = (Inr symlink_path, w3)) \<and>
        (symlink_is_current w3 symlink_path rel = Inr False \<and>
         run_process e (ln_cmd rel symlink_path) w3 = (0, out', f') \<longrightarrow>
           pull_oci e r ramalama_store w =
             (Inr symlink_path,
              w3\<lparr>files := f', cmds := cmds w3 @ [ln_cmd rel symlink_path]\<rparr>))"
      unfolding pc publish_checked_def and_then_def ln_sf_eq by simp
  qed
  from amb one show "(length ggufs \<noteq> 1 \<longrightarrow>
        pull_oci e r ramalama_store w =
          (Inl (SystemExit (- 1)),
           print_out (Text (''Error: Unable to identify .gguf file in: '' @ outdir)) w2)) \<and>
     (length ggufs = 1 \<and>
      directory = ramalama_store @ ''/models/oci/'' @ registry @ ''/'' @ reference_dir \<and>
      symlink_path = directory @ ''/'' @ hd ggufs \<and>
      os_makedirs directory w2 = (Inr (), w3) \<and>
      os_path_relpath (cwd w3) (outdir @ ''/'' @ hd ggufs) (os_path_dirname symlink_path)
        = Inr rel \<longrightarrow>
        (symlink_is_current w3 symlink_path rel = Inr True \<longrightarrow>
           pull_oci e r ramalama_store w = (Inr symlink_path, w3)) \<and>
        (symlink_is_current w3 symlink_path rel = Inr False \<and>
         run_process e (ln_cmd rel symlink_path) w3 = (0, out', f') \<longrightarrow>
           pull_oci e r ramalama_store w =
             (Inr symlink_path,
              w3\<lparr>files := f', cmds := cmds w3 @ [ln_cmd rel symlink_path]\<rparr>)))"
    by blast
qed

theorem pull_oci_exactly_one_gguf_witness:
  "\<exists>after w3 f'.
     (\<forall>W. after W = (print_out (Text ''Downloading reg.io/ns/repo:tag...'') W)
                       \<lparr>files := files W,
                         cmds := cmds W @ [omlmd_cmd ''reg.io/ns/repo:tag''
                                             ''/s/repos/oci/reg.io/ns/repo/tag'']\<rparr>) \<and>
     os_listdir (after (world0 (oci_store [''a.gguf'', ''b.gguf''])))
         ''/s/repos/oci/reg.io/ns/repo/tag'' = Inr [''b.gguf'', ''a.gguf''] \<and>
     pull_oci (sample_env sample_registry sample_documents) ''oci://reg.io/ns/repo:tag'' ''/s''
         (world0 (oci_store [''a.gguf'', ''b.gguf'']))
       = (Inl (SystemExit (- 1)),
          print_out (Text ''Error: Unable to identify .gguf file in: /s/repos/oci/reg.io/ns/repo/tag'')
            (after (world0 (oci_store [''a.gguf'', ''b.gguf''])))) \<and>
     os_listdir (after (world0 (oci_store [''README.md''])))
         ''/s/repos/oci/reg.io/ns/repo/tag'' = Inr [''README.md''] \<and>
     pull_oci (sample_env sample_registry sample_documents) ''oci://reg.io/ns/repo:tag'' ''/s''
         (world0 (oci_store [''README.md'']))
       = (Inl (SystemExit (- 1)),
          print_out (Text ''Error: Unable to identify .gguf file in: /s/repos/oci/reg.io/ns/repo/tag'')
            (after (world0 (oci_store [''README.md''])))) \<and>
     os_listdir (after (world0 (oci_store [''model.gguf'', ''README.md''])))
         ''/s/repos/oci/reg.io/ns/repo/tag'' = Inr [''README.md'', ''model.gguf''] \<and>
     os_makedirs ''/s/models/oci/reg.io/ns/repo/tag''
         (after (world0 (oci_store [''model.gguf'', ''README.md'']))) = (Inr (), w3) \<and>
     symlink_is_current w3 ''/s/models/oci/reg.io/ns/repo/tag/model.gguf''
         ''../../../../../../repos/oci/reg.io/ns/repo/tag/model.gguf'' = Inr False \<and>
     pull_oci (sample_env sample_registry sample_documents) ''oci://reg.io/ns/repo:tag'' ''/s''
         (world0 (oci_store [''model.gguf'', ''README.md'']))
       = (Inr ''/s/models/oci/reg.io/ns/repo/tag/model.gguf'',
          w3\<lparr>files := f',
              cmds := cmds w3 @ [ln_cmd ''../../../../../../repos/oci/reg.io/ns/repo/tag/model.gguf''
                                   ''/s/models/oci/reg.io/ns/repo/tag/model.gguf'']\<rparr>) \<and>
     os_readlink (w3\<lparr>files := f'\<rparr>) ''/s/models/oci/reg.io/ns/repo/tag/model.gguf''
       = Inr ''../../../../../../repos/oci/reg.io/ns/repo/tag/model.gguf'' \<and>
     read_file (w3\<lparr>files := f'\<rparr>) ''/s/models/oci/reg.io/ns/repo/tag/model.gguf''
       = Inr ''model.gguf''"
proof -
  let ?e = "sample_env sample_registry sample_documents"
  let ?r = "''oci://reg.io/ns/repo:tag''"
  let ?outdir = "''/s/repos/oci/reg.io/ns/repo/tag''"
  let ?dir = "''/s/models/oci/reg.io/ns/repo/tag''"
  let ?sp = "''/s/models/oci/reg.io/ns/repo/tag/model.gguf''"
  let ?rel = "''../../../../../../repos/oci/reg.io/ns/repo/tag/model.gguf''"
  let ?cmd = "omlmd_cmd ''reg.io/ns/repo:tag'' ?outdir"
  let ?two = "world0 (oci_store [''a.gguf'', ''b.gguf''])"
  let ?none = "world0 (oci_store [''README.md''])"
  let ?one = "world0 (oci_store [''model.gguf'', ''README.md''])"
  define after where "after = (\<lambda>W. (print_out (Text ''Downloading reg.io/ns/repo:tag...'') W)
      \<lparr>files := files W, cmds := cmds W @ [?cmd]\<rparr>)"
  have dec: "\<And>W. oci_target_decompose ?r W
      = (Inr (''reg.io/ns/repo:tag'', ''reg.io'', ''ns/repo:tag'', ''ns/repo/tag''), W)"
    unfolding oci_target_decompose_def
    by (simp add: removeprefix_def startswith_def str_split1_def str_replace_def)
  have od: "?outdir = ''/s'' @ ''/repos/oci/'' @ ''reg.io'' @ ''/'' @ ''ns/repo/tag''" by simp
  have dr: "?dir = ''/s'' @ ''/models/oci/'' @ ''reg.io'' @ ''/'' @ ''ns/repo/tag''" by simp
  have msg: "''Downloading '' @ ''reg.io/ns/repo:tag'' @ ''...''
      = ''Downloading reg.io/ns/repo:tag...''" by simp
  have run: "\<And>W. run_process ?e ?cmd (print_out (Text (''Downloading '' @ ''reg.io/ns/repo:tag'' @ ''...'')) W)
      = (0, [], files W)"
    by (simp add: sample_env_def sample_process_def omlmd_cmd_def print_out_def)
  have aft: "\<And>W. after W = (print_out (Text (''Downloading '' @ ''reg.io/ns/repo:tag'' @ ''...'')) W)
      \<lparr>files := files W, cmds := cmds W @ [?cmd]\<rparr>"
    unfolding after_def by simp
  have n2: "length [''b.gguf'', ''a.gguf''] \<noteq> 1" by simp
  have n0: "length ([]::string list) \<noteq> 1" by simp
  have n1: "length [''model.gguf''] = 1" by simp
  have l2: "os_listdir (after ?two) ?outdir = Inr [''b.gguf'', ''a.gguf'']"
    unfolding after_def by code_simp
  have g2: "[''b.gguf'', ''a.gguf''] = filter (\<lambda>file. endswith file ''.gguf'') [''b.gguf'', ''a.gguf'']"
    by code_simp
  from pull_oci_exactly_one_gguf[where r = ?r and w = ?two and ?w0.0 = ?two
      and target = "''reg.io/ns/repo:tag''" and registry = "''reg.io''"
      and reference = "''ns/repo:tag''" and reference_dir = "''ns/repo/tag''"
      and outdir = ?outdir and ramalama_store = "''/s''" and e = ?e and out = "[]"
      and f = "files ?two" and ?w2.0 = "after ?two" and names = "[''b.gguf'', ''a.gguf'']"
      and ggufs = "[''b.gguf'', ''a.gguf'']"]
    dec[of ?two] od run[of ?two] aft[of ?two] l2 g2 n2
  have two: "pull_oci ?e ?r ''/s'' ?two
      = (Inl (SystemExit (- 1)),
         print_out (Text (''Error: Unable to identify .gguf file in: '' @ ?outdir)) (after ?two))"
    by blast
  have l0: "os_listdir (after ?none) ?outdir = Inr [''README.md'']"
    unfolding after_def by code_simp
  have g0: "[] = filter (\<lambda>file. endswith file ''.gguf'') [''README.md'']" by code_simp
  from pull_oci_exactly_one_gguf[where r = ?r and w = ?none and ?w0.0 = ?none
      and target = "''reg.io/ns/repo:tag''" and registry = "''reg.io''"
      and reference = "''ns/repo:tag''" and reference_dir = "''ns/repo/tag''"
      and outdir = ?outdir and ramalama_store = "''/s''" and e = ?e and out = "[]"
      and f = "files ?none" and ?w2.0 = "after ?none" and names = "[''README.md'']"
      and ggufs = "[]"]
    dec[of ?none] od run[of ?none] aft[of ?none] l0 g0 n0
  have none: "pull_oci ?e ?r ''/s'' ?none
      = (Inl (SystemExit (- 1)),
         print_out (Text (''Error: Unable to identify .gguf file in: '' @ ?outdir)) (after ?none))"
    by blast
  have l1: "os_listdir (after ?one) ?outdir = Inr [''README.md'', ''model.gguf'']"
    unfolding after_def by code_simp
  have g1: "[''model.gguf''] = filter (\<lambda>file. endswith file ''.gguf'') [''README.md'', ''model.gguf'']"
    by code_simp
  define w3 where "w3 = snd (os_makedirs ?dir (after ?one))"
  have mk: "os_makedirs ?dir (after ?one) = (Inr (), w3)"
    unfolding w3_def after_def by code_simp
  have rl: "os_path_relpath (cwd w3) (?outdir @ ''/'' @ hd [''model.gguf''])
      (os_path_dirname ?sp) = Inr ?rel"
    unfolding w3_def after_def by code_simp
  have spe: "?sp = ?dir @ ''/'' @ hd [''model.gguf'']" by simp
  have cur: "symlink_is_current w3 ?sp ?rel = Inr False"
    unfolding w3_def after_def by code_simp
  define f' where "f' = snd (snd (run_process ?e (ln_cmd ?rel ?sp) w3))"
  have ln: "run_process ?e (ln_cmd ?rel ?sp) w3 = (0, [], f')"
    unfolding f'_def w3_def after_def by code_simp
  from pull_oci_exactly_one_gguf[where r = ?r and w = ?one and ?w0.0 = ?one
      and target = "''reg.io/ns/repo:tag''" and registry = "''reg.io''"
      and reference = "''ns/repo:tag''" and reference_dir = "''ns/repo/tag''"
      and outdir = ?outdir and ramalama_store = "''/s''" and e = ?e and out = "[]"
      and f = "files ?one" and ?w2.0 = "after ?one" and names = "[''README.md'', ''model.gguf'']"
      and ggufs = "[''model.gguf'']" and directory = ?dir and symlink_path = ?sp
      and ?w3.0 = w3 and rel = ?rel and out' = "[]" and f' = f']
    dec[of ?one] od run[of ?one] aft[of ?one] l1 g1 n1 dr spe mk rl cur ln
  have one: "pull_oci ?e ?r ''/s'' ?one
      = (Inr ?sp, w3\<lparr>files := f', cmds := cmds w3 @ [ln_cmd ?rel ?sp]\<rparr>)"
    by blast
  have rd: "os_readlink (w3\<lparr>files := f'\<rparr>) ?sp = Inr ?rel"
    unfolding f'_def w3_def after_def by code_simp
  have rf: "read_file (w3\<lparr>files := f'\<rparr>) ?sp = Inr ''model.gguf''"
    unfolding f'_def w3_def after_def by code_simp
  have aft': "\<forall>W. after W = (print_out (Text ''Downloading reg.io/ns/repo:tag...'') W)
      \<lparr>files := files W, cmds := cmds W @ [?cmd]\<rparr>"
    unfolding after_def by simp
  have err: "''Error: Unable to identify .gguf file in: '' @ ?outdir
      = ''Error: Unable to identify .gguf file in: /s/repos/oci/reg.io/ns/repo/tag''" by simp
  note two' = two[unfolded err] and none' = none[unfolded err]
  show ?thesis
    apply (rule exI[of _ after], rule exI[of _ w3], rule exI[of _ f'])
    using aft' l2 two' l0 none' l1 mk cur one rd rf by blast
qed

text \<open>
  C1, as the code has it. A pull whose reference matches the glob over the
  \<open>models\<close> directories returns the first match and does nothing else. For an
  Ollama reference: when a pull has returned a path that exists afterwards, and
  the glob then finds nothing but that path, pulling again returns the same
  path, runs no command and leaves the world as it is. For Hugging Face and OCI
  references the download command is run on every pull; after it, the existing
  link is compared with the relative target just computed, and when it exists
  with that target the path is returned and \<open>ln\<close> is not run.
\<close>

theorem pull_again_when_published:
  "(glob_glob e (ramalama_store @ ''/models/*/'' @ r) w = m # ms \<longrightarrow>
      pull_cli e ramalama_store (r # rest) w = (Inr m, w)) \<and>
   (\<not> startswith r ''huggingface://'' \<and> \<not> startswith r ''oci://'' \<and>
    pull_cli e ramalama_store (r # rest) w = (Inr p, w') \<and>
    os_path_exists w' p \<and>
    (case glob_glob e (ramalama_store @ ''/models/*/'' @ r) w' of
       [] \<Rightarrow> True | m' # _ \<Rightarrow> m' = p) \<longrightarrow>
      pull_cli e ramalama_store (r # rest) w' = (Inr p, w')) \<and>
   (symlink_is_current w symlink_path rel = Inr True \<longrightarrow>
      publish_checked e rel symlink_path w = (Inr symlink_path, w)) \<and>
   (str_rsplit1 CHR ''/'' (removeprefix ''huggingface://'' r) = [d, fn] \<and>
    run_process e (huggingface_cmd ramalama_store d fn) w = (0, out, f) \<and>
    os_makedirs (ramalama_store @ ''/models/huggingface/'' @ d)
       (w\<lparr>files := f, cmds := cmds w @ [huggingface_cmd ramalama_store d fn]\<rparr>) = (Inr (), w2) \<and>
    os_path_relpath (cwd w2) (rstrip out)
       (os_path_dirname (ramalama_store @ ''/models/huggingface/'' @ d @ ''/'' @ fn)) = Inr rel \<and>
    symlink_is_current w2 (ramalama_store @ ''/models/huggingface/'' @ d @ ''/'' @ fn) rel
      = Inr True \<longrightarrow>
      pull_huggingface e r ramalama_store w
        = (Inr (ramalama_store @ ''/models/huggingface/'' @ d @ ''/'' @ fn), w2)) \<and>
   (oci_target_decompose r w = (Inr (target, registry, reference, reference_dir), w0) \<and>
    outdir = ramalama_store @ ''/repos/oci/'' @ registry @ ''/'' @ reference_dir \<and>
    run_process e (omlmd_cmd target outdir)
       (print_out (Text (''Downloading '' @ target @ ''...'')) w0) = (0, out, f) \<and>
    w2 = (print_out (Text (''Downloading '' @ target @ ''...'')) w0)
           \<lparr>files := f, cmds := cmds w0 @ [omlmd_cmd target outdir]\<rparr> \<and>
    os_listdir w2 outdir = Inr names \<and>
    filter (\<lambda>file. endswith file ''.gguf'') names = [gguf] \<and>
    directory = ramalama_store @ ''/models/oci/'' @ registry @ ''/'' @ reference_dir \<and>
    os_makedirs directory w2 = (Inr (), w3) \<and>
    os_path_relpath (cwd w3) (outdir @ ''/'' @ gguf) (os_path_dirname (directory @ ''/'' @ gguf))
      = Inr rel \<and>
    symlink_is_current w3 (directory @ ''/'' @ gguf) rel = Inr True \<longrightarrow>
      pull_oci e r ramalama_store w = (Inr (directory @ ''/'' @ gguf), w3))"
proof -
  have a0: "glob_glob e (ramalama_store @ ''/models/*/'' @ r) w = m # ms \<longrightarrow>
      pull_cli e ramalama_store (r # rest) w = (Inr m, w)"
    using pull_cli_glob_match by blast
  have a: "\<not> startswith r ''huggingface://'' \<and> \<not> startswith r ''oci://'' \<and>
    pull_cli e ramalama_store (r # rest) w = (Inr p, w') \<and>
    os_path_exists w' p \<and>
    (case glob_glob e (ramalama_store @ ''/models/*/'' @ r) w' of
       [] \<Rightarrow> True | m' # _ \<Rightarrow> m' = p) \<longrightarrow>
      pull_cli e ramalama_store (r # rest) w' = (Inr p, w')"
    using pull_cli_second_call by blast
  have b: "symlink_is_current w symlink_path rel = Inr True \<longrightarrow>
      publish_checked e rel symlink_path w = (Inr symlink_path, w)"
    using publish_checked_current by blast
  have bh: "str_rsplit1 CHR ''/'' (removeprefix ''huggingface://'' r) = [d, fn] \<and>
    run_process e (huggingface_cmd ramalama_store d fn) w = (0, out, f) \<and>
    os_makedirs (ramalama_store @ ''/models/huggingface/'' @ d)
       (w\<lparr>files := f, cmds := cmds w @ [huggingface_cmd ramalama_store d fn]\<rparr>) = (Inr (), w2) \<and>
    os_path_relpath (cwd w2) (rstrip out)
       (os_path_dirname (ramalama_store @ ''/models/huggingface/'' @ d @ ''/'' @ fn)) = Inr rel \<and>
    symlink_is_current w2 (ramalama_store @ ''/models/huggingface/'' @ d @ ''/'' @ fn) rel
      = Inr True \<longrightarrow>
      pull_huggingface e r ramalama_store w
        = (Inr (ramalama_store @ ''/models/huggingface/'' @ d @ ''/'' @ fn), w2)"
    using pull_huggingface_steps[of r d fn e ramalama_store w out f w2 rel]
      publish_checked_current[of w2 "ramalama_store @ ''/models/huggingface/'' @ d @ ''/'' @ fn" rel e]
    by simp
  have bo: "oci_target_decompose r w = (Inr (target, registry, reference, reference_dir), w0) \<and>
    outdir = ramalama_store @ ''/repos/oci/'' @ registry @ ''/'' @ reference_dir \<and>
    run_process e (omlmd_cmd target outdir)
       (print_out (Text (''Downloading '' @ target @ ''...'')) w0) = (0, out, f) \<and>
    w2 = (print_out (Text (''Downloading '' @ target @ ''...'')) w0)
           \<lparr>files := f, cmds := cmds w0 @ [omlmd_cmd target outdir]\<rparr> \<and>
    os_listdir w2 outdir = Inr names \<and>
    filter (\<lambda>file. endswith file ''.gguf'') names = [gguf] \<and>
    directory = ramalama_store @ ''/models/oci/'' @ registry @ ''/'' @ reference_dir \<and>
    os_makedirs directory w2 = (Inr (), w3) \<and>
    os_path_relpath (cwd w3) (outdir @ ''/'' @ gguf) (os_path_dirname (directory @ ''/'' @ gguf))
      = Inr rel \<and>
    symlink_is_current w3 (directory @ ''/'' @ gguf) rel = Inr True \<longrightarrow>
      pull_oci e r ramalama_store w = (Inr (directory @ ''/'' @ gguf), w3)"
  proof (intro impI, elim conjE)
    assume dc: "oci_target_decompose r w = (Inr (target, registry, reference, reference_dir), w0)"
      and od: "outdir = ramalama_store @ ''/repos/oci/'' @ registry @ ''/'' @ reference_dir"
      and rp: "run_process e (omlmd_cmd target outdir)
         (print_out (Text (''Downloading '' @ target @ ''...'')) w0) = (0, out, f)"
      and w2: "w2 = (print_out (Text (''Downloading '' @ target @ ''...'')) w0)
           \<lparr>files := f, cmds := cmds w0 @ [omlmd_cmd target outdir]\<rparr>"
      and ld: "os_listdir w2 outdir = Inr names"
      and gg: "filter (\<lambda>file. endswith file ''.gguf'') names = [gguf]"
      and dir: "directory = ramalama_store @ ''/models/oci/'' @ registry @ ''/'' @ reference_dir"
      and mk: "os_makedirs directory w2 = (Inr (), w3)"
      and rl: "os_path_relpath (cwd w3) (outdir @ ''/'' @ gguf) (os_path_dirname (directory @ ''/'' @ gguf))
        = Inr rel"
      and cur: "symlink_is_current w3 (directory @ ''/'' @ gguf) rel = Inr True"
    note steps = pull_oci_steps[OF dc rp[unfolded od] w2[unfolded od] ld[unfolded od]]
    have "pull_oci e r ramalama_store w = publish_checked e rel (directory @ ''/'' @ gguf) w3"
      unfolding steps using gg od dir mk rl by (simp add: Let_def and_then_def)
    with publish_checked_current[OF cur]
    show "pull_oci e r ramalama_store w = (Inr (directory @ ''/'' @ gguf), w3)" by simp
  qed
  from a0 a b bh bo show ?thesis by blast
qed

theorem pull_again_when_published_witness:
  "\<exists>W1 w2h Wo w3o.
     pull_cli (sample_env sample_registry sample_documents) ''/s'' [''llama3'']
         (world0 fresh_store) = (Inr ''/s/models/ollama/llama3:latest'', W1) \<and>
     os_path_exists W1 ''/s/models/ollama/llama3:latest'' \<and>
     glob_glob (sample_env sample_registry sample_documents) (''/s'' @ ''/models/*/'' @ ''llama3'') W1
       = [] \<and>
     pull_cli (sample_env sample_registry sample_documents) ''/s'' [''llama3''] W1
       = (Inr ''/s/models/ollama/llama3:latest'', W1) \<and>
     glob_glob (sample_env sample_registry sample_documents)
         (''/s'' @ ''/models/*/'' @ ''llama3:latest'') W1 = [''/s/models/ollama/llama3:latest''] \<and>
     pull_cli (sample_env sample_registry sample_documents) ''/s'' [''llama3:latest''] W1
       = (Inr ''/s/models/ollama/llama3:latest'', W1) \<and>
     symlink_is_current (world0 huggingface_store) ''/s/models/huggingface/org/repo/model.gguf''
         ''../../../../repos/huggingface/org/repo/model.gguf'' = Inr True \<and>
     publish_checked (sample_env sample_registry sample_documents)
         ''../../../../repos/huggingface/org/repo/model.gguf''
         ''/s/models/huggingface/org/repo/model.gguf'' (world0 huggingface_store)
       = (Inr ''/s/models/huggingface/org/repo/model.gguf'', world0 huggingface_store) \<and>
     pull_huggingface (sample_env sample_registry sample_documents)
         ''huggingface://org/repo/model.gguf'' ''/s'' (world0 huggingface_store)
       = (Inr (''/s'' @ ''/models/huggingface/'' @ ''org/repo'' @ ''/'' @ ''model.gguf''), w2h) \<and>
     files w2h = huggingface_store \<and>
     cmds w2h = [huggingface_cmd ''/s'' ''org/repo'' ''model.gguf''] \<and>
     pull_oci (sample_env sample_registry sample_documents) ''oci://reg.io/ns/repo:tag'' ''/s''
         (world0 (oci_store [''model.gguf'']))
       = (Inr ''/s/models/oci/reg.io/ns/repo/tag/model.gguf'', Wo) \<and>
     pull_oci (sample_env sample_registry sample_documents) ''oci://reg.io/ns/repo:tag'' ''/s'' Wo
       = (Inr (''/s/models/oci/reg.io/ns/repo/tag'' @ ''/'' @ ''model.gguf''), w3o) \<and>
     files w3o = files Wo \<and>
     cmds w3o = cmds Wo @ [omlmd_cmd ''reg.io/ns/repo:tag'' ''/s/repos/oci/reg.io/ns/repo/tag'']"
proof -
  let ?e = "sample_env sample_registry sample_documents"
  let ?w0 = "world0 fresh_store"
  let ?p = "''/s/models/ollama/llama3:latest''"
  define W1 where "W1 = snd (pull_cli ?e ''/s'' [''llama3''] ?w0)"
  have first: "pull_cli ?e ''/s'' [''llama3''] ?w0 = (Inr ?p, W1)"
    unfolding W1_def by code_simp
  have ex: "os_path_exists W1 ?p" unfolding W1_def by code_simp
  have g1: "glob_glob ?e (''/s'' @ ''/models/*/'' @ ''llama3'') W1 = []"
    unfolding W1_def by code_simp
  have g1': "(case glob_glob ?e (''/s'' @ ''/models/*/'' @ ''llama3'') W1 of
       [] \<Rightarrow> True | m' # _ \<Rightarrow> m' = ?p)"
    unfolding g1 by simp
  have nh: "\<not> startswith ''llama3'' ''huggingface://''" by code_simp
  have no: "\<not> startswith ''llama3'' ''oci://''" by code_simp
  from pull_again_when_published[where e = ?e and ramalama_store = "''/s''" and r = "''llama3''"
      and rest = "[]" and w = ?w0 and w' = W1 and p = ?p, THEN conjunct2, THEN conjunct1] nh no first ex g1'
  have second: "pull_cli ?e ''/s'' [''llama3''] W1 = (Inr ?p, W1)" by blast
  have g2: "glob_glob ?e (''/s'' @ ''/models/*/'' @ ''llama3:latest'') W1 = [?p]"
    unfolding W1_def by code_simp
  from pull_again_when_published[where e = ?e and ramalama_store = "''/s''"
      and r = "''llama3:latest''" and rest = "[]" and w = W1 and m = ?p and ms = "[]", THEN conjunct1] g2
  have matched: "pull_cli ?e ''/s'' [''llama3:latest''] W1 = (Inr ?p, W1)" by blast
  let ?wh = "world0 huggingface_store"
  let ?sph = "''/s/models/huggingface/org/repo/model.gguf''"
  let ?relh = "''../../../../repos/huggingface/org/repo/model.gguf''"
  have cur: "symlink_is_current ?wh ?sph ?relh = Inr True" by code_simp
  from pull_again_when_published[where e = ?e and w = ?wh and symlink_path = ?sph and rel = ?relh, THEN conjunct2, THEN conjunct2, THEN conjunct1]
    cur
  have kept: "publish_checked ?e ?relh ?sph ?wh = (Inr ?sph, ?wh)" by blast
  let ?hcmd = "huggingface_cmd ''/s'' ''org/repo'' ''model.gguf''"
  let ?out = "''/s/repos/huggingface/org/repo/model.gguf'' @ [CHR 0x0A]"
  have h1: "str_rsplit1 CHR ''/'' (removeprefix ''huggingface://'' ''huggingface://org/repo/model.gguf'')
      = [''org/repo'', ''model.gguf'']" by code_simp
  have h2: "run_process ?e ?hcmd ?wh = (0, ?out, huggingface_store)" by code_simp
  define w2h where "w2h = snd (os_makedirs (''/s'' @ ''/models/huggingface/'' @ ''org/repo'')
      (?wh\<lparr>files := huggingface_store, cmds := cmds ?wh @ [?hcmd]\<rparr>))"
  have h3: "os_makedirs (''/s'' @ ''/models/huggingface/'' @ ''org/repo'')
      (?wh\<lparr>files := huggingface_store, cmds := cmds ?wh @ [?hcmd]\<rparr>) = (Inr (), w2h)"
    unfolding w2h_def by code_simp
  have h4: "os_path_relpath (cwd w2h) (rstrip ?out)
      (os_path_dirname (''/s'' @ ''/models/huggingface/'' @ ''org/repo'' @ ''/'' @ ''model.gguf''))
      = Inr ?relh"
    unfolding w2h_def by code_simp
  have h5: "symlink_is_current w2h
      (''/s'' @ ''/models/huggingface/'' @ ''org/repo'' @ ''/'' @ ''model.gguf'') ?relh = Inr True"
    unfolding w2h_def by code_simp
  from pull_again_when_published[where e = ?e and ramalama_store = "''/s''"
      and r = "''huggingface://org/repo/model.gguf''" and d = "''org/repo''"
      and fn = "''model.gguf''" and w = ?wh and out = ?out and f = huggingface_store
      and ?w2.0 = w2h and rel = ?relh, THEN conjunct2, THEN conjunct2, THEN conjunct2, THEN conjunct1] h1 h2 h3 h4 h5
  have hf: "pull_huggingface ?e ''huggingface://org/repo/model.gguf'' ''/s'' ?wh
      = (Inr (''/s'' @ ''/models/huggingface/'' @ ''org/repo'' @ ''/'' @ ''model.gguf''), w2h)"
    by blast
  have hfiles: "files w2h = huggingface_store" unfolding w2h_def by code_simp
  have hcmds: "cmds w2h = [?hcmd]" unfolding w2h_def by code_simp
  let ?r = "''oci://reg.io/ns/repo:tag''"
  let ?outdir = "''/s/repos/oci/reg.io/ns/repo/tag''"
  let ?dir = "''/s/models/oci/reg.io/ns/repo/tag''"
  let ?spo = "''/s/models/oci/reg.io/ns/repo/tag/model.gguf''"
  let ?relo = "''../../../../../../repos/oci/reg.io/ns/repo/tag/model.gguf''"
  let ?ocmd = "omlmd_cmd ''reg.io/ns/repo:tag'' ?outdir"
  define Wo where "Wo = snd (pull_oci ?e ?r ''/s'' (world0 (oci_store [''model.gguf''])))"
  have o0: "pull_oci ?e ?r ''/s'' (world0 (oci_store [''model.gguf''])) = (Inr ?spo, Wo)"
    unfolding Wo_def by code_simp
  have dec: "oci_target_decompose ?r Wo
      = (Inr (''reg.io/ns/repo:tag'', ''reg.io'', ''ns/repo:tag'', ''ns/repo/tag''), Wo)"
    unfolding oci_target_decompose_def
    by (simp add: removeprefix_def startswith_def str_split1_def str_replace_def)
  have od: "?outdir = ''/s'' @ ''/repos/oci/'' @ ''reg.io'' @ ''/'' @ ''ns/repo/tag''" by simp
  have dr: "?dir = ''/s'' @ ''/models/oci/'' @ ''reg.io'' @ ''/'' @ ''ns/repo/tag''" by simp
  have run: "run_process ?e ?ocmd (print_out (Text (''Downloading '' @ ''reg.io/ns/repo:tag'' @ ''...'')) Wo)
      = (0, [], files Wo)"
    by (simp add: sample_env_def sample_process_def omlmd_cmd_def print_out_def)
  define w2o where "w2o = (print_out (Text (''Downloading '' @ ''reg.io/ns/repo:tag'' @ ''...'')) Wo)
      \<lparr>files := files Wo, cmds := cmds Wo @ [?ocmd]\<rparr>"
  have ls: "os_listdir w2o ?outdir = Inr [''model.gguf'']"
    unfolding w2o_def Wo_def by code_simp
  have gg: "filter (\<lambda>file. endswith file ''.gguf'') [''model.gguf''] = [''model.gguf'']"
    by code_simp
  define w3o where "w3o = snd (os_makedirs ?dir w2o)"
  have mk: "os_makedirs ?dir w2o = (Inr (), w3o)"
    unfolding w3o_def w2o_def Wo_def by code_simp
  have rl: "os_path_relpath (cwd w3o) (?outdir @ ''/'' @ ''model.gguf'')
      (os_path_dirname (?dir @ ''/'' @ ''model.gguf'')) = Inr ?relo"
    unfolding w3o_def w2o_def Wo_def by code_simp
  have ocur: "symlink_is_current w3o (?dir @ ''/'' @ ''model.gguf'') ?relo = Inr True"
    unfolding w3o_def w2o_def Wo_def by code_simp
  from pull_again_when_published[where e = ?e and ramalama_store = "''/s''" and r = ?r
      and w = Wo and ?w0.0 = Wo and target = "''reg.io/ns/repo:tag''" and registry = "''reg.io''"
      and reference = "''ns/repo:tag''" and reference_dir = "''ns/repo/tag''"
      and outdir = ?outdir and out = "[]" and f = "files Wo" and ?w2.0 = w2o
      and names = "[''model.gguf'']" and gguf = "''model.gguf''" and directory = ?dir
      and ?w3.0 = w3o and rel = ?relo, THEN conjunct2, THEN conjunct2, THEN conjunct2, THEN conjunct2]
    dec od run w2o_def ls gg dr mk rl ocur
  have oci: "pull_oci ?e ?r ''/s'' Wo = (Inr (?dir @ ''/'' @ ''model.gguf''), w3o)"
    by blast
  have ofiles: "files w3o = files Wo" unfolding w3o_def w2o_def Wo_def by code_simp
  have ocmds: "cmds w3o = cmds Wo @ [?ocmd]" unfolding w3o_def w2o_def Wo_def by code_simp
  show ?thesis
    apply (rule exI[of _ W1], rule exI[of _ w2h], rule exI[of _ Wo], rule exI[of _ w3o])
    using first ex g1 second g2 matched cur kept hf hfiles hcmds o0 oci ofiles ocmds by blast
qed

text \<open>
  C1 as stated fails twice. The manifest of \<open>tiny\<close> names no model layer: the
  first pull returns its path without error and publishes nothing, so the second
  pull, on the store the first one left, runs the manifest request again and
  writes the manifest file again. And \<open>pull_ollama_blob\<close> does not compare: with
  the link of \<open>llama3:latest\<close> in place and already pointing at the blob (which
  is missing), the pull ends by running \<open>ln -sf\<close> with that same target.
\<close>

theorem pull_again_counterexample:
  "(case pull_cli (sample_env sample_registry sample_documents) ''/s'' [''tiny'']
           (world0 fresh_store) of
      (r1, w1) \<Rightarrow>
        (case pull_cli (sample_env sample_registry sample_documents) ''/s'' [''tiny''] w1 of
           (r2, w2) \<Rightarrow>
             r1 = Inr ''/s/models/ollama/tiny:latest'' \<and>
             r2 = Inr ''/s/models/ollama/tiny:latest'' \<and>
             cmds w2 = cmds w1 @
               [manifest_curl_cmd
                  ''/s/repos/ollama/manifests/https://registry.ollama.ai/library/tiny/latest''
                  sample_accept (ollama_url ''tiny'') ''latest''])) \<and>
   os_readlink (world0 dangling_store) ''/s/models/ollama/llama3:latest''
     = Inr (''../../repos/ollama/blobs/'' @ blob_digest ''weights'') \<and>
   (case pull_cli (sample_env sample_registry sample_documents) ''/s'' [''llama3'']
           (world0 dangling_store) of
      (r, w) \<Rightarrow>
        r = Inr ''/s/models/ollama/llama3:latest'' \<and>
        last (cmds w) = ln_cmd (''../../repos/ollama/blobs/'' @ blob_digest ''weights'')
                          ''/s/models/ollama/llama3:latest'')"
  by code_simp

section \<open>Local files\<close>

lemma map_of_filter_key:
  "map_of (filter (\<lambda>kv. fst kv \<noteq> k) f) k' = (if k' = k then None else map_of f k')"
  by (induction f) auto

lemma lstat_fs_put:
  "lstat (fs_put f k v) k' = (if k' = [] then Some Dir else if k' = k then Some v else lstat f k')"
  unfolding lstat_def fs_put_def by (simp add: map_of_filter_key)

lemma lstat_fs_put_other: "a \<noteq> k \<Longrightarrow> lstat (fs_put f k v) a = lstat f a"
  by (cases "a = []") (simp_all add: lstat_fs_put, simp add: lstat_def)

lemma realkey_n_end:
  "realkey_n n f a = Some k \<Longrightarrow> lstat f k \<noteq> Some (Symlink t)"
  by (induction n arbitrary: a) (auto split: option.splits node.splits)

lemma realkey_n_put_other:
  assumes "realkey_n n f a = Some b" and "\<And>t. lstat f k \<noteq> Some (Symlink t)" and "b \<noteq> k"
  shows "realkey_n n (fs_put f k v) a = Some b"
  using assms(1)
proof (induction n arbitrary: a)
  case 0
  then show ?case by simp
next
  case (Suc n)
  show ?case
  proof (cases "\<exists>t. lstat f a = Some (Symlink t)")
    case True
    then obtain t where t: "lstat f a = Some (Symlink t)" by blast
    with assms(2) have ne: "a \<noteq> k" by auto
    from t Suc.prems have "realkey_n n f (link_target a t) = Some b" by simp
    from Suc.IH[OF this] t lstat_fs_put_other[OF ne, of f v] show ?thesis by simp
  next
    case False
    with Suc.prems have ba: "b = a" by (auto split: option.splits node.splits)
    with assms(3) have ne: "a \<noteq> k" by simp
    from False lstat_fs_put_other[OF ne, of f v] ba show ?thesis
      by (auto split: option.splits node.splits)
  qed
qed

lemma realkey_n_put_same:
  assumes "realkey_n n f a = Some k" and "\<And>t. v \<noteq> Symlink t" and "k \<noteq> []"
  shows "realkey_n n (fs_put f k v) a = Some k"
  using assms(1)
proof (induction n arbitrary: a)
  case 0
  then show ?case by simp
next
  case (Suc n)
  show ?case
  proof (cases "\<exists>t. lstat f a = Some (Symlink t)")
    case True
    then obtain t where t: "lstat f a = Some (Symlink t)" by blast
    from realkey_n_end[OF Suc.prems] t have ne: "a \<noteq> k" by auto
    from t Suc.prems have "realkey_n n f (link_target a t) = Some k" by simp
    from Suc.IH[OF this] t lstat_fs_put_other[OF ne, of f v] show ?thesis by simp
  next
    case False
    with Suc.prems have "k = a" by (auto split: option.splits node.splits)
    with assms(2) assms(3) show ?thesis
      by (cases v) (auto simp: lstat_fs_put)
  qed
qed

lemma read_file_exists: "read_file w p = Inr c \<Longrightarrow> os_path_exists w p"
  unfolding read_file_def os_path_exists_def
  by (auto split: if_splits option.splits node.splits)

lemma shutil_copy_success:
  assumes "shutil_copy src dst0 w = (Inr d, w1)" and "\<not> os_path_isdir w dst0"
  shows "\<exists>content k. read_file w src = Inr content \<and>
           realkey (files w) (path_comps (cwd w) dst0) = Some k \<and> k \<noteq> [] \<and> dst0 \<noteq> [] \<and>
           w1 = w\<lparr>files := fs_put (files w) k (File content)\<rparr> \<and> d = dst0 \<and>
           realkey (files w) (path_comps (cwd w) src) \<noteq> Some k"
proof -
  from assms obtain content k where
    rd: "read_file w src = Inr content" and
    rk: "realkey (files w) (path_comps (cwd w) dst0) = Some k" and
    ne: "dst0 \<noteq> []" and
    nd: "lstat (files w) k \<noteq> Some Dir" and
    w1: "w1 = w\<lparr>files := fs_put (files w) k (File content)\<rparr>" and d: "d = dst0" and
    same: "\<not> (os_path_exists w src \<and> os_path_exists w dst0 \<and>
              realkey (files w) (path_comps (cwd w) src) = realkey (files w) (path_comps (cwd w) dst0))"
    unfolding shutil_copy_def Let_def
    by (auto split: if_splits sum.splits option.splits)
  from nd have k: "k \<noteq> []" by (auto simp: lstat_def)
  have "realkey (files w) (path_comps (cwd w) src) \<noteq> Some k"
  proof
    assume eq: "realkey (files w) (path_comps (cwd w) src) = Some k"
    from rd have ex: "os_path_exists w src" by (rule read_file_exists)
    from rd eq have "lstat (files w) k \<noteq> None"
      unfolding read_file_def stat_def by (auto split: if_splits option.splits node.splits)
    with rk ne have "os_path_exists w dst0"
      unfolding os_path_exists_def stat_def by simp
    with ex eq rk same show False by simp
  qed
  with rd rk k ne w1 d show ?thesis by blast
qed

lemma read_file_after_put_same:
  assumes "realkey (files w) (path_comps (cwd w) p) = Some k" and "k \<noteq> []" and "p \<noteq> []"
  shows "read_file (w\<lparr>files := fs_put (files w) k (File content)\<rparr>) p = Inr content"
proof -
  from assms(1) have "realkey_n 40 (files w) (path_comps (cwd w) p) = Some k"
    by (simp add: realkey_def)
  from realkey_n_put_same[OF this, of "File content"] assms(2)
  have "realkey (fs_put (files w) k (File content)) (path_comps (cwd w) p) = Some k"
    by (simp add: realkey_def)
  with assms(2) assms(3) show ?thesis
    unfolding read_file_def stat_def by (simp add: lstat_fs_put)
qed

lemma read_file_after_put_other:
  assumes "read_file w p = Inr c"
    and "realkey (files w) (path_comps (cwd w) q) = Some k"
    and "realkey (files w) (path_comps (cwd w) p) \<noteq> Some k"
  shows "read_file (w\<lparr>files := fs_put (files w) k v\<rparr>) p = Inr c"
proof -
  from assms(1) obtain kp where kp: "realkey (files w) (path_comps (cwd w) p) = Some kp"
    and nd: "lstat (files w) kp = Some (File c)" and pne: "p \<noteq> []"
    unfolding read_file_def stat_def by (auto split: if_splits option.splits node.splits)
  from assms(3) kp have ne: "kp \<noteq> k" by simp
  from assms(2) have "\<And>t. lstat (files w) k \<noteq> Some (Symlink t)"
    using realkey_n_end by (simp add: realkey_def)
  from realkey_n_put_other[OF kp[unfolded realkey_def] this ne]
  have "realkey (fs_put (files w) k v) (path_comps (cwd w) p) = Some kp"
    by (simp add: realkey_def)
  with nd pne lstat_fs_put_other[OF ne, of "files w" v] show ?thesis
    unfolding read_file_def stat_def by simp
qed



end
